theory Spec2Isabelle
  imports Complex_Main
begin

section \<open>The number type of the source\<close>

text \<open>
  Every numeric value of the TypeScript source has type \<open>number\<close>, an IEEE 754 double.
  The model keeps the four kinds of value the source distinguishes (it tests
  \<open>Number.isFinite\<close> and relies on what a division by zero yields): a finite value, the
  two infinities and NaN. A finite value is the real number the double stands for.
\<close>

datatype number = Num real | PInf | NInf | NaN

text \<open>
  Addition, subtraction, multiplication, division and the square root of doubles give the
  exact result rounded to the nearest double, ties to the even significand. \<open>rne\<close>
  rounds a real to the nearest integer, ties to even; \<open>fl\<close> rounds a real to 53
  significant bits: it scales the value so that its integer part has 53 bits, rounds that
  and scales back. The exponent range of a double is not modelled (no overflow to an
  infinity and no underflow: the sizes, zooms and coordinates of this component are far
  inside the range), nor is the sign of zero.
\<close>

definition rne :: "real \<Rightarrow> int" where
  "rne y = (let n = \<lfloor>y\<rfloor>; r = y - of_int n
            in if r < 1/2 then n else if 1/2 < r then n + 1
               else if even n then n else n + 1)"

definition fl :: "real \<Rightarrow> real" where
  "fl x = (if x = 0 then 0
           else (let e = \<lfloor>log 2 \<bar>x\<bar>\<rfloor> - 52
                 in of_int (rne (x / 2 powi e)) * 2 powi e))"

fun js_neg :: "number \<Rightarrow> number" where
  "js_neg (Num a) = Num (- a)"
| "js_neg PInf = NInf"
| "js_neg NInf = PInf"
| "js_neg NaN = NaN"

fun js_add :: "number \<Rightarrow> number \<Rightarrow> number" where
  "js_add (Num a) (Num b) = Num (fl (a + b))"
| "js_add (Num a) PInf = PInf"
| "js_add (Num a) NInf = NInf"
| "js_add PInf (Num b) = PInf"
| "js_add PInf PInf = PInf"
| "js_add PInf NInf = NaN"
| "js_add NInf (Num b) = NInf"
| "js_add NInf NInf = NInf"
| "js_add NInf PInf = NaN"
| "js_add NaN y = NaN"
| "js_add x NaN = NaN"

definition js_sub :: "number \<Rightarrow> number \<Rightarrow> number" where
  "js_sub x y = js_add x (js_neg y)"

text \<open>The sign of a product or quotient with an infinite operand.\<close>

definition signed_inf :: "bool \<Rightarrow> number" where
  "signed_inf positive = (if positive then PInf else NInf)"

fun js_mul :: "number \<Rightarrow> number \<Rightarrow> number" where
  "js_mul (Num a) (Num b) = Num (fl (a * b))"
| "js_mul (Num a) PInf = (if a = 0 then NaN else signed_inf (0 < a))"
| "js_mul (Num a) NInf = (if a = 0 then NaN else signed_inf (a < 0))"
| "js_mul PInf (Num b) = (if b = 0 then NaN else signed_inf (0 < b))"
| "js_mul NInf (Num b) = (if b = 0 then NaN else signed_inf (b < 0))"
| "js_mul PInf PInf = PInf"
| "js_mul PInf NInf = NInf"
| "js_mul NInf PInf = NInf"
| "js_mul NInf NInf = PInf"
| "js_mul NaN y = NaN"
| "js_mul x NaN = NaN"

fun js_div :: "number \<Rightarrow> number \<Rightarrow> number" where
  "js_div (Num a) (Num b) =
     (if b = 0 then (if a = 0 then NaN else signed_inf (0 < a)) else Num (fl (a / b)))"
| "js_div (Num a) PInf = Num 0"
| "js_div (Num a) NInf = Num 0"
| "js_div PInf (Num b) = signed_inf (0 \<le> b)"
| "js_div NInf (Num b) = signed_inf (b < 0)"
| "js_div PInf PInf = NaN"
| "js_div PInf NInf = NaN"
| "js_div NInf PInf = NaN"
| "js_div NInf NInf = NaN"
| "js_div NaN y = NaN"
| "js_div x NaN = NaN"

text \<open>Comparisons: every comparison with NaN is false.\<close>

fun js_lt :: "number \<Rightarrow> number \<Rightarrow> bool" where
  "js_lt (Num a) (Num b) = (a < b)"
| "js_lt (Num a) PInf = True"
| "js_lt (Num a) NInf = False"
| "js_lt PInf y = False"
| "js_lt NInf (Num b) = True"
| "js_lt NInf PInf = True"
| "js_lt NInf NInf = False"
| "js_lt NaN y = False"
| "js_lt x NaN = False"

definition js_gt :: "number \<Rightarrow> number \<Rightarrow> bool" where
  "js_gt x y = js_lt y x"

text \<open>\<open>x === y\<close> and \<open>x !== y\<close> on numbers: NaN differs from itself.\<close>

definition js_eq :: "number \<Rightarrow> number \<Rightarrow> bool" where
  "js_eq x y = (x \<noteq> NaN \<and> y \<noteq> NaN \<and> x = y)"

definition js_le :: "number \<Rightarrow> number \<Rightarrow> bool" where
  "js_le x y = (js_lt x y \<or> js_eq x y)"

definition js_ge :: "number \<Rightarrow> number \<Rightarrow> bool" where
  "js_ge x y = js_le y x"

text \<open>\<open>!x\<close> on a number: zero and NaN are falsy.\<close>

definition js_falsy :: "number \<Rightarrow> bool" where
  "js_falsy x = (x = Num 0 \<or> x = NaN)"

fun Number_isFinite :: "number \<Rightarrow> bool" where
  "Number_isFinite (Num a) = True"
| "Number_isFinite PInf = False"
| "Number_isFinite NInf = False"
| "Number_isFinite NaN = False"

text \<open>\<open>Math.max\<close> and \<open>Math.min\<close> return NaN as soon as one argument is NaN.\<close>

definition Math_max :: "number \<Rightarrow> number \<Rightarrow> number" where
  "Math_max x y = (if x = NaN \<or> y = NaN then NaN else if js_lt x y then y else x)"

definition Math_min :: "number \<Rightarrow> number \<Rightarrow> number" where
  "Math_min x y = (if x = NaN \<or> y = NaN then NaN else if js_lt y x then y else x)"

fun Math_ceil :: "number \<Rightarrow> number" where
  "Math_ceil (Num a) = Num (of_int \<lceil>a\<rceil>)"
| "Math_ceil PInf = PInf"
| "Math_ceil NInf = NInf"
| "Math_ceil NaN = NaN"

fun Math_sqrt :: "number \<Rightarrow> number" where
  "Math_sqrt (Num a) = (if a < 0 then NaN else Num (fl (sqrt a)))"
| "Math_sqrt PInf = PInf"
| "Math_sqrt NInf = NaN"
| "Math_sqrt NaN = NaN"

section \<open>Geometry helpers\<close>

text \<open>
  \<open>lib/utils\<close>:
  \<^verbatim>\<open>export const clamp = (num, min, max) => Math.min(Math.max(num, min), max)\<close>
\<close>

definition clamp :: "number \<Rightarrow> number \<Rightarrow> number \<Rightarrow> number" where
  "clamp num mn mx = Math_min (Math_max num mn) mx"

section \<open>Media elements and the state of the combiner\<close>

text \<open>
  The DOM elements the combiner holds, with the attributes the source reads: the
  dimensions (unsigned integers in the DOM) and the \<open>src\<close> attribute.
  \<open>el instanceof HTMLImageElement\<close> is the test for the constructor \<open>Image\<close>.
\<close>

record HTMLImageElement =
  naturalWidth :: nat
  naturalHeight :: nat
  img_src :: string

record HTMLVideoElement =
  videoWidth :: nat
  videoHeight :: nat
  video_src :: string

datatype media_element = Image HTMLImageElement | Video HTMLVideoElement

text \<open>\<open>type MediaType = 'image' | 'video' | null\<close>: null is \<open>None\<close> of the option type.\<close>

datatype MediaType = image | video

text \<open>
  \<open>type DragType = 'left' | 'right' | 'logo' | null\<close> and
  \<open>type PinchSide = 'left' | 'right' | null\<close>; null is \<open>None\<close>, and the pinch side
  is only ever set from a touch start whose type is not \<open>'logo'\<close>.
\<close>

datatype DragType = Left | Right | Logo

text \<open>\<open>type RelativeFocus = { x: number; y: number }\<close>, also the type of the logo position.\<close>

record RelativeFocus =
  xc :: number
  yc :: number

datatype save_exception =
    InvalidFinalDimensions number number
  | NoContext2D

datatype save_error =
    NotReadyMessage
  | SaveFailed save_exception
  | BlobFailed

text \<open>
  The state hooks of \<open>ImageCombiner\<close> (components/image-combiner/index.tsx), the
  \<open>isMounted\<close> ref, and the object URLs revoked so far.
\<close>

record combiner_state =
  leftMedia :: "string option"
  rightMedia :: "string option"
  logo :: "string option"
  leftMediaType :: "MediaType option"
  rightMediaType :: "MediaType option"
  leftMediaElement :: "media_element option"
  rightMediaElement :: "media_element option"
  logoElement :: "HTMLImageElement option"
  leftZoom :: number
  rightZoom :: number
  logoZoom :: number
  leftRelativeFocus :: RelativeFocus
  rightRelativeFocus :: RelativeFocus
  logoPosition :: RelativeFocus
  isSaving :: bool
  saveError :: "save_error option"
  leftLoadError :: "string option"
  rightLoadError :: "string option"
  logoLoadError :: "string option"
  isLoadingLeft :: bool
  isLoadingRight :: bool
  isLoadingLogo :: bool
  isMounted :: bool
  revoked :: "string list"

definition initial_state :: combiner_state where
  "initial_state = \<lparr>
     leftMedia = None, rightMedia = None, logo = None,
     leftMediaType = None, rightMediaType = None,
     leftMediaElement = None, rightMediaElement = None, logoElement = None,
     leftZoom = Num 100, rightZoom = Num 100, logoZoom = Num 10,
     leftRelativeFocus = \<lparr>xc = Num (1/2), yc = Num (1/2)\<rparr>,
     rightRelativeFocus = \<lparr>xc = Num (1/2), yc = Num (1/2)\<rparr>,
     logoPosition = \<lparr>xc = Num 50, yc = Num 90\<rparr>,
     isSaving = False, saveError = None,
     leftLoadError = None, rightLoadError = None, logoLoadError = None,
     isLoadingLeft = False, isLoadingRight = False, isLoadingLogo = False,
     isMounted = True, revoked = []\<rparr>"

section \<open>The live preview: drawMediaSection\<close>

text \<open>The arguments of one \<open>ctx.drawImage(el, sx, sy, sWidth, sHeight, dX, dY, dW, dH)\<close> call.\<close>

record draw_params =
  sx :: number
  sy :: number
  sWidth :: number
  sHeight :: number
  dX :: number
  dY :: number
  dW :: number
  dH :: number

text \<open>\<open>a || b\<close> on numbers.\<close>

definition js_or :: "number \<Rightarrow> number \<Rightarrow> number" where
  "js_or a b = (if js_falsy a then b else a)"

text \<open>\<open>isImage ? mediaElement.naturalWidth : mediaElement.videoWidth\<close> and its height twin.\<close>

fun elementWidth :: "media_element \<Rightarrow> number" where
  "elementWidth (Image i) = Num (real (naturalWidth i))"
| "elementWidth (Video v) = Num (real (videoWidth v))"

fun elementHeight :: "media_element \<Rightarrow> number" where
  "elementHeight (Image i) = Num (real (naturalHeight i))"
| "elementHeight (Video v) = Num (real (videoHeight v))"

text \<open>
  \<open>drawMediaSection\<close> of combined-preview-area.tsx. The result is the \<open>drawImage\<close> call
  it makes on the slot's canvas, or \<open>None\<close> when it returns without drawing.
  \<open>clearRect\<close>, \<open>save\<close> and \<open>restore\<close> do not depend on the computation and are left
  out, as is the \<open>catch\<close> block, which only paints an error mark when a canvas call throws.
\<close>

definition drawMediaSection ::
  "media_element option \<Rightarrow> number \<Rightarrow> number \<Rightarrow> number \<Rightarrow> RelativeFocus \<Rightarrow> draw_params option" where
  "drawMediaSection mediaElement targetCanvasWidth targetCanvasHeight zoomPercent relativeFocus =
    (let dWidth = js_div targetCanvasWidth (Num 2);
         dHeight = targetCanvasHeight;
         dx = Num 0;
         dy = Num 0
     in case mediaElement of
          None \<Rightarrow> None
        | Some el \<Rightarrow>
           (let sourceWidth = js_or (elementWidth el) (Num 0);
                sourceHeight = js_or (elementHeight el) (Num 0)
            in if js_falsy sourceWidth \<or> js_falsy sourceHeight
                  \<or> js_le sourceWidth (Num 0) \<or> js_le sourceHeight (Num 0)
               then None
               else
                (let overallScale = js_div zoomPercent (Num 100);
                     sourceAspect = js_div sourceWidth sourceHeight;
                     destAspect = js_div dWidth dHeight;
                     coverScale = (if js_gt sourceAspect destAspect
                                   then js_div dHeight sourceHeight
                                   else js_div dWidth sourceWidth);
                     finalScale = js_mul coverScale overallScale
                 in if js_le finalScale (Num 0) \<or> \<not> Number_isFinite finalScale
                    then None
                    else
                     (let sWidthFinal = js_div dWidth finalScale;
                          sHeightFinal = js_div dHeight finalScale;
                          sxIdeal = js_sub (js_mul sourceWidth (xc relativeFocus))
                                           (js_div sWidthFinal (Num 2));
                          syIdeal = js_sub (js_mul sourceHeight (yc relativeFocus))
                                           (js_div sHeightFinal (Num 2));
                          sx' = clamp sxIdeal (Num 0)
                                  (Math_max (Num 0) (js_sub sourceWidth sWidthFinal));
                          sy' = clamp syIdeal (Num 0)
                                  (Math_max (Num 0) (js_sub sourceHeight sHeightFinal))
                      in if js_gt sWidthFinal (Num 0) \<and> js_gt sHeightFinal (Num 0)
                            \<and> js_gt dWidth (Num 0) \<and> js_gt dHeight (Num 0)
                            \<and> Number_isFinite sx' \<and> Number_isFinite sy'
                            \<and> Number_isFinite sWidthFinal \<and> Number_isFinite sHeightFinal
                         then Some \<lparr>sx = sx', sy = sy',
                                     sWidth = sWidthFinal, sHeight = sHeightFinal,
                                     dX = dx, dY = dy, dW = dWidth, dH = dHeight\<rparr>
                         else None))))"

section \<open>The exporter: canSaveComposite and saveCompositeImage\<close>

text \<open>\<open>!logo\<close> on \<open>string | null\<close>: null and the empty string are falsy.\<close>

definition string_falsy :: "string option \<Rightarrow> bool" where
  "string_falsy u = (case u of None \<Rightarrow> True | Some str \<Rightarrow> str = [])"

text \<open>
  \<open>!!el && el instanceof HTMLImageElement && el.naturalWidth > 0 && el.naturalHeight > 0\<close>
\<close>

fun isLoadedImage :: "media_element option \<Rightarrow> bool" where
  "isLoadedImage None = False"
| "isLoadedImage (Some (Video v)) = False"
| "isLoadedImage (Some (Image i)) = (0 < naturalWidth i \<and> 0 < naturalHeight i)"

definition canSaveComposite :: "combiner_state \<Rightarrow> bool" where
  "canSaveComposite s =
    (let leftIsLoadedImage = isLoadedImage (leftMediaElement s);
         rightIsLoadedImage = isLoadedImage (rightMediaElement s);
         logoIsLoadedImageOrNotProvided =
           (string_falsy (logo s) \<or>
            (case logoElement s of
               None \<Rightarrow> False
             | Some l \<Rightarrow> 0 < naturalWidth l \<and> 0 < naturalHeight l \<and> \<not> isLoadingLogo s))
     in leftIsLoadedImage \<and> rightIsLoadedImage \<and> logoIsLoadedImageOrNotProvided
        \<and> \<not> isLoadingLeft s \<and> \<not> isLoadingRight s)"

text \<open>
  \<open>drawFinalMedia\<close>, the function nested in \<open>saveCompositeImage\<close>. Its media element is
  an \<open>HTMLImageElement\<close>, its section is \<open>'left'\<close> or \<open>'right'\<close> (any other value
  takes the branch of \<open>'right'\<close>). The result is the \<open>drawImage\<close> call it makes on the
  final canvas, or \<open>None\<close>. (The clip it sets is exactly the destination rectangle of
  that call.)
\<close>

definition drawFinalMedia ::
  "HTMLImageElement \<Rightarrow> DragType \<Rightarrow> number \<Rightarrow> number \<Rightarrow> number \<Rightarrow> RelativeFocus \<Rightarrow> draw_params option" where
  "drawFinalMedia mediaEl section outputWidth outputHeight zoom focus =
    (let sectionWidth = js_div outputWidth (Num 2);
         sectionHeight = outputHeight;
         sectionDx = (if section = Left then Num 0 else sectionWidth);
         sectionDy = Num 0;
         sourceWidth = Num (real (naturalWidth mediaEl));
         sourceHeight = Num (real (naturalHeight mediaEl))
     in if js_le sourceWidth (Num 0) \<or> js_le sourceHeight (Num 0) then None
        else
         (let overallScale = js_div zoom (Num 100);
              sourceAspect = js_div sourceWidth sourceHeight;
              destAspect = js_div sectionWidth sectionHeight;
              coverScale = (if js_gt sourceAspect destAspect
                            then js_div sectionHeight sourceHeight
                            else js_div sectionWidth sourceWidth);
              finalScale = js_mul coverScale overallScale
          in if js_le finalScale (Num 0) \<or> \<not> Number_isFinite finalScale then None
             else
              (let sWidthFinal = js_div sectionWidth finalScale;
                   sHeightFinal = js_div sectionHeight finalScale;
                   sxIdeal = js_sub (js_mul sourceWidth (xc focus)) (js_div sWidthFinal (Num 2));
                   syIdeal = js_sub (js_mul sourceHeight (yc focus)) (js_div sHeightFinal (Num 2));
                   sx' = clamp sxIdeal (Num 0) (Math_max (Num 0) (js_sub sourceWidth sWidthFinal));
                   sy' = clamp syIdeal (Num 0) (Math_max (Num 0) (js_sub sourceHeight sHeightFinal))
               in if js_gt sWidthFinal (Num 0) \<and> js_gt sHeightFinal (Num 0)
                     \<and> Number_isFinite sx' \<and> Number_isFinite sy'
                     \<and> Number_isFinite sWidthFinal \<and> Number_isFinite sHeightFinal
                  then Some \<lparr>sx = sx', sy = sy', sWidth = sWidthFinal, sHeight = sHeightFinal,
                              dX = sectionDx, dY = sectionDy,
                              dW = sectionWidth, dH = sectionHeight\<rparr>
                  else None)))"

text \<open>
  What \<open>saveCompositeImage\<close> reads from the page: the offset size of the element with id
  \<open>combined-preview-container\<close> (\<open>None\<close> when \<open>getElementById\<close> finds nothing), and
  whether \<open>canvas.getContext('2d')\<close> yields a context.
\<close>

record page =
  container :: "(int \<times> int) option"
  context2d :: bool

text \<open>The operations on the final canvas, in order.\<close>

datatype canvas_op =
    FillRect string number number number number
  | DrawImage media_element draw_params
  | DrawLogo HTMLImageElement number number number number

text \<open>
  The three ways \<open>saveCompositeImage\<close> ends: at the guard, in the catch block, or with
  the canvas drawn and \<open>canvas.toBlob(callback, type, quality)\<close> called.
\<close>

datatype save_outcome =
    Blocked
  | Threw save_exception
  | Rendered number number "canvas_op list" string number

text \<open>The size of the final canvas: the first statements of the try block.\<close>

definition Math_max3 :: "number \<Rightarrow> number \<Rightarrow> number \<Rightarrow> number" where
  "Math_max3 a b c = Math_max (Math_max a b) c"

definition displayAspect :: "page \<Rightarrow> number" where
  "displayAspect pg =
    (case container pg of
       Some (offsetWidth, offsetHeight) \<Rightarrow>
         if 0 < offsetWidth \<and> 0 < offsetHeight
         then js_div (Num (real_of_int offsetWidth)) (Num (real_of_int offsetHeight))
         else js_div (Num 16) (Num 9)
     | None \<Rightarrow> js_div (Num 16) (Num 9))"

definition finalDimensions :: "HTMLImageElement \<Rightarrow> HTMLImageElement \<Rightarrow> page \<Rightarrow> number \<times> number" where
  "finalDimensions safeLeftElement safeRightElement pg =
    (let targetWidthPerImage = Math_max3 (Num (real (naturalWidth safeLeftElement)))
                                         (Num (real (naturalWidth safeRightElement))) (Num 500);
         finalWidth = js_mul targetWidthPerImage (Num 2);
         finalHeight = Math_ceil (js_div finalWidth (displayAspect pg))
     in (finalWidth, finalHeight))"

text \<open>The logo overlay of the export.\<close>

definition drawFinalLogo ::
  "HTMLImageElement \<Rightarrow> number \<Rightarrow> number \<Rightarrow> number \<Rightarrow> RelativeFocus \<Rightarrow> canvas_op list" where
  "drawFinalLogo safeLogoElement finalWidth finalHeight logoZoom' logoPosition' =
    (let logoAspectRatio = js_div (Num (real (naturalHeight safeLogoElement)))
                                  (Num (real (naturalWidth safeLogoElement)));
         targetLogoWidth = js_div (js_mul finalWidth logoZoom') (Num 100);
         targetLogoHeight = js_mul targetLogoWidth
                              (if logoAspectRatio = NaN then Num 1 else logoAspectRatio);
         logoCenterX = js_div (js_mul finalWidth (xc logoPosition')) (Num 100);
         logoCenterY = js_div (js_mul finalHeight (yc logoPosition')) (Num 100);
         logoDrawX = js_sub logoCenterX (js_div targetLogoWidth (Num 2));
         logoDrawY = js_sub logoCenterY (js_div targetLogoHeight (Num 2));
         logoDrawX' = clamp logoDrawX (Num 0) (Math_max (Num 0) (js_sub finalWidth targetLogoWidth));
         logoDrawY' = clamp logoDrawY (Num 0) (Math_max (Num 0) (js_sub finalHeight targetLogoHeight))
     in if js_gt targetLogoWidth (Num 0) \<and> js_gt targetLogoHeight (Num 0)
        then [DrawLogo safeLogoElement logoDrawX' logoDrawY' targetLogoWidth targetLogoHeight]
        else [])"

text \<open>
  \<open>saveCompositeImage\<close> up to the call of \<open>canvas.toBlob\<close>. The casts of the source are
  safe after the guard; the model returns at the guard's branch for the element shapes
  the guard excludes.
\<close>

definition saveCompositeImage :: "page \<Rightarrow> combiner_state \<Rightarrow> combiner_state \<times> save_outcome" where
  "saveCompositeImage pg s =
    (if \<not> canSaveComposite s then (s\<lparr>saveError := Some NotReadyMessage\<rparr>, Blocked)
     else case (leftMediaElement s, rightMediaElement s) of
       (Some (Image safeLeftElement), Some (Image safeRightElement)) \<Rightarrow>
         (let safeLogoElement = logoElement s;
              s1 = s\<lparr>isSaving := True, saveError := None\<rparr>;
              caught = (\<lambda>e. (if isMounted s1
                              then s1\<lparr>saveError := Some (SaveFailed e), isSaving := False\<rparr>
                              else s1, Threw e));
              (finalWidth, finalHeight) = finalDimensions safeLeftElement safeRightElement pg
          in if \<not> Number_isFinite finalWidth \<or> js_le finalWidth (Num 0)
                \<or> \<not> Number_isFinite finalHeight \<or> js_le finalHeight (Num 0)
             then caught (InvalidFinalDimensions finalWidth finalHeight)
             else if \<not> context2d pg then caught NoContext2D
             else
              (let background = [FillRect ''#ffffff'' (Num 0) (Num 0) finalWidth finalHeight];
                   leftOps = (case drawFinalMedia safeLeftElement Left finalWidth finalHeight
                                     (leftZoom s) (leftRelativeFocus s) of
                                None \<Rightarrow> []
                              | Some d \<Rightarrow> [DrawImage (Image safeLeftElement) d]);
                   rightOps = (case drawFinalMedia safeRightElement Right finalWidth finalHeight
                                      (rightZoom s) (rightRelativeFocus s) of
                                 None \<Rightarrow> []
                               | Some d \<Rightarrow> [DrawImage (Image safeRightElement) d]);
                   logoOps = (case safeLogoElement of
                                None \<Rightarrow> []
                              | Some l \<Rightarrow> drawFinalLogo l finalWidth finalHeight
                                            (logoZoom s) (logoPosition s))
               in (s1, Rendered finalWidth finalHeight
                         (background @ leftOps @ rightOps @ logoOps)
                         ''image/png'' (Num (fl (95/100))))))
     | _ \<Rightarrow> (s\<lparr>saveError := Some NotReadyMessage\<rparr>, Blocked))"

text \<open>
  The callback of \<open>canvas.toBlob\<close>: \<open>blob\<close> tells whether the browser produced a blob.
  The second component is the \<open>download\<close> attribute of the anchor that is clicked, if one is.
\<close>

definition toBlob_callback :: "bool \<Rightarrow> combiner_state \<Rightarrow> combiner_state \<times> string option" where
  "toBlob_callback blob s =
    (if blob \<and> isMounted s then (s\<lparr>isSaving := False\<rparr>, Some ''imagem-combinada.png'')
     else if \<not> isMounted s then (s, None)
     else (s\<lparr>saveError := Some BlobFailed, isSaving := False\<rparr>, None))"

section \<open>The gesture controller of the preview area\<close>

text \<open>
  Pointer coordinates and the size of the container's bounding rectangle are finite
  numbers, so they are reals here. \<open>x !== y\<close> on numbers is \<open>\<not> js_eq x y\<close>.
\<close>

record Touch =
  clientX :: real
  clientY :: real

definition calculateDistance :: "Touch \<Rightarrow> Touch \<Rightarrow> number" where
  "calculateDistance touch1 touch2 =
    (let dx = js_sub (Num (clientX touch1)) (Num (clientX touch2));
         dy = js_sub (Num (clientY touch1)) (Num (clientY touch2))
     in Math_sqrt (js_add (js_mul dx dx) (js_mul dy dy)))"

definition MIN_ZOOM :: number where
  "MIN_ZOOM = Num 10"

definition MAX_ZOOM :: number where
  "MAX_ZOOM = Num 500"

text \<open>The interaction state hooks of \<open>CombinedPreviewArea\<close>.\<close>

record gesture_state =
  activeDrag :: "DragType option"
  dragStart :: "real \<times> real"
  initialDragFocus :: RelativeFocus
  initialLogoPos :: RelativeFocus
  isTouching :: bool
  isPinching :: bool
  initialPinchDistance :: number
  pinchSide :: "DragType option"
  zoomAtPinchStart :: number

definition initial_gesture :: gesture_state where
  "initial_gesture = \<lparr>
     activeDrag = None, dragStart = (0, 0),
     initialDragFocus = \<lparr>xc = Num (1/2), yc = Num (1/2)\<rparr>,
     initialLogoPos = \<lparr>xc = Num 50, yc = Num 90\<rparr>,
     isTouching = False, isPinching = False, initialPinchDistance = Num 0,
     pinchSide = None, zoomAtPinchStart = Num 100\<rparr>"

text \<open>
  \<open>(type === 'left' && leftMediaElement) || (type === 'right' && rightMediaElement) ||
  (type === 'logo' && logoElement)\<close>
\<close>

fun mediaExists :: "DragType \<Rightarrow> combiner_state \<Rightarrow> bool" where
  "mediaExists Left s = (leftMediaElement s \<noteq> None)"
| "mediaExists Right s = (rightMediaElement s \<noteq> None)"
| "mediaExists Logo s = (logoElement s \<noteq> None)"

text \<open>
  The handlers read the state of the last render and queue their updates; the model
  applies the updates in the order of the source and reads the old state where the
  source reads it. The result of \<open>handleInteractionStart\<close> is its boolean return value
  beside the new state.
\<close>

definition handleInteractionStart ::
  "real \<Rightarrow> real \<Rightarrow> DragType \<Rightarrow> bool \<Rightarrow> combiner_state \<Rightarrow> gesture_state \<Rightarrow> gesture_state \<times> bool" where
  "handleInteractionStart cx cy type isTouch s g =
    (let g1 = g\<lparr>activeDrag := None, isPinching := False, pinchSide := None,
                initialPinchDistance := Num 0, isTouching := isTouch\<rparr>
     in if \<not> mediaExists type s then (g1\<lparr>isTouching := False\<rparr>, False)
        else if isTouch \<and> isPinching g then (g1, False)
        else
         (let g2 = g1\<lparr>activeDrag := Some type, dragStart := (cx, cy)\<rparr>
          in ((case type of
                 Left \<Rightarrow> g2\<lparr>initialDragFocus := leftRelativeFocus s\<rparr>
               | Right \<Rightarrow> g2\<lparr>initialDragFocus := rightRelativeFocus s\<rparr>
               | Logo \<Rightarrow> g2\<lparr>initialLogoPos := logoPosition s\<rparr>), True)))"

definition handleDragEnd :: "gesture_state \<Rightarrow> gesture_state" where
  "handleDragEnd g = (if activeDrag g \<noteq> None then g\<lparr>activeDrag := None\<rparr> else g)"

text \<open>
  \<open>panMedia\<close>, the closure inside \<open>handleDragMove\<close>; the variables it captures are its
  first arguments here. The result is the focus passed to \<open>setRelativeFocus\<close>, or
  \<open>None\<close> when the setter is not called.
\<close>

definition panMedia ::
  "number \<Rightarrow> number \<Rightarrow> number \<Rightarrow> number \<Rightarrow> DragType option \<Rightarrow> combiner_state \<Rightarrow>
   media_element \<Rightarrow> number \<Rightarrow> RelativeFocus \<Rightarrow> RelativeFocus option" where
  "panMedia deltaX deltaY previewHalfWidth containerHeight activeDrag' s
            mediaElement zoom initialFocus =
    (let currentZoom = js_div zoom (Num 100);
         sourceWidth = js_or (elementWidth mediaElement) (Num 1);
         sourceHeight = js_or (elementHeight mediaElement) (Num 1);
         destAspect = js_div previewHalfWidth containerHeight;
         sourceAspect = js_div sourceWidth sourceHeight;
         scaleToCover = (if js_gt sourceAspect destAspect
                         then js_div containerHeight sourceHeight
                         else js_div previewHalfWidth sourceWidth);
         finalScale = js_mul scaleToCover currentZoom
     in if js_le finalScale (Num 0) \<or> \<not> Number_isFinite finalScale then None
        else
         (let effectiveFocusDeltaX = js_div deltaX (js_mul sourceWidth finalScale);
              effectiveFocusDeltaY = js_div deltaY (js_mul sourceHeight finalScale);
              newFocusX = clamp (js_sub (xc initialFocus) effectiveFocusDeltaX) (Num 0) (Num 1);
              newFocusY = clamp (js_sub (yc initialFocus) effectiveFocusDeltaY) (Num 0) (Num 1)
          in if (activeDrag' = Some Left
                 \<and> (\<not> js_eq newFocusX (xc (leftRelativeFocus s))
                      \<or> \<not> js_eq newFocusY (yc (leftRelativeFocus s))))
                \<or> (activeDrag' = Some Right
                    \<and> (\<not> js_eq newFocusX (xc (rightRelativeFocus s))
                         \<or> \<not> js_eq newFocusY (yc (rightRelativeFocus s))))
             then Some \<lparr>xc = newFocusX, yc = newFocusY\<rparr>
             else None))"

text \<open>
  \<open>handleDragMove\<close>; \<open>rect\<close> is the width and height of the container's bounding
  rectangle, \<open>None\<close> when the container ref is null. It changes the parent's state only.
  A slot's element is read only in the branch whose guard has checked that it is not null.
  Requesting a redraw changes none of the state modelled here and is left out.
\<close>

definition handleDragMove ::
  "real \<Rightarrow> real \<Rightarrow> (real \<times> real) option \<Rightarrow> gesture_state \<Rightarrow> combiner_state \<Rightarrow> combiner_state" where
  "handleDragMove cx cy rect g s =
    (if activeDrag g = None \<or> isPinching g then s
     else
      (let deltaX = js_sub (Num cx) (Num (fst (dragStart g)));
           deltaY = js_sub (Num cy) (Num (snd (dragStart g)))
       in case rect of
            None \<Rightarrow> s
          | Some (w, h) \<Rightarrow>
             (let containerWidth = Num w;
                  containerHeight = Num h
              in if js_le containerWidth (Num 0) \<or> js_le containerHeight (Num 0) then s
                 else
                  (let previewHalfWidth = js_div containerWidth (Num 2)
                   in if activeDrag g = Some Left \<and> leftMediaElement s \<noteq> None then
                        (case panMedia deltaX deltaY previewHalfWidth containerHeight
                                (activeDrag g) s (the (leftMediaElement s)) (leftZoom s)
                                (initialDragFocus g) of
                           None \<Rightarrow> s
                         | Some f \<Rightarrow> s\<lparr>leftRelativeFocus := f\<rparr>)
                      else if activeDrag g = Some Right \<and> rightMediaElement s \<noteq> None then
                        (case panMedia deltaX deltaY previewHalfWidth containerHeight
                                (activeDrag g) s (the (rightMediaElement s)) (rightZoom s)
                                (initialDragFocus g) of
                           None \<Rightarrow> s
                         | Some f \<Rightarrow> s\<lparr>rightRelativeFocus := f\<rparr>)
                      else if activeDrag g = Some Logo \<and> logoElement s \<noteq> None then
                        (let percentDeltaX = js_mul (js_div deltaX containerWidth) (Num 100);
                             percentDeltaY = js_mul (js_div deltaY containerHeight) (Num 100);
                             newLogoX = clamp (js_add (xc (initialLogoPos g)) percentDeltaX)
                                          (Num 0) (Num 100);
                             newLogoY = clamp (js_add (yc (initialLogoPos g)) percentDeltaY)
                                          (Num 0) (Num 100)
                         in if \<not> js_eq newLogoX (xc (logoPosition s))
                               \<or> \<not> js_eq newLogoY (yc (logoPosition s))
                            then s\<lparr>logoPosition := \<lparr>xc = newLogoX, yc = newLogoY\<rparr>\<rparr>
                            else s)
                      else s))))"

text \<open>
  A touch event: the touches now on the surface; the \<open>data-interactive-area\<close> attribute
  of the target, when it names an area; whether the target lies in the logo container.
\<close>

record touch_event =
  touches :: "Touch list"
  target_area :: "DragType option"
  target_in_logo :: bool

definition handleTouchStart ::
  "touch_event \<Rightarrow> DragType \<Rightarrow> combiner_state \<Rightarrow> gesture_state \<Rightarrow> gesture_state" where
  "handleTouchStart e type s g =
    (let isInteractiveArea = (target_area e = Some type);
         isLogoArea = (type = Logo \<and> target_in_logo e)
     in if \<not> isInteractiveArea \<and> \<not> isLogoArea then g
        else if \<not> mediaExists type s then g
        else
         (let currentTouches = touches e
          in if length currentTouches = 1 \<and> type \<noteq> Logo \<and> \<not> isPinching g then
               fst (handleInteractionStart (clientX (currentTouches ! 0))
                      (clientY (currentTouches ! 0)) type True s g)
             else if length currentTouches = 1 \<and> type = Logo \<and> \<not> isPinching g then
               fst (handleInteractionStart (clientX (currentTouches ! 0))
                      (clientY (currentTouches ! 0)) type True s g)
             else if length currentTouches = 2 \<and> type \<noteq> Logo then
               (let g1 = (if activeDrag g \<noteq> None then handleDragEnd g else g);
                    initialDist = calculateDistance (currentTouches ! 0) (currentTouches ! 1)
                in g1\<lparr>isPinching := True, isTouching := False, pinchSide := Some type,
                       initialPinchDistance := initialDist,
                       zoomAtPinchStart := (if type = Left then leftZoom s else rightZoom s)\<rparr>)
             else g))"

definition handleTouchMove ::
  "touch_event \<Rightarrow> (real \<times> real) option \<Rightarrow> gesture_state \<Rightarrow> combiner_state \<Rightarrow> combiner_state" where
  "handleTouchMove e rect g s =
    (if isPinching g \<and> length (touches e) = 2 \<and> pinchSide g \<noteq> None then
       (let currentDist = calculateDistance (touches e ! 0) (touches e ! 1)
        in if js_le (initialPinchDistance g) (Num 0) then s
           else
            (let scale = js_div currentDist (initialPinchDistance g);
                 newZoom = clamp (js_mul (zoomAtPinchStart g) scale) MIN_ZOOM MAX_ZOOM
             in if pinchSide g = Some Left then
                  (if \<not> js_eq (leftZoom s) newZoom then s\<lparr>leftZoom := newZoom\<rparr> else s)
                else if pinchSide g = Some Right then
                  (if \<not> js_eq (rightZoom s) newZoom then s\<lparr>rightZoom := newZoom\<rparr> else s)
                else s))
     else if activeDrag g \<noteq> None \<and> isTouching g \<and> length (touches e) = 1 \<and> \<not> isPinching g then
       handleDragMove (clientX (touches e ! 0)) (clientY (touches e ! 0)) rect g s
     else s)"

text \<open>
  The numeric inputs of the control panel (control-panel.tsx):
  \<open>setLogoPosition({...logoPosition, x: clamp(Number(e.target.value), 0, 100)})\<close> and its
  twin for \<open>y\<close>. The value of a number input parses to a finite number (the empty
  string to 0), the real \<open>v\<close> here.
\<close>

definition logoPositionXInput :: "real \<Rightarrow> combiner_state \<Rightarrow> combiner_state" where
  "logoPositionXInput v s =
     s\<lparr>logoPosition := (logoPosition s)\<lparr>xc := clamp (Num v) (Num 0) (Num 100)\<rparr>\<rparr>"

definition logoPositionYInput :: "real \<Rightarrow> combiner_state \<Rightarrow> combiner_state" where
  "logoPositionYInput v s =
     s\<lparr>logoPosition := (logoPosition s)\<lparr>yc := clamp (Num v) (Num 0) (Num 100)\<rparr>\<rparr>"

text \<open>The sliders of the control panel: \<open>onValueChange={(v) => setLeftZoom(v[0])}\<close>.\<close>

fun zoomSlider :: "DragType \<Rightarrow> real \<Rightarrow> combiner_state \<Rightarrow> combiner_state" where
  "zoomSlider Left v s = s\<lparr>leftZoom := Num v\<rparr>"
| "zoomSlider Right v s = s\<lparr>rightZoom := Num v\<rparr>"
| "zoomSlider Logo v s = s\<lparr>logoZoom := Num v\<rparr>"

text \<open>The mouse handlers, the end of a touch and the wheel.\<close>

record mouse_event =
  button :: int
  mouseX :: real
  mouseY :: real
  mouse_target_area :: "DragType option"
  mouse_target_in_logo :: bool

definition handleMouseDown ::
  "mouse_event \<Rightarrow> DragType \<Rightarrow> combiner_state \<Rightarrow> gesture_state \<Rightarrow> gesture_state" where
  "handleMouseDown e type s g =
    (if button e \<noteq> 0 then g
     else
      (let isInteractive = (mouse_target_area e = Some type);
           isLogo = (type = Logo \<and> mouse_target_in_logo e)
       in if isInteractive \<or> isLogo
          then fst (handleInteractionStart (mouseX e) (mouseY e) type False s g)
          else g))"

definition handleMouseMove ::
  "real \<Rightarrow> real \<Rightarrow> (real \<times> real) option \<Rightarrow> gesture_state \<Rightarrow> combiner_state \<Rightarrow> combiner_state" where
  "handleMouseMove cx cy rect g s =
    (if activeDrag g \<noteq> None \<and> \<not> isTouching g \<and> \<not> isPinching g
     then handleDragMove cx cy rect g s else s)"

definition handleMouseUp :: "int \<Rightarrow> gesture_state \<Rightarrow> gesture_state" where
  "handleMouseUp b g =
    (let g1 = (if b = 0 \<and> activeDrag g \<noteq> None \<and> \<not> isTouching g \<and> \<not> isPinching g
               then handleDragEnd g else g)
     in if isTouching g then g1\<lparr>isTouching := False\<rparr> else g1)"

definition handleTouchEnd :: "nat \<Rightarrow> gesture_state \<Rightarrow> gesture_state" where
  "handleTouchEnd touchesRemaining g =
    (let g1 =
       (if touchesRemaining = 0 then
          (let g0 = (if activeDrag g \<noteq> None \<and> isTouching g then handleDragEnd g else g)
           in g0\<lparr>isTouching := False, isPinching := False, pinchSide := None,
                  initialPinchDistance := Num 0\<rparr>)
        else if touchesRemaining < 2 \<and> isPinching g then
          g\<lparr>isPinching := False, pinchSide := None, initialPinchDistance := Num 0\<rparr>
        else g)
     in if isTouching g \<and> touchesRemaining = 0 then g1\<lparr>isTouching := False\<rparr> else g1)"

definition handleWheelZoom :: "real \<Rightarrow> DragType \<Rightarrow> combiner_state \<Rightarrow> combiner_state" where
  "handleWheelZoom deltaY side s =
    (let zoomAmount = js_mul (Num deltaY) (Num (fl (- (15/100))))
     in if side = Left then
          (if leftMediaElement s = None then s
           else
            (let newZoom = clamp (js_add (leftZoom s) zoomAmount) MIN_ZOOM MAX_ZOOM
             in if \<not> js_eq newZoom (leftZoom s) then s\<lparr>leftZoom := newZoom\<rparr> else s))
        else
          (if rightMediaElement s = None then s
           else
            (let newZoom = clamp (js_add (rightZoom s) zoomAmount) MIN_ZOOM MAX_ZOOM
             in if \<not> js_eq newZoom (rightZoom s) then s\<lparr>rightZoom := newZoom\<rparr> else s)))"

section \<open>The media element loader\<close>

text \<open>
  \<open>loadMediaElement\<close> returns a promise. The model is the state of one call: the element
  being loaded (its \<open>src\<close>, and how often \<open>video.load()\<close> was called), the timer set by
  \<open>setTimeout(..., 20000)\<close> as the milliseconds left until it fires (\<open>None\<close> once
  cleared or fired), how the promise was settled (\<open>None\<close> while it is pending), and the
  arguments of the \<open>URL.revokeObjectURL\<close> calls made.
\<close>

datatype load_rejection =
    TimeoutLoadingMedia DragType
  | ImageInvalidDimensions DragType
  | ErrorLoadingImage DragType
  | VideoInvalidDimensionsOrReadyState DragType
  | ErrorLoadingVideo DragType

datatype load_result = Resolved "media_element option" | Rejected load_rejection

record pending_load =
  load_side :: DragType
  load_type :: "MediaType option"
  element_src :: string
  video_load_calls :: nat
  timeoutId :: "nat option"
  settled :: "load_result option"
  loader_revoked :: "string list"

text \<open>\<open>resolve\<close> and \<open>reject\<close>: a promise is settled once, later calls do nothing.\<close>

definition settle :: "load_result \<Rightarrow> pending_load \<Rightarrow> pending_load" where
  "settle r p = (if settled p = None then p\<lparr>settled := Some r\<rparr> else p)"

definition cleanupTimeout :: "pending_load \<Rightarrow> pending_load" where
  "cleanupTimeout p = p\<lparr>timeoutId := None\<rparr>"

definition cleanupAndReject :: "load_rejection \<Rightarrow> pending_load \<Rightarrow> pending_load" where
  "cleanupAndReject err p = settle (Rejected err) (cleanupTimeout p)"

text \<open>\<open>str.startsWith('blob:')\<close>\<close>

definition startsWith_blob :: "string \<Rightarrow> bool" where
  "startsWith_blob str = (take 5 str = ''blob:'')"

text \<open>
  The call itself: with an empty URL or no type the promise is resolved with null at
  once and no timer is set; otherwise the timer is armed, the element is created, its
  \<open>src\<close> is set and, for a video, \<open>load()\<close> is called.
\<close>

definition loadMediaElement :: "string \<Rightarrow> MediaType option \<Rightarrow> DragType \<Rightarrow> pending_load" where
  "loadMediaElement dataUrl type side =
    (if dataUrl = [] \<or> type = None
     then \<lparr>load_side = side, load_type = type, element_src = [], video_load_calls = 0,
            timeoutId = None, settled = Some (Resolved None), loader_revoked = []\<rparr>
     else \<lparr>load_side = side, load_type = type, element_src = dataUrl,
            video_load_calls = (if type = Some video then 1 else 0),
            timeoutId = Some 20000, settled = None, loader_revoked = []\<rparr>)"

text \<open>The callback given to \<open>setTimeout\<close>.\<close>

definition timeout_callback :: "pending_load \<Rightarrow> pending_load" where
  "timeout_callback p =
    (let p1 = (if element_src p \<noteq> [] \<and> startsWith_blob (element_src p)
               then (let q = p\<lparr>element_src := []\<rparr>
                     in q\<lparr>loader_revoked := loader_revoked q @ [element_src q]\<rparr>)
               else p\<lparr>element_src := []\<rparr>);
         p2 = (if load_type p1 = Some video
               then p1\<lparr>video_load_calls := video_load_calls p1 + 1\<rparr> else p1)
     in cleanupAndReject (TimeoutLoadingMedia (load_side p2)) p2)"

text \<open>
  What can happen to a pending call: time passes (the timer fires once its delay has
  elapsed), or the element raises one of the events the call listens to. The load and
  ready events carry the dimensions (and the ready state) the element then reports.
\<close>

datatype load_event =
    Elapse nat
  | ImgOnload nat nat
  | ImgOnerror
  | VideoReady nat nat nat
  | VideoOnerror

fun load_step :: "load_event \<Rightarrow> pending_load \<Rightarrow> pending_load" where
  "load_step (Elapse ms) p =
     (case timeoutId p of
        None \<Rightarrow> p
      | Some d \<Rightarrow> if ms < d then p\<lparr>timeoutId := Some (d - ms)\<rparr> else timeout_callback p)"
| "load_step (ImgOnload w h) p =
     (if load_type p \<noteq> Some image then p
      else
       (let p1 = cleanupTimeout p
        in if 0 < w \<and> 0 < h
           then settle (Resolved (Some (Image \<lparr>naturalWidth = w, naturalHeight = h,
                                               img_src = element_src p1\<rparr>))) p1
           else cleanupAndReject (ImageInvalidDimensions (load_side p1)) p1))"
| "load_step ImgOnerror p =
     (if load_type p \<noteq> Some image then p
      else cleanupAndReject (ErrorLoadingImage (load_side p)) (cleanupTimeout p))"
| "load_step (VideoReady w h readyState) p =
     (if load_type p \<noteq> Some video then p
      else
       (let p1 = cleanupTimeout p
        in if 0 < w \<and> 0 < h \<and> 2 \<le> readyState
           then settle (Resolved (Some (Video \<lparr>videoWidth = w, videoHeight = h,
                                               video_src = element_src p1\<rparr>))) p1
           else cleanupAndReject (VideoInvalidDimensionsOrReadyState (load_side p1)) p1))"
| "load_step VideoOnerror p =
     (if load_type p \<noteq> Some video then p
      else cleanupAndReject (ErrorLoadingVideo (load_side p)) (cleanupTimeout p))"

fun run_load :: "load_event list \<Rightarrow> pending_load \<Rightarrow> pending_load" where
  "run_load [] p = p"
| "run_load (e # es) p = run_load es (load_step e p)"

fun elapsed :: "load_event list \<Rightarrow> nat" where
  "elapsed [] = 0"
| "elapsed (Elapse ms # es) = ms + elapsed es"
| "elapsed (e # es) = elapsed es"

section \<open>The load effects of the combiner\<close>

text \<open>The setters handed to \<open>loadMediaEffect\<close> by the left and the right trigger.\<close>

fun setLoading :: "DragType \<Rightarrow> bool \<Rightarrow> combiner_state \<Rightarrow> combiner_state" where
  "setLoading Left b s = s\<lparr>isLoadingLeft := b\<rparr>"
| "setLoading Right b s = s\<lparr>isLoadingRight := b\<rparr>"
| "setLoading Logo b s = s\<lparr>isLoadingLogo := b\<rparr>"

fun setLoadError :: "DragType \<Rightarrow> string option \<Rightarrow> combiner_state \<Rightarrow> combiner_state" where
  "setLoadError Left e s = s\<lparr>leftLoadError := e\<rparr>"
| "setLoadError Right e s = s\<lparr>rightLoadError := e\<rparr>"
| "setLoadError Logo e s = s\<lparr>logoLoadError := e\<rparr>"

text \<open>The logo slot holds an image element only (the cast of \<open>loadLogoEffect\<close>).\<close>

fun as_image :: "media_element option \<Rightarrow> HTMLImageElement option" where
  "as_image (Some (Image i)) = Some i"
| "as_image (Some (Video v)) = None"
| "as_image None = None"

fun setMediaElement :: "DragType \<Rightarrow> media_element option \<Rightarrow> combiner_state \<Rightarrow> combiner_state" where
  "setMediaElement Left el s = s\<lparr>leftMediaElement := el\<rparr>"
| "setMediaElement Right el s = s\<lparr>rightMediaElement := el\<rparr>"
| "setMediaElement Logo el s = s\<lparr>logoElement := as_image el\<rparr>"

fun mediaElementOf :: "DragType \<Rightarrow> combiner_state \<Rightarrow> media_element option" where
  "mediaElementOf Left s = leftMediaElement s"
| "mediaElementOf Right s = rightMediaElement s"
| "mediaElementOf Logo s = map_option Image (logoElement s)"

fun isLoadingOf :: "DragType \<Rightarrow> combiner_state \<Rightarrow> bool" where
  "isLoadingOf Left s = isLoadingLeft s"
| "isLoadingOf Right s = isLoadingRight s"
| "isLoadingOf Logo s = isLoadingLogo s"

text \<open>The reset callbacks of the three triggers.\<close>

fun resetFocusZoom :: "DragType \<Rightarrow> combiner_state \<Rightarrow> combiner_state" where
  "resetFocusZoom Left s =
     s\<lparr>leftRelativeFocus := \<lparr>xc = Num (1/2), yc = Num (1/2)\<rparr>, leftZoom := Num 100\<rparr>"
| "resetFocusZoom Right s =
     s\<lparr>rightRelativeFocus := \<lparr>xc = Num (1/2), yc = Num (1/2)\<rparr>, rightZoom := Num 100\<rparr>"
| "resetFocusZoom Logo s =
     s\<lparr>logoPosition := \<lparr>xc = Num 50, yc = Num 90\<rparr>, logoZoom := Num 10\<rparr>"

text \<open>\<open>cleanupObjectURL\<close>: the URLs it revokes.\<close>

fun element_src_of :: "media_element \<Rightarrow> string" where
  "element_src_of (Image i) = img_src i"
| "element_src_of (Video v) = video_src v"

definition cleanupObjectURL :: "media_element option \<Rightarrow> string list" where
  "cleanupObjectURL element =
    (case element of
       None \<Rightarrow> []
     | Some el \<Rightarrow> if element_src_of el \<noteq> [] \<and> startsWith_blob (element_src_of el)
                  then [element_src_of el] else [])"

text \<open>
  \<open>loadMediaEffect\<close> and \<open>loadLogoEffect\<close> are asynchronous. Their first part runs at
  once, up to the first \<open>await\<close>: it marks the slot as loading, drops the old element,
  clears the errors and resets the view parameters; with nothing to load it clears the
  loading flag and returns. The boolean tells whether a load follows.
\<close>

definition loadMediaEffect_begin ::
  "DragType \<Rightarrow> string option \<Rightarrow> MediaType option \<Rightarrow> combiner_state \<Rightarrow> combiner_state \<times> bool" where
  "loadMediaEffect_begin side mediaUrl mediaType s =
    (let s1 = setLoading side True s;
         s2 = (setMediaElement side None s1)
                \<lparr>revoked := revoked s1 @ cleanupObjectURL (mediaElementOf side s1)\<rparr>;
         s3 = setLoadError side None s2;
         s4 = s3\<lparr>saveError := None\<rparr>;
         s5 = resetFocusZoom side s4
     in if string_falsy mediaUrl \<or> mediaType = None then (setLoading side False s5, False)
        else (s5, True))"

definition loadLogoEffect_begin :: "string option \<Rightarrow> combiner_state \<Rightarrow> combiner_state \<times> bool" where
  "loadLogoEffect_begin logoUrl s =
    (let s1 = setLoading Logo True s;
         s2 = (setMediaElement Logo None s1)
                \<lparr>revoked := revoked s1 @ cleanupObjectURL (mediaElementOf Logo s1)\<rparr>;
         s3 = setLoadError Logo None s2;
         s4 = s3\<lparr>saveError := None\<rparr>;
         s5 = resetFocusZoom Logo s4
     in if string_falsy logoUrl then (setLoading Logo False s5, False)
        else (s5, True))"

text \<open>
  The second part wraps the data URL in an object URL; \<open>blobUrl\<close> is the URL created,
  \<open>None\<close> when \<open>fetch\<close> or \<open>blob()\<close> fails. The result is the new state, the URL to
  load from (\<open>None\<close> when the effect stops here) and \<open>objectUrlToClean\<close>.
\<close>

definition loadMediaEffect_blob ::
  "DragType \<Rightarrow> string \<Rightarrow> string option \<Rightarrow> combiner_state
   \<Rightarrow> combiner_state \<times> string option \<times> string option" where
  "loadMediaEffect_blob side mediaUrl blobUrl s =
    (case blobUrl of
       Some u \<Rightarrow> (s, Some u, Some u)
     | None \<Rightarrow> (setLoadError side (Some ''Failed to process file for preview.'') s,
                Some mediaUrl, None))"

definition loadLogoEffect_blob ::
  "string \<Rightarrow> string option \<Rightarrow> combiner_state \<Rightarrow> combiner_state \<times> string option \<times> string option" where
  "loadLogoEffect_blob logoUrl blobUrl s =
    (if take 18 logoUrl = ''data:image/svg+xml'' then (s, Some logoUrl, None)
     else case blobUrl of
            Some u \<Rightarrow> (s, Some u, Some u)
          | None \<Rightarrow> (setLoadError Logo (Some ''Failed to process logo for preview.'')
                       (setLoading Logo False s), None, None))"

text \<open>
  The last part runs when the promise of \<open>loadMediaElement\<close> is settled: the \<open>try\<close>
  body after the \<open>await\<close>, the \<open>catch\<close> block and the \<open>finally\<close> block. The same code
  serves the three slots, with the slot's setters and its error text.
\<close>

definition revoke_temp :: "string option \<Rightarrow> string list" where
  "revoke_temp objectUrlToClean = (case objectUrlToClean of None \<Rightarrow> [] | Some u \<Rightarrow> [u])"

definition load_error_text :: "DragType \<Rightarrow> string" where
  "load_error_text side = (if side = Logo then ''Error loading logo.'' else ''Error loading media.'')"

definition loadEffect_settle ::
  "DragType \<Rightarrow> load_result \<Rightarrow> string option \<Rightarrow> combiner_state \<Rightarrow> combiner_state" where
  "loadEffect_settle side result objectUrlToClean s =
    (let s1 =
       (case result of
          Resolved element \<Rightarrow>
            if isMounted s then setMediaElement side element s
            else s\<lparr>revoked := revoked s @ cleanupObjectURL element @ revoke_temp objectUrlToClean\<rparr>
        | Rejected err \<Rightarrow>
            (let s' = (if isMounted s
                       then setLoadError side (Some (load_error_text side))
                              (setMediaElement side None s)
                       else s)
             in s'\<lparr>revoked := revoked s' @ revoke_temp objectUrlToClean\<rparr>))
     in if isMounted s1 then setLoading side False s1 else s1)"

text \<open>
  Selecting a file: the \<open>onFileSelect\<close> handlers store the data URL read from the file
  (and, left and right, the media type detected from the file's type), and the effect
  that depends on them runs when one of them has changed. \<open>t\<close> is the type detected for
  a file whose type starts with \<open>image/\<close> or \<open>video/\<close>; for any other file the
  handlers only set the slot's error.
\<close>

definition onFileSelectLeft :: "string \<Rightarrow> MediaType \<Rightarrow> combiner_state \<Rightarrow> combiner_state \<times> bool" where
  "onFileSelectLeft result t s =
    (let s1 = s\<lparr>leftMediaType := Some t, leftMedia := Some result, leftLoadError := None\<rparr>
     in if leftMedia s = Some result \<and> leftMediaType s = Some t then (s1, False)
        else loadMediaEffect_begin Left (leftMedia s1) (leftMediaType s1) s1)"

definition onFileSelectRight :: "string \<Rightarrow> MediaType \<Rightarrow> combiner_state \<Rightarrow> combiner_state \<times> bool" where
  "onFileSelectRight result t s =
    (let s1 = s\<lparr>rightMediaType := Some t, rightMedia := Some result, rightLoadError := None\<rparr>
     in if rightMedia s = Some result \<and> rightMediaType s = Some t then (s1, False)
        else loadMediaEffect_begin Right (rightMedia s1) (rightMediaType s1) s1)"

definition onFileSelectLogo :: "string \<Rightarrow> combiner_state \<Rightarrow> combiner_state \<times> bool" where
  "onFileSelectLogo result s =
    (let s1 = s\<lparr>logo := Some result, logoLoadError := None\<rparr>
     in if logo s = Some result then (s1, False)
        else loadLogoEffect_begin (logo s1) s1)"

section \<open>The combiner as a transition system\<close>

text \<open>
  Every handler and effect above as one event of the running component; the state is
  the state of \<open>ImageCombiner\<close> with the interaction state of its preview area.
\<close>

datatype ui_event =
    MouseDown mouse_event DragType
  | MouseMove real real "(real \<times> real) option"
  | MouseUp int
  | TouchStart touch_event DragType
  | TouchMove touch_event "(real \<times> real) option"
  | TouchEnd nat
  | Wheel real DragType
  | LogoXInput real
  | LogoYInput real
  | ZoomSlider DragType real
  | FileSelectLeft string MediaType
  | FileSelectRight string MediaType
  | FileSelectLogo string
  | LoadSettled DragType load_result "string option"

fun ui_step :: "ui_event \<Rightarrow> combiner_state \<times> gesture_state \<Rightarrow> combiner_state \<times> gesture_state" where
  "ui_step (MouseDown e type) (s, g) = (s, handleMouseDown e type s g)"
| "ui_step (MouseMove cx cy rect) (s, g) = (handleMouseMove cx cy rect g s, g)"
| "ui_step (MouseUp b) (s, g) = (s, handleMouseUp b g)"
| "ui_step (TouchStart e type) (s, g) = (s, handleTouchStart e type s g)"
| "ui_step (TouchMove e rect) (s, g) = (handleTouchMove e rect g s, g)"
| "ui_step (TouchEnd n) (s, g) = (s, handleTouchEnd n g)"
| "ui_step (Wheel deltaY side) (s, g) =
     (if side = Logo then s else handleWheelZoom deltaY side s, g)"
| "ui_step (LogoXInput v) (s, g) = (logoPositionXInput v s, g)"
| "ui_step (LogoYInput v) (s, g) = (logoPositionYInput v s, g)"
| "ui_step (ZoomSlider side v) (s, g) = (zoomSlider side v s, g)"
| "ui_step (FileSelectLeft result t) (s, g) = (fst (onFileSelectLeft result t s), g)"
| "ui_step (FileSelectRight result t) (s, g) = (fst (onFileSelectRight result t s), g)"
| "ui_step (FileSelectLogo result) (s, g) = (fst (onFileSelectLogo result s), g)"
| "ui_step (LoadSettled side result objectUrlToClean) (s, g) =
     (loadEffect_settle side result objectUrlToClean s, g)"

fun ui_run :: "ui_event list \<Rightarrow> combiner_state \<times> gesture_state \<Rightarrow> combiner_state \<times> gesture_state" where
  "ui_run [] st = st"
| "ui_run (e # es) st = ui_run es (ui_step e st)"

section \<open>Notions used to state the properties\<close>

text \<open>A stored value lies in its domain: it is a finite number between the bounds.\<close>

fun in_range :: "real \<Rightarrow> real \<Rightarrow> number \<Rightarrow> bool" where
  "in_range lo hi (Num r) = (lo \<le> r \<and> r \<le> hi)"
| "in_range lo hi PInf = False"
| "in_range lo hi NInf = False"
| "in_range lo hi NaN = False"

definition focus_in_domain :: "RelativeFocus \<Rightarrow> bool" where
  "focus_in_domain f = (in_range 0 1 (xc f) \<and> in_range 0 1 (yc f))"

definition position_in_domain :: "RelativeFocus \<Rightarrow> bool" where
  "position_in_domain f = (in_range 0 100 (xc f) \<and> in_range 0 100 (yc f))"

text \<open>
  All stored focus and position values: the three of the combiner and the snapshots a
  drag keeps of them.
\<close>

definition stored_in_domain :: "combiner_state \<times> gesture_state \<Rightarrow> bool" where
  "stored_in_domain st =
    (focus_in_domain (leftRelativeFocus (fst st)) \<and>
     focus_in_domain (rightRelativeFocus (fst st)) \<and>
     position_in_domain (logoPosition (fst st)) \<and>
     focus_in_domain (initialDragFocus (snd st)) \<and>
     position_in_domain (initialLogoPos (snd st)))"

text \<open>
  The draw algorithm in the words of the specification (section 4.4), on the finite
  values, every operation rounded as the doubles round: the cover scale, the final scale,
  and the clamping of the source's top-left corner into \<open>[0, upper]\<close>, to 0 when
  \<open>upper\<close> is negative.
\<close>

definition coverScale_spec :: "real \<Rightarrow> real \<Rightarrow> real \<Rightarrow> real \<Rightarrow> real" where
  "coverScale_spec sourceW sourceH w h =
     (if fl (sourceW / sourceH) > fl (w / h) then fl (h / sourceH) else fl (w / sourceW))"

definition finalScale_spec :: "real \<Rightarrow> real \<Rightarrow> real \<Rightarrow> real \<Rightarrow> real \<Rightarrow> real" where
  "finalScale_spec sourceW sourceH w h z =
     fl (coverScale_spec sourceW sourceH w h * fl (z / 100))"

definition clampInto_spec :: "real \<Rightarrow> real \<Rightarrow> real" where
  "clampInto_spec ideal upper =
     (if upper < 0 then 0 else if ideal < 0 then 0 else if upper < ideal then upper else ideal)"

text \<open>The same final scale on the number type, for arguments that need not be finite.\<close>

definition finalScale_number :: "number \<Rightarrow> number \<Rightarrow> number \<Rightarrow> number \<Rightarrow> number \<Rightarrow> number" where
  "finalScale_number sourceW sourceH w h z =
     js_mul (if js_gt (js_div sourceW sourceH) (js_div w h)
             then js_div h sourceH else js_div w sourceW)
            (js_div z (Num 100))"

text \<open>
  The aspect ratio of the live preview container as the code computes it, the double
  nearest to width over height; that of 16 over 9 when the container cannot be measured
  (it is not found, or a side is not positive).
\<close>

definition container_aspect :: "page \<Rightarrow> real" where
  "container_aspect pg =
    (case container pg of
       None \<Rightarrow> fl (16 / 9)
     | Some (offsetWidth, offsetHeight) \<Rightarrow>
         if 0 < offsetWidth \<and> 0 < offsetHeight
         then fl (real_of_int offsetWidth / real_of_int offsetHeight) else fl (16 / 9))"

text \<open>
  The slots are not ready for an export: the left or the right slot holds no loaded image
  with positive dimensions (it is empty, still loading, or holds a video), or a logo source
  was provided and the logo is not a loaded image yet.
\<close>

definition export_not_ready :: "combiner_state \<Rightarrow> bool" where
  "export_not_ready s =
    (\<not> isLoadedImage (leftMediaElement s) \<or> \<not> isLoadedImage (rightMediaElement s)
     \<or> isLoadingLeft s \<or> isLoadingRight s
     \<or> (\<not> string_falsy (logo s)
         \<and> (case logoElement s of
               None \<Rightarrow> True
             | Some l \<Rightarrow> naturalWidth l = 0 \<or> naturalHeight l = 0 \<or> isLoadingLogo s)))"

text \<open>The zoom and the load error of a slot.\<close>

fun zoomOf :: "DragType \<Rightarrow> combiner_state \<Rightarrow> number" where
  "zoomOf Left s = leftZoom s"
| "zoomOf Right s = rightZoom s"
| "zoomOf Logo s = logoZoom s"

fun loadErrorOf :: "DragType \<Rightarrow> combiner_state \<Rightarrow> string option" where
  "loadErrorOf Left s = leftLoadError s"
| "loadErrorOf Right s = rightLoadError s"
| "loadErrorOf Logo s = logoLoadError s"

text \<open>The source rectangle of a draw call, and what an export produced.\<close>

definition source_rect :: "draw_params \<Rightarrow> number \<times> number \<times> number \<times> number" where
  "source_rect d = (sx d, sy d, sWidth d, sHeight d)"

fun outcome_size :: "save_outcome \<Rightarrow> (number \<times> number) option" where
  "outcome_size (Rendered w h ops t q) = Some (w, h)"
| "outcome_size Blocked = None"
| "outcome_size (Threw e) = None"

fun outcome_ops :: "save_outcome \<Rightarrow> canvas_op list" where
  "outcome_ops (Rendered w h ops t q) = ops"
| "outcome_ops Blocked = []"
| "outcome_ops (Threw e) = []"

fun outcome_encoding :: "save_outcome \<Rightarrow> (string \<times> number) option" where
  "outcome_encoding (Rendered w h ops t q) = Some (t, q)"
| "outcome_encoding Blocked = None"
| "outcome_encoding (Threw e) = None"

text \<open>
  Two positive reals are near each other at \<open>n\<close> roundings when each is at most the
  other times the \<open>n\<close>-th power of \<open>(1 + u) / (1 - u)\<close>, where \<open>u\<close> is \<open>2\<close> to the
  \<open>-53\<close>, the largest relative error of one rounding. Two sizes of a source
  rectangle are near each other when both are finite and differ by at most the second
  divided by \<open>2 ^ 49\<close>.
\<close>

definition rounding_ratio :: real where
  "rounding_ratio = (2 ^ 53 + 1) / (2 ^ 53 - 1)"

definition near :: "nat \<Rightarrow> real \<Rightarrow> real \<Rightarrow> bool" where
  "near n x y = (0 < x \<and> 0 < y \<and> x \<le> y * rounding_ratio ^ n \<and> y \<le> x * rounding_ratio ^ n)"

text \<open>
  Scenario A of the specification: an 800 by 600 image on the left, a 1200 by 900 image
  on the right, no logo.
\<close>

definition scenarioA_state :: combiner_state where
  "scenarioA_state = initial_state\<lparr>
     leftMedia := Some ''data:image/png;base64,AAAA'',
     rightMedia := Some ''data:image/png;base64,BBBB'',
     leftMediaType := Some image, rightMediaType := Some image,
     leftMediaElement := Some (Image \<lparr>naturalWidth = 800, naturalHeight = 600,
                                      img_src = ''blob:left''\<rparr>),
     rightMediaElement := Some (Image \<lparr>naturalWidth = 1200, naturalHeight = 900,
                                       img_src = ''blob:right''\<rparr>)\<rparr>"

text \<open>Scenario B: as scenario A, but the right slot is still loading.\<close>

definition scenarioB_state :: combiner_state where
  "scenarioB_state = scenarioA_state\<lparr>rightMediaElement := None, isLoadingRight := True\<rparr>"

text \<open>
  Scenario C: an image on the left, nothing on the right, and a one-finger drag of the
  left slot under way (started by a touch at (100, 100) on the left area).
\<close>

definition scenarioC_state :: combiner_state where
  "scenarioC_state = initial_state\<lparr>
     leftMedia := Some ''data:image/png;base64,AAAA'', leftMediaType := Some image,
     leftMediaElement := Some (Image \<lparr>naturalWidth = 800, naturalHeight = 600,
                                      img_src = ''blob:left''\<rparr>)\<rparr>"

definition dragging_left :: gesture_state where
  "dragging_left =
     handleTouchStart \<lparr>touches = [\<lparr>clientX = 100, clientY = 100\<rparr>],
                       target_area = Some Left, target_in_logo = False\<rparr>
       Left scenarioC_state initial_gesture"

section \<open>Properties of rounding to the nearest double\<close>

lemma powr_powi: "(2::real) powr (real_of_int k) = 2 powi k"
  by (simp add: powr_real_of_int power_int_def power_one_over inverse_eq_divide)

lemma exponent_unique:
  assumes "x \<noteq> 0" and "2 powi k \<le> \<bar>x\<bar>" and "\<bar>x\<bar> < 2 powi (k + 1)"
  shows "\<lfloor>log 2 \<bar>x\<bar>\<rfloor> = k"
proof -
  have "0 < \<bar>x\<bar>" using assms(1) by simp
  then show ?thesis
    using assms(2,3) floor_log_eq_powr_iff [of "\<bar>x\<bar>" 2 k]
    by (simp add: powr_powi [symmetric] add.commute)
qed

lemma exponent_bounds:
  assumes "x \<noteq> 0"
  shows "2 powi \<lfloor>log 2 \<bar>x\<bar>\<rfloor> \<le> \<bar>x\<bar>" and "\<bar>x\<bar> < 2 powi (\<lfloor>log 2 \<bar>x\<bar>\<rfloor> + 1)"
proof -
  have "0 < \<bar>x\<bar>" using assms(1) by simp
  then have "2 powr (real_of_int \<lfloor>log 2 \<bar>x\<bar>\<rfloor>) \<le> \<bar>x\<bar> \<and> \<bar>x\<bar> < 2 powr (real_of_int \<lfloor>log 2 \<bar>x\<bar>\<rfloor> + 1)"
    using floor_log_eq_powr_iff [of "\<bar>x\<bar>" 2 "\<lfloor>log 2 \<bar>x\<bar>\<rfloor>"] by simp
  then show "2 powi \<lfloor>log 2 \<bar>x\<bar>\<rfloor> \<le> \<bar>x\<bar>" and "\<bar>x\<bar> < 2 powi (\<lfloor>log 2 \<bar>x\<bar>\<rfloor> + 1)"
    using powr_powi [of "\<lfloor>log 2 \<bar>x\<bar>\<rfloor>"] powr_powi [of "\<lfloor>log 2 \<bar>x\<bar>\<rfloor> + 1"]
    by (simp_all add: add.commute)
qed


lemma rne_cases:
  "real_of_int (rne y) = of_int \<lfloor>y\<rfloor> \<or> real_of_int (rne y) = of_int \<lfloor>y\<rfloor> + 1"
  by (simp add: rne_def Let_def)

lemma rne_ge_floor: "\<lfloor>y\<rfloor> \<le> rne y"
  by (simp add: rne_def Let_def)

lemma rne_le_ceiling: "rne y \<le> \<lfloor>y\<rfloor> + 1"
  by (simp add: rne_def Let_def)

lemma rne_of_int [simp]: "rne (of_int m) = m"
  by (simp add: rne_def Let_def)

lemma rne_minus: "rne (- y) = - rne y"
proof (cases "y \<in> \<int>")
  case True
  then obtain m where "y = of_int m" by (auto elim: Ints_cases)
  then show ?thesis by (simp flip: of_int_minus)
next
  case False
  have ny: "y \<noteq> of_int \<lfloor>y\<rfloor>" using False by (metis Ints_of_int)
  then have fl: "\<lfloor>- y\<rfloor> = - \<lfloor>y\<rfloor> - 1"
    by (simp add: floor_minus ceiling_altdef)
  define n where "n = \<lfloor>y\<rfloor>"
  define r where "r = y - of_int n"
  have r: "0 < r" "r < 1"
    using ny unfolding r_def n_def by linarith+
  have y: "y = of_int n + r" by (simp add: r_def)
  have r': "- y - of_int (- n - 1) = 1 - r" by (simp add: y)
  have "even (- n - 1) = odd n" by simp
  then show ?thesis
    unfolding rne_def Let_def fl n_def [symmetric] r' r_def [symmetric]
    using r by (auto simp: not_less)
qed

lemma rne_error: "\<bar>real_of_int (rne y) - y\<bar> \<le> 1/2"
  unfolding rne_def Let_def by (auto; linarith)

lemma rne_mono: "x \<le> y \<Longrightarrow> rne x \<le> rne y"
proof -
  assume xy: "x \<le> y"
  have fm: "\<lfloor>x\<rfloor> \<le> \<lfloor>y\<rfloor>" using xy by (rule floor_mono)
  show ?thesis
  proof (cases "\<lfloor>x\<rfloor> = \<lfloor>y\<rfloor>")
    case True
    then show ?thesis using xy unfolding rne_def Let_def by (auto; linarith)
  next
    case False
    then have "\<lfloor>x\<rfloor> + 1 \<le> \<lfloor>y\<rfloor>" using fm by simp
    then show ?thesis using rne_le_ceiling [of x] rne_ge_floor [of y] by linarith
  qed
qed

lemma fl_zero [simp]: "fl 0 = 0"
  by (simp add: fl_def)

lemma fl_eval:
  assumes lo: "2 ^ 52 \<le> \<bar>x\<bar> * 2 powi k" and hi: "\<bar>x\<bar> * 2 powi k < 2 ^ 53"
  shows "fl x = of_int (rne (x * 2 powi k)) / 2 powi k"
proof -
  have x0: "x \<noteq> 0" using lo by auto
  have p: "(0::real) < 2 powi k" by simp
  have "2 powi (52 - k) \<le> \<bar>x\<bar>"
    using lo p by (simp add: power_int_diff field_simps)
  moreover have "\<bar>x\<bar> < 2 powi (52 - k + 1)"
  proof -
    have "(2::real) powi (52 - k + 1) * 2 powi k = 2 ^ 53"
      by (simp flip: power_int_add)
    then have "\<bar>x\<bar> * 2 powi k < 2 powi (52 - k + 1) * 2 powi k" using hi by simp
    then show ?thesis using p by (simp only: mult_less_cancel_right_pos)
  qed
  ultimately have e: "\<lfloor>log 2 \<bar>x\<bar>\<rfloor> = 52 - k"
    using exponent_unique [OF x0] by blast
  have "(2::real) powi (52 - k - 52) = 1 / 2 powi k"
    by (simp add: power_int_minus_divide)
  then show ?thesis
    unfolding fl_def Let_def e using x0 by simp
qed

lemma fl_normal:
  assumes "(x::real) \<noteq> 0"
  obtains k where "2 ^ 52 \<le> \<bar>x\<bar> * 2 powi k" "\<bar>x\<bar> * 2 powi k < 2 ^ 53"
proof -
  define E where "E = \<lfloor>log 2 \<bar>x\<bar>\<rfloor>"
  have b: "2 powi E \<le> \<bar>x\<bar>" "\<bar>x\<bar> < 2 powi (E + 1)"
    using exponent_bounds [OF assms] by (simp_all add: E_def)
  have p: "(0::real) < 2 powi (52 - E)" by simp
  have e1: "(2::real) powi E * 2 powi (52 - E) = 2 ^ 52"
    by (simp flip: power_int_add)
  have e2: "(2::real) powi (E + 1) * 2 powi (52 - E) = 2 ^ 53"
    by (simp flip: power_int_add)
  have "2 ^ 52 \<le> \<bar>x\<bar> * 2 powi (52 - E)"
    using mult_right_mono [OF b(1), of "2 powi (52 - E)"] p e1 by simp
  moreover have "\<bar>x\<bar> * 2 powi (52 - E) < 2 ^ 53"
    using mult_strict_right_mono [OF b(2) p] e2 by simp
  ultimately show ?thesis using that by blast
qed


lemma fl_minus: "fl (- x) = - fl x"
proof (cases "x = 0")
  case True
  then show ?thesis by simp
next
  case False
  then obtain k where k: "2 ^ 52 \<le> \<bar>x\<bar> * 2 powi k" "\<bar>x\<bar> * 2 powi k < 2 ^ 53"
    by (rule fl_normal)
  have "fl (- x) = of_int (rne (- x * 2 powi k)) / 2 powi k"
    using k by (intro fl_eval) simp_all
  also have "\<dots> = - (of_int (rne (x * 2 powi k)) / 2 powi k)"
    using rne_minus [of "x * 2 powi k"] by simp
  finally show ?thesis using fl_eval [OF k] by simp
qed

lemma fl_pos: assumes "0 < x" shows "0 < fl x"
proof -
  obtain k where k: "2 ^ 52 \<le> \<bar>x\<bar> * 2 powi k" "\<bar>x\<bar> * 2 powi k < 2 ^ 53"
    using assms fl_normal [of x] by auto
  have "(2::real) ^ 52 \<le> x * 2 powi k" using k(1) assms by simp
  then have "(2::int) ^ 52 \<le> \<lfloor>x * 2 powi k\<rfloor>" by (simp add: le_floor_iff)
  moreover have "(0::int) < 2 ^ 52" by simp
  ultimately have "0 < rne (x * 2 powi k)" using rne_ge_floor [of "x * 2 powi k"] by linarith
  then show ?thesis unfolding fl_eval [OF k] by simp
qed

lemma fl_neg: "x < 0 \<Longrightarrow> fl x < 0"
  using fl_pos [of "- x"] by (simp add: fl_minus)

lemma fl_sign_cases:
  obtains "x = 0" "fl x = 0" | "0 < x" "0 < fl x" | "x < 0" "fl x < 0"
  using fl_pos [of x] fl_neg [of x] fl_zero by (cases "x = 0"; cases "0 < x") auto

lemma fl_pos_iff: "0 < fl x \<longleftrightarrow> 0 < x"
  by (rule fl_sign_cases [of x]) auto

lemma fl_neg_iff: "fl x < 0 \<longleftrightarrow> x < 0"
  by (rule fl_sign_cases [of x]) auto

lemma fl_eq_0_iff: "fl x = 0 \<longleftrightarrow> x = 0"
  by (rule fl_sign_cases [of x]) auto

lemma fl_le_0_iff: "fl x \<le> 0 \<longleftrightarrow> x \<le> 0"
  by (rule fl_sign_cases [of x]) auto

lemma fl_ge_0_iff: "0 \<le> fl x \<longleftrightarrow> 0 \<le> x"
  by (rule fl_sign_cases [of x]) auto

declare fl_pos_iff [simp] fl_neg_iff [simp] fl_eq_0_iff [simp] fl_le_0_iff [simp]
  fl_ge_0_iff [simp]

lemma fl_scale: "fl (x * 2 powi j) = fl x * 2 powi j"
proof (cases "x = 0")
  case True
  then show ?thesis by simp
next
  case False
  then obtain k where k: "2 ^ 52 \<le> \<bar>x\<bar> * 2 powi k" "\<bar>x\<bar> * 2 powi k < 2 ^ 53"
    by (rule fl_normal)
  have c: "x * 2 powi j * 2 powi (k - j) = x * 2 powi k"
    by (simp add: mult.assoc flip: power_int_add)
  have c': "\<bar>x * 2 powi j\<bar> * 2 powi (k - j) = \<bar>x\<bar> * 2 powi k"
    by (simp add: abs_mult mult.assoc flip: power_int_add)
  have "fl (x * 2 powi j) = of_int (rne (x * 2 powi j * 2 powi (k - j))) / 2 powi (k - j)"
    using k by (intro fl_eval) (simp_all only: c')
  also have "\<dots> = of_int (rne (x * 2 powi k)) / 2 powi k * 2 powi j"
    unfolding c by (simp add: power_int_diff)
  finally show ?thesis using fl_eval [OF k] by simp
qed

lemma fl_half: "fl (x / 2) = fl x / 2"
  using fl_scale [of x "- 1"] by (simp add: power_int_minus)

lemma fl_double: "fl (x * 2) = fl x * 2"
  using fl_scale [of x 1] by simp

lemma fl_double': "fl (2 * x) = 2 * fl x"
  using fl_double [of x] by (simp add: mult.commute)

lemma fl_of_int:
  assumes "\<bar>m\<bar> < 2 ^ 53"
  shows "fl (of_int m) = of_int m"
proof (cases "m = 0")
  case True
  then show ?thesis by simp
next
  case False
  then obtain k where k: "2 ^ 52 \<le> \<bar>real_of_int m\<bar> * 2 powi k"
      "\<bar>real_of_int m\<bar> * 2 powi k < 2 ^ 53"
    using fl_normal [of "of_int m"] by auto
  have m: "\<bar>real_of_int m\<bar> < 2 ^ 53"
    using assms by (metis of_int_abs of_int_less_numeral_power_cancel_iff)
  have "0 \<le> k"
  proof (rule ccontr)
    assume "\<not> 0 \<le> k"
    then have "k \<le> - 1" by simp
    then have "(2::real) powi k \<le> 2 powi (- 1)"
      by (intro power_int_increasing) simp_all
    then have "(2::real) powi k \<le> 1 / 2" by (simp add: power_int_minus)
    then have "\<bar>real_of_int m\<bar> * 2 powi k \<le> \<bar>real_of_int m\<bar> * (1 / 2)"
      by (intro mult_left_mono) simp_all
    then show False using k(1) m by simp
  qed
  then have "real_of_int m * 2 powi k = of_int (m * 2 ^ nat k)"
    by (simp add: power_int_def)
  then have "rne (real_of_int m * 2 powi k) = m * 2 ^ nat k"
    by (simp only: rne_of_int)
  then show ?thesis
    unfolding fl_eval [OF k] using \<open>0 \<le> k\<close> by (simp add: power_int_def)
qed

lemma fl_numeral [simp]:
  "numeral n < (2::int) ^ 53 \<Longrightarrow> fl (numeral n) = numeral n"
  using fl_of_int [of "numeral n"] by simp

lemma fl_one [simp]: "fl 1 = 1"
  using fl_of_int [of 1] by simp

lemma fl_neg_numeral [simp]:
  "numeral n < (2::int) ^ 53 \<Longrightarrow> fl (- numeral n) = - numeral n"
  by (simp add: fl_minus)

lemma fl_neg_one [simp]: "fl (- 1) = - 1"
  by (simp add: fl_minus)

lemma fl_of_nat: "n < 2 ^ 53 \<Longrightarrow> fl (real n) = real n"
  using fl_of_int [of "int n"] by (simp add: of_nat_less_numeral_power_cancel_iff)

lemma fl_error: "\<bar>fl x - x\<bar> \<le> \<bar>x\<bar> / 2 ^ 53"
proof (cases "x = 0")
  case True
  then show ?thesis by simp
next
  case False
  then obtain k where k: "2 ^ 52 \<le> \<bar>x\<bar> * 2 powi k" "\<bar>x\<bar> * 2 powi k < 2 ^ 53"
    by (rule fl_normal)
  define p :: real where "p = 2 powi k"
  have p: "0 < p" by (simp add: p_def)
  have "fl x - x = (of_int (rne (x * p)) - x * p) / p"
    unfolding fl_eval [OF k] p_def [symmetric] using p by (simp add: field_simps)
  then have "\<bar>fl x - x\<bar> = \<bar>of_int (rne (x * p)) - x * p\<bar> / p"
    using p by (simp add: abs_divide)
  also have "\<dots> \<le> (1 / 2) / p"
    using rne_error [of "x * p"] p by (intro divide_right_mono) simp_all
  also have "\<dots> \<le> \<bar>x\<bar> / 2 ^ 53"
  proof -
    have "2 ^ 52 / p \<le> \<bar>x\<bar>" using k(1) p by (simp add: p_def field_simps)
    then have "(2 ^ 52 / p) / 2 ^ 53 \<le> \<bar>x\<bar> / 2 ^ 53" by (intro divide_right_mono) simp_all
    then show ?thesis by simp
  qed
  finally show ?thesis .
qed

text \<open>Values that are a few roundings apart.\<close>

lemma rounding_ratio_pos: "0 < rounding_ratio"
  by (simp add: rounding_ratio_def)

definition size_near :: "number \<Rightarrow> number \<Rightarrow> bool" where
  "size_near a b =
     (case a of
        Num x \<Rightarrow> (case b of Num y \<Rightarrow> \<bar>x - y\<bar> \<le> y / 2 ^ 49 | _ \<Rightarrow> False)
      | _ \<Rightarrow> False)"

lemma near_sym: "near n x y \<Longrightarrow> near n y x"
  by (simp add: near_def)

lemma near_fl: assumes "0 < x" shows "near 1 (fl x) x"
proof -
  have e: "\<bar>fl x - x\<bar> \<le> x / 2 ^ 53" using fl_error [of x] assms by simp
  have p: "0 < fl x" using assms by simp
  have up: "fl x \<le> x * rounding_ratio"
  proof -
    have "fl x \<le> x + x / 2 ^ 53" using e by linarith
    also have "\<dots> = x * ((2 ^ 53 + 1) / 2 ^ 53)" by (simp add: field_simps)
    also have "\<dots> \<le> x * rounding_ratio"
      unfolding rounding_ratio_def using assms by (intro mult_left_mono) simp_all
    finally show ?thesis .
  qed
  have lo: "x \<le> fl x * rounding_ratio"
  proof -
    have "x * ((2 ^ 53 - 1) / 2 ^ 53) = x - x / 2 ^ 53" by (simp add: field_simps)
    also have "\<dots> \<le> fl x" using e by linarith
    finally have "x * ((2 ^ 53 - 1) / 2 ^ 53) * rounding_ratio \<le> fl x * rounding_ratio"
      using rounding_ratio_pos by (intro mult_right_mono) simp_all
    moreover have "x \<le> x * ((2 ^ 53 - 1) / 2 ^ 53) * rounding_ratio"
      using assms by (simp add: rounding_ratio_def)
    ultimately show ?thesis by linarith
  qed
  show ?thesis using assms p up lo by (simp add: near_def)
qed

lemma near_trans:
  assumes "near n x y" "near m y z" "l = n + m"
  shows "near l x z"
proof -
  define r where "r = rounding_ratio"
  have r: "0 < r" by (simp add: r_def rounding_ratio_pos)
  have a: "0 < x" "0 < y" "x \<le> y * r ^ n" "y \<le> x * r ^ n"
    using assms(1) by (simp_all add: near_def r_def)
  have b: "0 < z" "y \<le> z * r ^ m" "z \<le> y * r ^ m"
    using assms(2) by (simp_all add: near_def r_def)
  have "y * r ^ n \<le> z * r ^ m * r ^ n"
    using b(2) r by (intro mult_right_mono) simp_all
  then have c1: "x \<le> z * r ^ (n + m)" using a(3) by (simp add: power_add mult_ac)
  have "y * r ^ m \<le> x * r ^ n * r ^ m"
    using a(4) r by (intro mult_right_mono) simp_all
  then have c2: "z \<le> x * r ^ (n + m)" using b(3) by (simp add: power_add mult_ac)
  show ?thesis using a(1) b(1) c1 c2 assms(3) by (simp add: near_def r_def)
qed

lemma near_mult:
  assumes "near n x y" "0 < c"
  shows "near n (x * c) (y * c)"
proof -
  define R where "R = rounding_ratio ^ n"
  have a: "0 < x" "0 < y" "x \<le> y * R" "y \<le> x * R"
    using assms(1) by (simp_all add: near_def R_def)
  have "x * c \<le> y * R * c" "y * c \<le> x * R * c"
    using a(3,4) assms(2) by (simp_all add: mult_right_mono)
  then show ?thesis
    unfolding near_def R_def [symmetric] using a(1,2) assms(2) by (simp add: mult_ac)
qed

lemma near_divide:
  assumes "near n x y" "0 < a"
  shows "near n (a / x) (a / y)"
proof -
  define R where "R = rounding_ratio ^ n"
  have R: "0 < R" by (simp add: R_def rounding_ratio_pos)
  have h: "0 < x" "0 < y" "x \<le> y * R" "y \<le> x * R"
    using assms(1) by (simp_all add: near_def R_def)
  have "a / x \<le> a / y * R"
  proof -
    have "a * y \<le> a * (x * R)" using h(4) assms(2) by (simp add: mult_left_mono)
    then show ?thesis using h(1,2) by (simp add: field_simps)
  qed
  moreover have "a / y \<le> a / x * R"
  proof -
    have "a * x \<le> a * (y * R)" using h(3) assms(2) by (simp add: mult_left_mono)
    then show ?thesis using h(1,2) by (simp add: field_simps)
  qed
  ultimately show ?thesis
    unfolding near_def R_def [symmetric] using h(1,2) assms(2) by simp
qed

lemma rounding_ratio_6: "rounding_ratio ^ 6 \<le> 1 + 1 / 2 ^ 49"
  unfolding rounding_ratio_def by (simp add: power_divide divide_le_eq)

lemma near_6_bound:
  assumes "near 6 x y"
  shows "\<bar>x - y\<bar> \<le> y / 2 ^ 49"
proof -
  define R where "R = rounding_ratio ^ 6"
  have h: "0 < x" "0 < y" "x \<le> y * R" "y \<le> x * R"
    using assms by (simp_all add: near_def R_def)
  have R1: "R \<le> 1 + 1 / 2 ^ 49" unfolding R_def by (rule rounding_ratio_6)
  have "y * R \<le> y * (1 + 1 / 2 ^ 49)" using R1 h(2) by (intro mult_left_mono) simp_all
  then have up: "x - y \<le> y / 2 ^ 49" using h(3) by (simp add: algebra_simps)
  have "x * R \<le> x * (1 + 1 / 2 ^ 49)" using R1 h(1) by (intro mult_left_mono) simp_all
  then have yx: "y - x \<le> x / 2 ^ 49" using h(4) by (simp add: algebra_simps)
  have lo: "y - x \<le> y / 2 ^ 49"
  proof (cases "x \<le> y")
    case True
    then have "x / 2 ^ 49 \<le> y / 2 ^ 49" by (simp add: divide_right_mono)
    then show ?thesis using yx by linarith
  next
    case False
    then have "y - x \<le> 0" by simp
    also have "0 \<le> y / 2 ^ 49" using h(2) by simp
    finally show ?thesis .
  qed
  show ?thesis using up lo by linarith
qed

text \<open>Some roundings evaluated: the quotients and products of the examples below.\<close>

lemma fl_one_half: "fl (1 / 2) = 1 / 2"
  using fl_half [of 1] by simp

lemma fl_4_3: "fl (4 / 3) = (6004799503160661 / 4503599627370496)"
  by (subst fl_eval [where k = "52"]) (simp_all add: rne_def Let_def)

lemma fl_8_9: "fl (8 / 9) = (2001599834386887 / 2251799813685248)"
  by (subst fl_eval [where k = "53"]) (simp_all add: rne_def Let_def)

lemma fl_17_20: "fl (17 / 20) = (7656119366529843 / 9007199254740992)"
  by (subst fl_eval [where k = "53"]) (simp_all add: rne_def Let_def)

lemma fl_zoom85: "fl (7656119366529843 / 9007199254740992) = (7656119366529843 / 9007199254740992)"
  by (subst fl_eval [where k = "53"]) (simp_all add: rne_def Let_def)

lemma fl_preview_height: "fl (900719925474099200 / 850679929614427) = (4656755129404235 / 4398046511104)"
  by (subst fl_eval [where k = "42"]) (simp_all add: rne_def Let_def)

lemma fl_3_2: "fl (3 / 2) = (3 / 2)"
  by (subst fl_eval [where k = "52"]) (simp_all add: rne_def Let_def)

lemma fl_export_scale: "fl (22968358099589529 / 18014398509481984) = (2871044762448691 / 2251799813685248)"
  by (subst fl_eval [where k = "52"]) (simp_all add: rne_def Let_def)

lemma fl_export_height: "fl (3039929748475084800 / 2871044762448691) = (1164188782351059 / 1099511627776)"
  by (subst fl_eval [where k = "42"]) (simp_all add: rne_def Let_def)

lemma fl_16_9: "fl (16 / 9) = (2001599834386887 / 1125899906842624)"
  by (subst fl_eval [where k = "52"]) (simp_all add: rne_def Let_def)

lemma fl_2400_16_9: "fl (900719925474099200 / 667199944795629) = 1350"
  by (subst fl_eval [where k = "42"]) (simp_all add: rne_def Let_def)

lemma fl_7_3: "fl (7 / 3) = (5254199565265579 / 2251799813685248)"
  by (subst fl_eval [where k = "51"]) (simp_all add: rne_def Let_def)

lemma fl_2400_7_3: "fl (5404319552844595200 / 5254199565265579) = (1130926245712457 / 1099511627776)"
  by (subst fl_eval [where k = "42"]) (simp_all add: rne_def Let_def)

lemma fl_30_11: "fl (30 / 11) = (6141272219141585 / 2251799813685248)"
  by (subst fl_eval [where k = "51"]) (simp_all add: rne_def Let_def)

lemma fl_2400_30_11: "fl (1080863910568919040 / 1228254443828317) = (7740561859543041 / 8796093022208)"
  by (subst fl_eval [where k = "43"]) (simp_all add: rne_def Let_def)

lemma fl_3_4: "fl (3 / 4) = (3 / 4)"
  by (subst fl_eval [where k = "53"]) (simp_all add: rne_def Let_def)

lemma fl_2_3: "fl (2 / 3) = (6004799503160661 / 9007199254740992)"
  by (subst fl_eval [where k = "53"]) (simp_all add: rne_def Let_def)

section \<open>Properties of the number model\<close>

lemma js_lt_irrefl [simp]: "\<not> js_lt x x"
  by (cases x) simp_all

lemma js_lt_asym: "js_lt x y \<Longrightarrow> \<not> js_lt y x"
  by (cases x; cases y) simp_all

lemma js_lt_trans: "js_lt x y \<Longrightarrow> js_lt y z \<Longrightarrow> js_lt x z"
  by (cases x; cases y; cases z) simp_all

lemma js_lt_NaN_right [simp]: "\<not> js_lt x NaN"
  by (cases x) simp_all

lemma clamp_Num:
  "clamp (Num z) (Num a) (Num b) = Num (min (max z a) b)"
  by (simp add: clamp_def Math_max_def Math_min_def max_def min_def)

lemma js_le_Num [simp]: "js_le (Num a) (Num b) = (a \<le> b)"
  by (auto simp: js_le_def js_eq_def)

lemma js_gt_Num [simp]: "js_gt (Num a) (Num b) = (b < a)"
  by (simp add: js_gt_def)

lemma js_eq_Num [simp]: "js_eq (Num a) (Num b) = (a = b)"
  by (simp add: js_eq_def)

lemma js_sub_Num [simp]: "js_sub (Num a) (Num b) = Num (fl (a - b))"
  by (simp add: js_sub_def)

lemma Math_max_Num [simp]: "Math_max (Num a) (Num b) = Num (max a b)"
  by (simp add: Math_max_def max_def)

lemma Math_min_Num [simp]: "Math_min (Num a) (Num b) = Num (min a b)"
  by (simp add: Math_min_def min_def)

lemma js_falsy_Num [simp]: "js_falsy (Num a) = (a = 0)"
  by (simp add: js_falsy_def)

lemma js_or_Num [simp]: "js_or (Num a) (Num b) = (if a = 0 then Num b else Num a)"
  by (simp add: js_or_def)

lemma clamp_into_spec: "min (max ideal 0) (max 0 upper) = clampInto_spec ideal upper"
  by (simp add: clampInto_spec_def min_def max_def)

section \<open>The two draw routines on finite arguments\<close>

lemma coverScale_spec_pos:
  "0 < sw \<Longrightarrow> 0 < sh \<Longrightarrow> 0 < w \<Longrightarrow> 0 < h \<Longrightarrow> 0 < coverScale_spec sw sh w h"
  by (simp add: coverScale_spec_def)

lemma finalScale_number_Num:
  assumes "0 < sw" "0 < sh" "0 < h"
  shows "finalScale_number (Num sw) (Num sh) (Num w) (Num h) (Num z)
         = Num (finalScale_spec sw sh w h z)"
  using assms by (simp add: finalScale_number_def finalScale_spec_def coverScale_spec_def)

text \<open>The tail shared by both draw routines once the final scale is a positive real.\<close>

lemma source_rect_tail:
  assumes "0 < fs" "0 < w" "0 < h"
  shows "js_div (Num w) (Num fs) = Num (fl (w / fs))"
    and "js_div (Num h) (Num fs) = Num (fl (h / fs))"
    and "js_div (Num (fl (w / fs))) (Num 2) = Num (fl (fl (w / fs) / 2))"
    and "js_div (Num (fl (h / fs))) (Num 2) = Num (fl (fl (h / fs) / 2))"
    and "0 < fl (w / fs)" and "0 < fl (h / fs)"
  using assms by simp_all

lemma drawMediaSection_real:
  assumes el: "elementWidth el = Num sw" "elementHeight el = Num sh"
    and pos: "0 < sw" "0 < sh" "0 < tw" "0 < h"
  shows "drawMediaSection (Some el) (Num tw) (Num h) (Num z) \<lparr>xc = Num fx, yc = Num fy\<rparr> =
     (let w = fl (tw / 2);
          fs = finalScale_spec sw sh w h z;
          visibleW = fl (w / fs);
          visibleH = fl (h / fs)
      in if fs \<le> 0 then None
         else Some \<lparr>sx = Num (clampInto_spec (fl (fl (sw * fx) - fl (visibleW / 2)))
                                 (fl (sw - visibleW))),
                    sy = Num (clampInto_spec (fl (fl (sh * fy) - fl (visibleH / 2)))
                                 (fl (sh - visibleH))),
                    sWidth = Num visibleW, sHeight = Num visibleH,
                    dX = Num 0, dY = Num 0, dW = Num w, dH = Num h\<rparr>)"
proof -
  define w where "w = fl (tw / 2)"
  define cover where "cover = coverScale_spec sw sh w h"
  define fs where "fs = finalScale_spec sw sh w h z"
  have wpos: "0 < w" using pos by (simp add: w_def)
  have g1: "(js_falsy (Num sw) \<or> js_falsy (Num sh) \<or> js_le (Num sw) (Num 0)
             \<or> js_le (Num sh) (Num 0)) = False"
    using pos by simp
  have a1: "js_div (Num tw) (Num 2) = Num w" by (simp add: w_def)
  have a2: "js_div (Num sw) (Num sh) = Num (fl (sw / sh))" using pos by simp
  have a3: "js_div (Num w) (Num h) = Num (fl (w / h))" using pos by simp
  have a4: "(if js_gt (Num (fl (sw / sh))) (Num (fl (w / h))) then js_div (Num h) (Num sh)
             else js_div (Num w) (Num sw)) = Num cover"
    using pos by (simp add: cover_def coverScale_spec_def)
  have a5: "js_mul (Num cover) (js_div (Num z) (Num 100)) = Num fs"
    by (simp add: fs_def finalScale_spec_def cover_def)
  have g2: "(js_le (Num fs) (Num 0) \<or> \<not> Number_isFinite (Num fs)) = (fs \<le> 0)"
    by simp
  have src: "js_or (Num sw) (Num 0) = Num sw" "js_or (Num sh) (Num 0) = Num sh"
    by simp_all
  have head: "drawMediaSection (Some el) (Num tw) (Num h) (Num z) \<lparr>xc = Num fx, yc = Num fy\<rparr> =
    (if fs \<le> 0 then None
     else
       (let sWidthFinal = js_div (Num w) (Num fs);
            sHeightFinal = js_div (Num h) (Num fs);
            sxIdeal = js_sub (js_mul (Num sw) (Num fx)) (js_div sWidthFinal (Num 2));
            syIdeal = js_sub (js_mul (Num sh) (Num fy)) (js_div sHeightFinal (Num 2));
            sx' = clamp sxIdeal (Num 0) (Math_max (Num 0) (js_sub (Num sw) sWidthFinal));
            sy' = clamp syIdeal (Num 0) (Math_max (Num 0) (js_sub (Num sh) sHeightFinal))
        in if js_gt sWidthFinal (Num 0) \<and> js_gt sHeightFinal (Num 0)
              \<and> js_gt (Num w) (Num 0) \<and> js_gt (Num h) (Num 0)
              \<and> Number_isFinite sx' \<and> Number_isFinite sy'
              \<and> Number_isFinite sWidthFinal \<and> Number_isFinite sHeightFinal
           then Some \<lparr>sx = sx', sy = sy', sWidth = sWidthFinal, sHeight = sHeightFinal,
                       dX = Num 0, dY = Num 0, dW = Num w, dH = Num h\<rparr>
           else None))"
    unfolding drawMediaSection_def
    by (simp only: Let_def option.case el src g1 a1 a2 a3 a4 a5 g2 if_False
          RelativeFocus.select_convs)
  have pre: "drawMediaSection (Some el) (Num tw) (Num h) (Num z) \<lparr>xc = Num fx, yc = Num fy\<rparr> =
     (if fs \<le> 0 then None
      else Some \<lparr>sx = Num (clampInto_spec (fl (fl (sw * fx) - fl (fl (w / fs) / 2)))
                              (fl (sw - fl (w / fs)))),
                 sy = Num (clampInto_spec (fl (fl (sh * fy) - fl (fl (h / fs) / 2)))
                              (fl (sh - fl (h / fs)))),
                 sWidth = Num (fl (w / fs)), sHeight = Num (fl (h / fs)),
                 dX = Num 0, dY = Num 0, dW = Num w, dH = Num h\<rparr>)"
  proof (cases "fs \<le> 0")
    case True
    then show ?thesis by (simp only: head if_True)
  next
    case False
    then have fs_pos: "0 < fs" by simp
    note t = source_rect_tail [OF fs_pos wpos pos(4)]
    show ?thesis
      unfolding head Let_def t(1-4)
      using False t(5,6) wpos pos
      by (simp add: clamp_Num clamp_into_spec del: js_div.simps fl_pos_iff)
  qed
  show ?thesis
    unfolding Let_def w_def [symmetric] fs_def [symmetric] by (rule pre)
qed

lemma drawFinalMedia_real:
  assumes pos: "0 < naturalWidth img" "0 < naturalHeight img" "0 < ow" "0 < h"
  shows "drawFinalMedia img section (Num ow) (Num h) (Num z) \<lparr>xc = Num fx, yc = Num fy\<rparr> =
     (let sw = real (naturalWidth img);
          sh = real (naturalHeight img);
          w = fl (ow / 2);
          fs = finalScale_spec sw sh w h z;
          visibleW = fl (w / fs);
          visibleH = fl (h / fs)
      in if fs \<le> 0 then None
         else Some \<lparr>sx = Num (clampInto_spec (fl (fl (sw * fx) - fl (visibleW / 2)))
                                 (fl (sw - visibleW))),
                    sy = Num (clampInto_spec (fl (fl (sh * fy) - fl (visibleH / 2)))
                                 (fl (sh - visibleH))),
                    sWidth = Num visibleW, sHeight = Num visibleH,
                    dX = (if section = Left then Num 0 else Num w), dY = Num 0,
                    dW = Num w, dH = Num h\<rparr>)"
proof -
  define sw where "sw = real (naturalWidth img)"
  define sh where "sh = real (naturalHeight img)"
  define w where "w = fl (ow / 2)"
  define cover where "cover = coverScale_spec sw sh w h"
  define fs where "fs = finalScale_spec sw sh w h z"
  have spos: "0 < sw" "0 < sh" using pos by (simp_all add: sw_def sh_def)
  have wpos: "0 < w" using pos by (simp add: w_def)
  have g1: "(js_le (Num sw) (Num 0) \<or> js_le (Num sh) (Num 0)) = False"
    using spos by simp
  have a1: "js_div (Num ow) (Num 2) = Num w" by (simp add: w_def)
  have a2: "js_div (Num sw) (Num sh) = Num (fl (sw / sh))" using spos by simp
  have a3: "js_div (Num w) (Num h) = Num (fl (w / h))" using pos by simp
  have a4: "(if js_gt (Num (fl (sw / sh))) (Num (fl (w / h))) then js_div (Num h) (Num sh)
             else js_div (Num w) (Num sw)) = Num cover"
    using spos by (simp add: cover_def coverScale_spec_def)
  have a5: "js_mul (Num cover) (js_div (Num z) (Num 100)) = Num fs"
    by (simp add: fs_def finalScale_spec_def cover_def)
  have g2: "(js_le (Num fs) (Num 0) \<or> \<not> Number_isFinite (Num fs)) = (fs \<le> 0)"
    by simp
  have head: "drawFinalMedia img section (Num ow) (Num h) (Num z) \<lparr>xc = Num fx, yc = Num fy\<rparr> =
    (if fs \<le> 0 then None
     else
       (let sWidthFinal = js_div (Num w) (Num fs);
            sHeightFinal = js_div (Num h) (Num fs);
            sxIdeal = js_sub (js_mul (Num sw) (Num fx)) (js_div sWidthFinal (Num 2));
            syIdeal = js_sub (js_mul (Num sh) (Num fy)) (js_div sHeightFinal (Num 2));
            sx' = clamp sxIdeal (Num 0) (Math_max (Num 0) (js_sub (Num sw) sWidthFinal));
            sy' = clamp syIdeal (Num 0) (Math_max (Num 0) (js_sub (Num sh) sHeightFinal))
        in if js_gt sWidthFinal (Num 0) \<and> js_gt sHeightFinal (Num 0)
              \<and> Number_isFinite sx' \<and> Number_isFinite sy'
              \<and> Number_isFinite sWidthFinal \<and> Number_isFinite sHeightFinal
           then Some \<lparr>sx = sx', sy = sy', sWidth = sWidthFinal, sHeight = sHeightFinal,
                       dX = (if section = Left then Num 0 else Num w), dY = Num 0,
                       dW = Num w, dH = Num h\<rparr>
           else None))"
    unfolding drawFinalMedia_def sw_def [symmetric] sh_def [symmetric]
    by (simp only: Let_def g1 a1 a2 a3 a4 a5 g2 if_False RelativeFocus.select_convs)
  have pre: "drawFinalMedia img section (Num ow) (Num h) (Num z) \<lparr>xc = Num fx, yc = Num fy\<rparr> =
     (if fs \<le> 0 then None
      else Some \<lparr>sx = Num (clampInto_spec (fl (fl (sw * fx) - fl (fl (w / fs) / 2)))
                              (fl (sw - fl (w / fs)))),
                 sy = Num (clampInto_spec (fl (fl (sh * fy) - fl (fl (h / fs) / 2)))
                              (fl (sh - fl (h / fs)))),
                 sWidth = Num (fl (w / fs)), sHeight = Num (fl (h / fs)),
                 dX = (if section = Left then Num 0 else Num w), dY = Num 0,
                 dW = Num w, dH = Num h\<rparr>)"
  proof (cases "fs \<le> 0")
    case True
    then show ?thesis by (simp only: head if_True)
  next
    case False
    then have fs_pos: "0 < fs" by simp
    note t = source_rect_tail [OF fs_pos wpos pos(4)]
    show ?thesis
      unfolding head Let_def t(1-4)
      using False t(5,6) wpos pos
      by (simp add: clamp_Num clamp_into_spec del: js_div.simps fl_pos_iff)
  qed
  show ?thesis
    unfolding Let_def sw_def [symmetric] sh_def [symmetric] w_def [symmetric]
      fs_def [symmetric] by (rule pre)
qed

text \<open>Scaling both sides of the destination by a power of two scales the final scale.\<close>

lemma finalScale_spec_scale:
  assumes "0 < h"
  shows "finalScale_spec sw sh (w * 2 powi j) (h * 2 powi j) z
         = finalScale_spec sw sh w h z * 2 powi j"
proof -
  have q: "w * 2 powi j / (h * 2 powi j) = w / h" by simp
  have c1: "h * 2 powi j / sh = h / sh * 2 powi j" by simp
  have c2: "w * 2 powi j / sw = w / sw * 2 powi j" by simp
  have cover: "coverScale_spec sw sh (w * 2 powi j) (h * 2 powi j)
               = coverScale_spec sw sh w h * 2 powi j"
    unfolding coverScale_spec_def q c1 c2 fl_scale by simp
  have "coverScale_spec sw sh w h * 2 powi j * fl (z / 100)
        = coverScale_spec sw sh w h * fl (z / 100) * 2 powi j"
    by simp
  then show ?thesis
    unfolding finalScale_spec_def cover by (simp only: fl_scale)
qed

lemma drawMediaSection_abort:
  assumes el: "elementWidth el = Num sw" "elementHeight el = Num sh"
    and pos: "0 < sw" "0 < sh"
    and bad: "js_le (finalScale_number (Num sw) (Num sh) (js_div tw (Num 2)) th z) (Num 0)
              \<or> \<not> Number_isFinite (finalScale_number (Num sw) (Num sh) (js_div tw (Num 2)) th z)"
  shows "drawMediaSection (Some el) tw th z f = None"
  using pos bad
  by (simp add: drawMediaSection_def el Let_def finalScale_number_def del: js_div.simps js_mul.simps)

text \<open>
  The two routines differ in their guards only: the preview also asks for a positive
  destination, which the positive visible size already implies.
\<close>

lemma js_div_pos_imp:
  assumes "js_gt (js_div x (Num fs)) (Num 0)" and "0 < fs"
  shows "js_gt x (Num 0)"
  using assms by (cases x) (simp_all add: js_gt_def signed_inf_def zero_less_divide_iff)

lemma final_scale_positive:
  assumes "\<not> (js_le F (Num 0) \<or> \<not> Number_isFinite F)"
  obtains fs where "F = Num fs" "0 < fs"
  using assms by (cases F) simp_all

lemma same_draw_routine:
  assumes img: "0 < naturalWidth img" "0 < naturalHeight img"
  shows "map_option source_rect (drawFinalMedia img section W H z f)
       = map_option source_rect (drawMediaSection (Some (Image img)) W H z f)"
proof -
  define sw where "sw = real (naturalWidth img)"
  define sh where "sh = real (naturalHeight img)"
  define F where "F = js_mul (if js_gt (js_div (Num sw) (Num sh)) (js_div (js_div W (Num 2)) H)
                              then js_div H (Num sh) else js_div (js_div W (Num 2)) (Num sw))
                             (js_div z (Num 100))"
  have spos: "0 < sw" "0 < sh" using img by (simp_all add: sw_def sh_def)
  have g1: "(js_le (Num sw) (Num 0) \<or> js_le (Num sh) (Num 0)) = False"
    "(js_falsy (Num sw) \<or> js_falsy (Num sh) \<or> js_le (Num sw) (Num 0)
             \<or> js_le (Num sh) (Num 0)) = False"
    using spos by simp_all
  have src: "js_or (Num sw) (Num 0) = Num sw" "js_or (Num sh) (Num 0) = Num sh"
    using spos by simp_all
  have el: "elementWidth (Image img) = Num sw" "elementHeight (Image img) = Num sh"
    by (simp_all add: sw_def sh_def)
  show ?thesis
  proof (cases "js_le F (Num 0) \<or> \<not> Number_isFinite F")
    case True
    then show ?thesis
      unfolding drawFinalMedia_def drawMediaSection_def sw_def [symmetric] sh_def [symmetric]
      using spos
      by (simp only: Let_def option.case el src g1 F_def [symmetric] if_True if_False
            option.map) simp
  next
    case False
    then obtain fs where fs: "F = Num fs" "0 < fs" by (rule final_scale_positive)
    have extra: "js_gt (js_div W (Num 2)) (Num 0) \<and> js_gt H (Num 0)"
      if "js_gt (js_div (js_div W (Num 2)) (Num fs)) (Num 0)"
        "js_gt (js_div H (Num fs)) (Num 0)"
      using that js_div_pos_imp [OF _ fs(2)] by blast
    show ?thesis
      unfolding drawFinalMedia_def drawMediaSection_def sw_def [symmetric] sh_def [symmetric]
      using False extra spos
      by (simp only: Let_def option.case el src g1 F_def [symmetric] if_False fs)
         (auto simp: source_rect_def simp del: js_div.simps js_mul.simps)
  qed
qed

text \<open>The visible size of one axis, computed at a destination and at its multiple.\<close>

lemma visible_size_near:
  assumes q: "0 < q" and zf: "0 < zf" and d: "0 < d" and k: "0 < k"
  shows "near 6 (fl (d * k / fl (fl (q * k) * zf))) (fl (d / fl (fl q * zf)))"
proof -
  have n3: "near 3 (fl (d / fl (fl q * zf))) (d / (q * zf))" if "0 < q" "0 < d" for q d :: real
  proof -
    have c: "near 1 (fl q) q" using that by (intro near_fl)
    have fq: "0 < fl q" using that by simp
    have "near 1 (fl (fl q * zf)) (fl q * zf)" using fq zf by (intro near_fl) simp
    moreover have "near 1 (fl q * zf) (q * zf)" using c zf by (rule near_mult)
    ultimately have fs: "near 2 (fl (fl q * zf)) (q * zf)" by (rule near_trans) simp
    have fspos: "0 < fl (fl q * zf)" using fq zf by simp
    have "near 1 (fl (d / fl (fl q * zf))) (d / fl (fl q * zf))"
      using that fspos by (intro near_fl) simp
    moreover have "near 2 (d / fl (fl q * zf)) (d / (q * zf))"
      using fs that(2) by (rule near_divide)
    ultimately show ?thesis by (rule near_trans) simp
  qed
  have a: "near 3 (fl (d * k / fl (fl (q * k) * zf))) (d * k / (q * k * zf))"
    using q d k by (intro n3) simp_all
  have e: "d * k / (q * k * zf) = d / (q * zf)" using k by simp
  have b: "near 3 (d / (q * zf)) (fl (d / fl (fl q * zf)))"
    using n3 [OF q d] by (rule near_sym)
  show ?thesis
    using a b unfolding e by (rule near_trans) simp
qed


lemma export_sizes_near:
  assumes img: "0 < naturalWidth img" "0 < naturalHeight img"
    and pos: "0 < tw" "0 < th" "0 < ow" "0 < oh"
    and dbl: "fl tw = tw" "fl ow = ow"
    and aspect: "tw / 2 / th = ow / 2 / oh"
  shows "(case drawFinalMedia img section (Num ow) (Num oh) (Num z)
                 \<lparr>xc = Num fx, yc = Num fy\<rparr> of
            None \<Rightarrow> drawMediaSection (Some (Image img)) (Num tw) (Num th) (Num z)
                      \<lparr>xc = Num fx, yc = Num fy\<rparr> = None
          | Some e \<Rightarrow>
              (case drawMediaSection (Some (Image img)) (Num tw) (Num th) (Num z)
                      \<lparr>xc = Num fx, yc = Num fy\<rparr> of
                 None \<Rightarrow> False
               | Some p \<Rightarrow> size_near (sWidth e) (sWidth p)
                            \<and> size_near (sHeight e) (sHeight p)))"
proof -
  define sw where "sw = real (naturalWidth img)"
  define sh where "sh = real (naturalHeight img)"
  define w where "w = tw / 2"
  define k where "k = oh / th"
  define zf where "zf = fl (z / 100)"
  define q where "q = (if fl (sw / sh) > fl (w / th) then th / sh else w / sw)"
  have spos: "0 < sw" "0 < sh" using img by (simp_all add: sw_def sh_def)
  have wpos: "0 < w" and kpos: "0 < k" using pos by (simp_all add: w_def k_def)
  have qpos: "0 < q" using spos wpos pos by (simp add: q_def)
  have oh: "oh = th * k" using pos by (simp add: k_def)
  have "ow / 2 = w / th * oh" using aspect pos by (simp add: w_def)
  then have ow2: "ow / 2 = w * k" using pos by (simp add: k_def)
  define W where "W = fl (tw / 2)"
  define W' where "W' = fl (ow / 2)"
  define FS where "FS = finalScale_spec sw sh W th z"
  define FS' where "FS' = finalScale_spec sw sh W' oh z"
  define VW where "VW = fl (W / FS)"
  define VH where "VH = fl (th / FS)"
  define VW' where "VW' = fl (W' / FS')"
  define VH' where "VH' = fl (oh / FS')"
  have W: "W = w" unfolding W_def w_def using fl_half [of tw] dbl by simp
  have W': "W' = w * k" unfolding W'_def ow2 [symmetric] using fl_half [of ow] dbl by simp
  have r1: "w * k / (th * k) = w / th" using kpos by simp
  have r2: "th * k / sh = th / sh * k" "w * k / sw = w / sw * k" by simp_all
  have FS: "FS = fl (fl q * zf)"
    unfolding FS_def W finalScale_spec_def coverScale_spec_def q_def zf_def by simp
  have FS': "FS' = fl (fl (q * k) * zf)"
    unfolding FS'_def W' oh finalScale_spec_def coverScale_spec_def q_def zf_def r1 r2
    by simp
  have fq: "0 < fl q" "0 < fl (q * k)" using qpos kpos by simp_all
  have sign: "(FS \<le> 0) = (zf \<le> 0)" "(FS' \<le> 0) = (zf \<le> 0)"
    unfolding FS FS' using qpos kpos by (auto simp: mult_le_0_iff)
  have near_w: "size_near (Num VW') (Num VW)" and near_h: "size_near (Num VH') (Num VH)"
    if zf: "0 < zf"
  proof -
    have "near 6 (fl (w * k / fl (fl (q * k) * zf))) (fl (w / fl (fl q * zf)))"
      using qpos zf wpos kpos by (rule visible_size_near)
    then have "\<bar>fl (w * k / fl (fl (q * k) * zf)) - fl (w / fl (fl q * zf))\<bar>
               \<le> fl (w / fl (fl q * zf)) / 2 ^ 49"
      by (rule near_6_bound)
    then show "size_near (Num VW') (Num VW)"
      unfolding VW'_def VW_def W W' FS FS' size_near_def by simp
    have "near 6 (fl (th * k / fl (fl (q * k) * zf))) (fl (th / fl (fl q * zf)))"
      using qpos zf pos(2) kpos by (rule visible_size_near)
    then have "\<bar>fl (th * k / fl (fl (q * k) * zf)) - fl (th / fl (fl q * zf))\<bar>
               \<le> fl (th / fl (fl q * zf)) / 2 ^ 49"
      by (rule near_6_bound)
    then show "size_near (Num VH') (Num VH)"
      unfolding VH'_def VH_def oh FS FS' size_near_def by simp
  qed
  have el: "elementWidth (Image img) = Num sw" "elementHeight (Image img) = Num sh"
    by (simp_all add: sw_def sh_def)
  show ?thesis
    unfolding drawFinalMedia_real [OF img pos(3,4)]
      drawMediaSection_real [OF el spos pos(1,2)] Let_def
      sw_def [symmetric] sh_def [symmetric]
      W_def [symmetric] W'_def [symmetric] FS_def [symmetric] FS'_def [symmetric]
      VW_def [symmetric] VH_def [symmetric] VW'_def [symmetric] VH'_def [symmetric]
    using near_w near_h by (simp add: sign)
qed

section \<open>C9: clamp is idempotent\<close>

text \<open>
  C9. The clamp function is idempotent: clamping an already clamped value with the same
  bounds changes nothing. The statement covers every value of the number type, so it
  holds for all real \<open>z\<close>, \<open>a\<close>, \<open>b\<close> (the values \<open>Num z\<close>, \<open>Num a\<close>, \<open>Num b\<close>), and for the
  infinities and NaN as well.
\<close>

theorem clamp_idempotent:
  "clamp (clamp z a b) a b = clamp z a b"
  unfolding clamp_def Math_max_def Math_min_def
  by (auto dest: js_lt_asym js_lt_trans)

section \<open>C1: the per-slot draw algorithm\<close>

text \<open>
  C1. For a per-slot draw on a media element with positive source dimensions \<open>sw\<close> by
  \<open>sh\<close>: with the cover scale \<open>h / sh\<close> when the source aspect exceeds the destination
  aspect and \<open>w / sw\<close> otherwise, and the final scale the cover scale times \<open>z / 100\<close>,
  the draw is abandoned whenever the final scale is non-finite or not positive (first
  part, for arbitrary numbers as canvas size and zoom). On a canvas of positive width
  \<open>tw\<close> and height \<open>h\<close>, the destination width \<open>w\<close> being half of \<open>tw\<close>, the draw is made
  when the final scale \<open>fs\<close> is positive, from the visible source size \<open>(w / fs, h / fs)\<close>
  and the top-left corner \<open>(sw * fx - visibleW / 2, sh * fy - visibleH / 2)\<close> clamped into
  \<open>[0, source size - visible size]\<close>, to 0 when that bound is negative (second part).
  Every quotient, product and difference is the double nearest to the exact value, in
  the order in which the code computes them.
\<close>

theorem drawMediaSection_follows_spec:
  assumes el: "elementWidth el = Num sw" "elementHeight el = Num sh"
    and pos: "0 < sw" "0 < sh"
  shows "(let fs = finalScale_number (Num sw) (Num sh) (js_div tw (Num 2)) th z
          in js_le fs (Num 0) \<or> \<not> Number_isFinite fs
             \<longrightarrow> drawMediaSection (Some el) tw th z f = None)
       \<and> (0 < cw \<and> 0 < h \<longrightarrow>
            finalScale_number (Num sw) (Num sh) (js_div (Num cw) (Num 2)) (Num h) (Num zr)
              = Num (finalScale_spec sw sh (fl (cw / 2)) h zr)
          \<and> drawMediaSection (Some el) (Num cw) (Num h) (Num zr)
                \<lparr>xc = Num fx, yc = Num fy\<rparr> =
             (let w = fl (cw / 2);
                  fs = finalScale_spec sw sh w h zr;
                  visibleW = fl (w / fs);
                  visibleH = fl (h / fs)
              in if fs \<le> 0 then None
                 else Some \<lparr>sx = Num (clampInto_spec (fl (fl (sw * fx) - fl (visibleW / 2)))
                                         (fl (sw - visibleW))),
                            sy = Num (clampInto_spec (fl (fl (sh * fy) - fl (visibleH / 2)))
                                         (fl (sh - visibleH))),
                            sWidth = Num visibleW, sHeight = Num visibleH,
                            dX = Num 0, dY = Num 0, dW = Num w, dH = Num h\<rparr>))"
proof (intro conjI impI)
  show "let fs = finalScale_number (Num sw) (Num sh) (js_div tw (Num 2)) th z
        in js_le fs (Num 0) \<or> \<not> Number_isFinite fs
           \<longrightarrow> drawMediaSection (Some el) tw th z f = None"
    unfolding Let_def using drawMediaSection_abort [OF el pos] by blast
next
  assume "0 < cw \<and> 0 < h"
  then have "0 < h" by simp
  have "js_div (Num cw) (Num 2) = Num (fl (cw / 2))" by simp
  then show "finalScale_number (Num sw) (Num sh) (js_div (Num cw) (Num 2)) (Num h) (Num zr)
              = Num (finalScale_spec sw sh (fl (cw / 2)) h zr)"
    using finalScale_number_Num [OF pos \<open>0 < h\<close>] by (simp only:)
next
  assume "0 < cw \<and> 0 < h"
  then have "0 < cw" "0 < h" by simp_all
  then show "drawMediaSection (Some el) (Num cw) (Num h) (Num zr)
                \<lparr>xc = Num fx, yc = Num fy\<rparr> =
             (let w = fl (cw / 2);
                  fs = finalScale_spec sw sh w h zr;
                  visibleW = fl (w / fs);
                  visibleH = fl (h / fs)
              in if fs \<le> 0 then None
                 else Some \<lparr>sx = Num (clampInto_spec (fl (fl (sw * fx) - fl (visibleW / 2)))
                                         (fl (sw - visibleW))),
                            sy = Num (clampInto_spec (fl (fl (sh * fy) - fl (visibleH / 2)))
                                         (fl (sh - visibleH))),
                            sWidth = Num visibleW, sHeight = Num visibleH,
                            dX = Num 0, dY = Num 0, dW = Num w, dH = Num h\<rparr>)"
    by (rule drawMediaSection_real [OF el pos])
qed

theorem drawMediaSection_follows_spec_witness:
  "drawMediaSection
     (Some (Image \<lparr>naturalWidth = 800, naturalHeight = 600, img_src = ''blob:left''\<rparr>))
     (Num 800) (Num 300) (Num 0) \<lparr>xc = Num (1/2), yc = Num (1/2)\<rparr> = None
   \<and> drawMediaSection
     (Some (Image \<lparr>naturalWidth = 800, naturalHeight = 600, img_src = ''blob:left''\<rparr>))
     (Num 800) (Num 300) (Num 200) \<lparr>xc = Num (1/2), yc = Num (1/2)\<rparr>
     = Some \<lparr>sx = Num 200, sy = Num 150, sWidth = Num 400, sHeight = Num 300,
             dX = Num 0, dY = Num 0, dW = Num 400, dH = Num 300\<rparr>"
  using drawMediaSection_follows_spec
    [of "Image \<lparr>naturalWidth = 800, naturalHeight = 600, img_src = ''blob:left''\<rparr>"
        800 600 "Num 800" "Num 300" "Num 0" "\<lparr>xc = Num (1/2), yc = Num (1/2)\<rparr>"
        800 300 200 "1/2" "1/2"]
  by (simp add: finalScale_number_def finalScale_spec_def coverScale_spec_def
        clampInto_spec_def Let_def fl_one_half)

section \<open>C2: the export draws what the preview shows\<close>

text \<open>
  The preview of a 1200 by 900 image at zoom 85 on a canvas of 1600 by 900 and its export
  on a canvas of 2400 by 1350 have slots of the same aspect ratio, 8 to 9. The preview
  divides 900 by the double nearest to 0.85; the export divides 1350 by the double
  nearest to 1.5 times that. The two quotients round to different doubles, so the source
  rectangles differ in their height.
\<close>

lemma preview_scale_zoom85:
  "finalScale_spec 1200 900 800 900 85 = 7656119366529843 / 9007199254740992"
  by (simp add: finalScale_spec_def coverScale_spec_def fl_4_3 fl_8_9 fl_17_20 fl_zoom85)

lemma export_scale_zoom85:
  "finalScale_spec 1200 900 1200 1350 85 = 2871044762448691 / 2251799813685248"
  by (simp add: finalScale_spec_def coverScale_spec_def fl_4_3 fl_8_9 fl_17_20 fl_3_2
        fl_export_scale)

theorem export_rect_counterexample:
  "map_option sHeight
     (drawFinalMedia \<lparr>naturalWidth = 1200, naturalHeight = 900, img_src = ''blob:right''\<rparr>
        Left (Num 2400) (Num 1350) (Num 85) \<lparr>xc = Num (1/2), yc = Num (1/2)\<rparr>)
     = Some (Num (1164188782351059 / 1099511627776))
   \<and> map_option sHeight
     (drawMediaSection
        (Some (Image \<lparr>naturalWidth = 1200, naturalHeight = 900, img_src = ''blob:right''\<rparr>))
        (Num 1600) (Num 900) (Num 85) \<lparr>xc = Num (1/2), yc = Num (1/2)\<rparr>)
     = Some (Num (4656755129404235 / 4398046511104))
   \<and> map_option source_rect
     (drawFinalMedia \<lparr>naturalWidth = 1200, naturalHeight = 900, img_src = ''blob:right''\<rparr>
        Left (Num 2400) (Num 1350) (Num 85) \<lparr>xc = Num (1/2), yc = Num (1/2)\<rparr>)
     \<noteq> map_option source_rect
     (drawMediaSection
        (Some (Image \<lparr>naturalWidth = 1200, naturalHeight = 900, img_src = ''blob:right''\<rparr>))
        (Num 1600) (Num 900) (Num 85) \<lparr>xc = Num (1/2), yc = Num (1/2)\<rparr>)"
proof -
  define img where
    "img = \<lparr>naturalWidth = 1200, naturalHeight = 900, img_src = ''blob:right''\<rparr>"
  define c where "c = \<lparr>xc = Num (1/2), yc = Num (1/2)\<rparr>"
  have E: "map_option sHeight (drawFinalMedia img Left (Num 2400) (Num 1350) (Num 85) c)
           = Some (Num (1164188782351059 / 1099511627776))"
    unfolding c_def
    by (subst drawFinalMedia_real)
       (simp_all add: img_def Let_def export_scale_zoom85 fl_export_height)
  have P: "map_option sHeight
             (drawMediaSection (Some (Image img)) (Num 1600) (Num 900) (Num 85) c)
           = Some (Num (4656755129404235 / 4398046511104))"
    unfolding c_def
    by (subst drawMediaSection_real [where sw = 1200 and sh = 900])
       (simp_all add: img_def Let_def preview_scale_zoom85 fl_preview_height)
  have "map_option source_rect (drawFinalMedia img Left (Num 2400) (Num 1350) (Num 85) c)
        \<noteq> map_option source_rect
            (drawMediaSection (Some (Image img)) (Num 1600) (Num 900) (Num 85) c)"
  proof
    assume "map_option source_rect (drawFinalMedia img Left (Num 2400) (Num 1350) (Num 85) c)
        = map_option source_rect
            (drawMediaSection (Some (Image img)) (Num 1600) (Num 900) (Num 85) c)"
    then have "map_option (\<lambda>r. snd (snd (snd r)))
                 (map_option source_rect
                    (drawFinalMedia img Left (Num 2400) (Num 1350) (Num 85) c))
             = map_option (\<lambda>r. snd (snd (snd r)))
                 (map_option source_rect
                    (drawMediaSection (Some (Image img)) (Num 1600) (Num 900) (Num 85) c))"
      by (simp only:)
    then have "map_option sHeight (drawFinalMedia img Left (Num 2400) (Num 1350) (Num 85) c)
             = map_option sHeight
                 (drawMediaSection (Some (Image img)) (Num 1600) (Num 900) (Num 85) c)"
      by (simp add: option.map_comp comp_def source_rect_def)
    then show False unfolding E P by simp
  qed
  then show ?thesis using E P unfolding img_def c_def by blast
qed

text \<open>
  C2 (amended). The export routine \<open>drawFinalMedia\<close> is the preview routine
  \<open>drawMediaSection\<close> under another name: for the same image, zoom, focus and canvas size
  (any numbers whatever) the two select the same source rectangle
  \<open>(sx, sy, sWidth, sHeight)\<close>, or both draw nothing. The rectangle is also exactly the
  same when the export canvas is the preview canvas scaled by a power of two. For other
  sizes of the same slot aspect ratio, the widths being doubles, the doubles round
  differently and the rectangles can differ in their last bits, as above: both routines
  draw or neither does, and the widths and the heights of the two rectangles differ by
  at most the \<open>2 ^ 49\<close>-th part of their value.
\<close>

theorem export_selects_preview_source_rect:
  assumes img: "0 < naturalWidth img" "0 < naturalHeight img"
  shows "map_option source_rect (drawFinalMedia img section W H z f)
         = map_option source_rect (drawMediaSection (Some (Image img)) W H z f)
       \<and> (0 < tw \<and> 0 < th \<longrightarrow>
           map_option source_rect
             (drawFinalMedia img section (Num (tw * 2 powi j)) (Num (th * 2 powi j)) (Num zr)
                \<lparr>xc = Num fx, yc = Num fy\<rparr>)
         = map_option source_rect
             (drawMediaSection (Some (Image img)) (Num tw) (Num th) (Num zr)
                \<lparr>xc = Num fx, yc = Num fy\<rparr>))
       \<and> (0 < tw \<and> 0 < th \<and> 0 < ow \<and> 0 < oh \<and> fl tw = tw \<and> fl ow = ow
           \<and> tw / 2 / th = ow / 2 / oh \<longrightarrow>
           (case drawFinalMedia img section (Num ow) (Num oh) (Num zr)
                   \<lparr>xc = Num fx, yc = Num fy\<rparr> of
              None \<Rightarrow> drawMediaSection (Some (Image img)) (Num tw) (Num th) (Num zr)
                        \<lparr>xc = Num fx, yc = Num fy\<rparr> = None
            | Some e \<Rightarrow>
                (case drawMediaSection (Some (Image img)) (Num tw) (Num th) (Num zr)
                        \<lparr>xc = Num fx, yc = Num fy\<rparr> of
                   None \<Rightarrow> False
                 | Some p \<Rightarrow> size_near (sWidth e) (sWidth p)
                              \<and> size_near (sHeight e) (sHeight p))))"
proof (intro conjI impI)
  assume "0 < tw \<and> 0 < th \<and> 0 < ow \<and> 0 < oh \<and> fl tw = tw \<and> fl ow = ow
           \<and> tw / 2 / th = ow / 2 / oh"
  then have "0 < tw" "0 < th" "0 < ow" "0 < oh" "fl tw = tw" "fl ow = ow"
    "tw / 2 / th = ow / 2 / oh"
    by simp_all
  then show "case drawFinalMedia img section (Num ow) (Num oh) (Num zr)
                   \<lparr>xc = Num fx, yc = Num fy\<rparr> of
              None \<Rightarrow> drawMediaSection (Some (Image img)) (Num tw) (Num th) (Num zr)
                        \<lparr>xc = Num fx, yc = Num fy\<rparr> = None
            | Some e \<Rightarrow>
                (case drawMediaSection (Some (Image img)) (Num tw) (Num th) (Num zr)
                        \<lparr>xc = Num fx, yc = Num fy\<rparr> of
                   None \<Rightarrow> False
                 | Some p \<Rightarrow> size_near (sWidth e) (sWidth p)
                              \<and> size_near (sHeight e) (sHeight p))"
    by (rule export_sizes_near [OF img])
next
  show "map_option source_rect (drawFinalMedia img section W H z f)
         = map_option source_rect (drawMediaSection (Some (Image img)) W H z f)"
    by (rule same_draw_routine [OF img])
next
  assume "0 < tw \<and> 0 < th"
  then have pos: "0 < tw" "0 < th" by simp_all
  define p :: real where "p = 2 powi j"
  define sw where "sw = real (naturalWidth img)"
  define sh where "sh = real (naturalHeight img)"
  define w where "w = fl (tw / 2)"
  define fs where "fs = finalScale_spec sw sh w th zr"
  have ppos: "0 < p" by (simp add: p_def)
  have spos: "0 < sw" "0 < sh" using img by (simp_all add: sw_def sh_def)
  have "tw * p / 2 = tw / 2 * p" by simp
  then have w': "fl (tw * p / 2) = w * p"
    unfolding w_def p_def by (simp only: fl_scale)
  have fs': "finalScale_spec sw sh (w * p) (th * p) zr = fs * p"
    unfolding fs_def p_def by (rule finalScale_spec_scale [OF pos(2)])
  have sign: "(fs * p \<le> 0) = (fs \<le> 0)"
    using ppos by (simp add: mult_le_0_iff)
  have vis: "w * p / (fs * p) = w / fs" "th * p / (fs * p) = th / fs"
    using ppos by simp_all
  have opos: "0 < tw * p" "0 < th * p" using pos ppos by simp_all
  have E: "drawFinalMedia img section (Num (tw * p)) (Num (th * p)) (Num zr)
             \<lparr>xc = Num fx, yc = Num fy\<rparr> =
        (if fs \<le> 0 then None
         else Some \<lparr>sx = Num (clampInto_spec (fl (fl (sw * fx) - fl (fl (w / fs) / 2)))
                                 (fl (sw - fl (w / fs)))),
                    sy = Num (clampInto_spec (fl (fl (sh * fy) - fl (fl (th / fs) / 2)))
                                 (fl (sh - fl (th / fs)))),
                    sWidth = Num (fl (w / fs)), sHeight = Num (fl (th / fs)),
                    dX = (if section = Left then Num 0 else Num (w * p)), dY = Num 0,
                    dW = Num (w * p), dH = Num (th * p)\<rparr>)"
    unfolding drawFinalMedia_real [OF img opos] Let_def
      sw_def [symmetric] sh_def [symmetric] w' fs' sign vis ..
  have P: "drawMediaSection (Some (Image img)) (Num tw) (Num th) (Num zr)
             \<lparr>xc = Num fx, yc = Num fy\<rparr> =
        (if fs \<le> 0 then None
         else Some \<lparr>sx = Num (clampInto_spec (fl (fl (sw * fx) - fl (fl (w / fs) / 2)))
                                 (fl (sw - fl (w / fs)))),
                    sy = Num (clampInto_spec (fl (fl (sh * fy) - fl (fl (th / fs) / 2)))
                                 (fl (sh - fl (th / fs)))),
                    sWidth = Num (fl (w / fs)), sHeight = Num (fl (th / fs)),
                    dX = Num 0, dY = Num 0, dW = Num w, dH = Num th\<rparr>)"
    using drawMediaSection_real [of "Image img" sw sh tw th zr fx fy] spos pos
    unfolding Let_def w_def [symmetric] fs_def [symmetric] by (simp add: sw_def sh_def)
  show "map_option source_rect
             (drawFinalMedia img section (Num (tw * 2 powi j)) (Num (th * 2 powi j)) (Num zr)
                \<lparr>xc = Num fx, yc = Num fy\<rparr>)
         = map_option source_rect
             (drawMediaSection (Some (Image img)) (Num tw) (Num th) (Num zr)
                \<lparr>xc = Num fx, yc = Num fy\<rparr>)"
    unfolding p_def [symmetric] E P by (simp add: source_rect_def)
qed

theorem export_selects_preview_source_rect_witness:
  "map_option source_rect
     (drawFinalMedia \<lparr>naturalWidth = 1200, naturalHeight = 900, img_src = ''blob:right''\<rparr>
        Right (Num 2400) (Num 1350) (Num 85) \<lparr>xc = Num (1/2), yc = Num (1/2)\<rparr>)
   = map_option source_rect
     (drawMediaSection
        (Some (Image \<lparr>naturalWidth = 1200, naturalHeight = 900, img_src = ''blob:right''\<rparr>))
        (Num 2400) (Num 1350) (Num 85) \<lparr>xc = Num (1/2), yc = Num (1/2)\<rparr>)
   \<and> map_option source_rect
     (drawFinalMedia \<lparr>naturalWidth = 1200, naturalHeight = 900, img_src = ''blob:right''\<rparr>
        Right (Num 3200) (Num 1800) (Num 85) \<lparr>xc = Num (1/2), yc = Num (1/2)\<rparr>)
   = map_option source_rect
     (drawMediaSection
        (Some (Image \<lparr>naturalWidth = 1200, naturalHeight = 900, img_src = ''blob:right''\<rparr>))
        (Num 1600) (Num 900) (Num 85) \<lparr>xc = Num (1/2), yc = Num (1/2)\<rparr>)
   \<and> (case drawFinalMedia
             \<lparr>naturalWidth = 1200, naturalHeight = 900, img_src = ''blob:right''\<rparr>
             Right (Num 2400) (Num 1350) (Num 85) \<lparr>xc = Num (1/2), yc = Num (1/2)\<rparr> of
         None \<Rightarrow>
           drawMediaSection
             (Some (Image \<lparr>naturalWidth = 1200, naturalHeight = 900,
                            img_src = ''blob:right''\<rparr>))
             (Num 1600) (Num 900) (Num 85) \<lparr>xc = Num (1/2), yc = Num (1/2)\<rparr> = None
       | Some e \<Rightarrow>
           (case drawMediaSection
                   (Some (Image \<lparr>naturalWidth = 1200, naturalHeight = 900,
                                  img_src = ''blob:right''\<rparr>))
                   (Num 1600) (Num 900) (Num 85) \<lparr>xc = Num (1/2), yc = Num (1/2)\<rparr> of
              None \<Rightarrow> False
            | Some p \<Rightarrow> size_near (sWidth e) (sWidth p)
                         \<and> size_near (sHeight e) (sHeight p)))"
  using export_selects_preview_source_rect
    [of "\<lparr>naturalWidth = 1200, naturalHeight = 900, img_src = ''blob:right''\<rparr>"
        Right "Num 2400" "Num 1350" "Num 85" "\<lparr>xc = Num (1/2), yc = Num (1/2)\<rparr>"
        1600 900 1 85 "1/2" "1/2" 2400 1350]
  by simp

section \<open>The exporter on ready slots\<close>

lemma displayAspect_real:
  "displayAspect pg = Num (container_aspect pg) \<and> 0 < container_aspect pg"
  by (auto simp: displayAspect_def container_aspect_def split: option.splits)

lemma finalDimensions_real:
  "finalDimensions l r pg =
     (Num (fl (2 * max (max (real (naturalWidth l)) (real (naturalWidth r))) 500)),
      Num (of_int \<lceil>fl (fl (2 * max (max (real (naturalWidth l)) (real (naturalWidth r))) 500)
                        / container_aspect pg)\<rceil>))"
proof -
  have a: "displayAspect pg = Num (container_aspect pg)" and b: "container_aspect pg \<noteq> 0"
    using displayAspect_real [of pg] by simp_all
  show ?thesis
    unfolding finalDimensions_def Let_def Math_max3_def a
    using b by (simp add: mult.commute)
qed

lemma canSaveComposite_images:
  assumes "canSaveComposite s"
  obtains l r where "leftMediaElement s = Some (Image l)" "rightMediaElement s = Some (Image r)"
proof -
  from assms have "isLoadedImage (leftMediaElement s)" "isLoadedImage (rightMediaElement s)"
    by (simp_all add: canSaveComposite_def Let_def)
  then show ?thesis
    using that by (cases "leftMediaElement s" rule: isLoadedImage.cases;
                   cases "rightMediaElement s" rule: isLoadedImage.cases) simp_all
qed

lemma saveCompositeImage_rendered:
  assumes can: "canSaveComposite s" and ctx: "context2d pg"
    and l: "leftMediaElement s = Some (Image l)" and r: "rightMediaElement s = Some (Image r)"
  shows "\<exists>ops. saveCompositeImage pg s =
           (s\<lparr>isSaving := True, saveError := None\<rparr>,
            Rendered (fst (finalDimensions l r pg)) (snd (finalDimensions l r pg)) ops
              ''image/png'' (Num (fl (95/100))))"
proof -
  define W where "W = fl (2 * max (max (real (naturalWidth l)) (real (naturalWidth r))) 500)"
  define H where "H = real_of_int \<lceil>fl (W / container_aspect pg)\<rceil>"
  have fd: "finalDimensions l r pg = (Num W, Num H)"
    unfolding finalDimensions_real W_def H_def ..
  have Wpos: "0 < W" by (simp add: W_def)
  have "0 < fl (W / container_aspect pg)" using Wpos displayAspect_real [of pg] by simp
  then have Hpos: "0 < H" unfolding H_def by simp
  show ?thesis
    unfolding saveCompositeImage_def
    using can ctx Wpos Hpos by (simp add: l r fd Let_def)
qed

section \<open>C3: the size of the exported bitmap\<close>

text \<open>
  C3 (amended). When both slots hold loaded images and the export is allowed, the output
  width is twice the maximum of the two source widths and 500, and the output height is
  that width divided by the aspect ratio of the preview container (16:9 when it cannot be
  measured), rounded up to an integer. Both quotients, the aspect ratio and the height
  before it is rounded up, are the doubles nearest to the exact quotients, and the product
  is the double nearest to the exact product (the product itself as long as it is below
  \<open>2 ^ 53\<close>). The witness is scenario A: 2400 by 1350.
\<close>

theorem export_dimensions:
  assumes "canSaveComposite s" and "context2d pg"
    and "leftMediaElement s = Some (Image l)" and "rightMediaElement s = Some (Image r)"
  shows "outcome_size (snd (saveCompositeImage pg s)) =
     Some (Num (fl (2 * max (max (real (naturalWidth l)) (real (naturalWidth r))) 500)),
           Num (of_int
             \<lceil>fl (fl (2 * max (max (real (naturalWidth l)) (real (naturalWidth r))) 500)
                  / container_aspect pg)\<rceil>))
     \<and> (max (max (naturalWidth l) (naturalWidth r)) 500 < 2 ^ 52 \<longrightarrow>
          fl (2 * max (max (real (naturalWidth l)) (real (naturalWidth r))) 500)
          = 2 * max (max (real (naturalWidth l)) (real (naturalWidth r))) 500)"
proof (intro conjI impI)
  obtain ops where "saveCompositeImage pg s =
           (s\<lparr>isSaving := True, saveError := None\<rparr>,
            Rendered (fst (finalDimensions l r pg)) (snd (finalDimensions l r pg)) ops
              ''image/png'' (Num (fl (95/100))))"
    using saveCompositeImage_rendered [OF assms] by blast
  then show "outcome_size (snd (saveCompositeImage pg s)) =
     Some (Num (fl (2 * max (max (real (naturalWidth l)) (real (naturalWidth r))) 500)),
           Num (of_int
             \<lceil>fl (fl (2 * max (max (real (naturalWidth l)) (real (naturalWidth r))) 500)
                  / container_aspect pg)\<rceil>))"
    by (simp add: finalDimensions_real)
next
  define m where "m = max (max (naturalWidth l) (naturalWidth r)) 500"
  assume "max (max (naturalWidth l) (naturalWidth r)) 500 < 2 ^ 52"
  then have "2 * m < 2 ^ 53" by (simp add: m_def)
  then have "fl (real (2 * m)) = real (2 * m)" by (rule fl_of_nat)
  moreover have "real (2 * m)
                 = 2 * max (max (real (naturalWidth l)) (real (naturalWidth r))) 500"
    by (simp add: m_def max_def)
  ultimately show "fl (2 * max (max (real (naturalWidth l)) (real (naturalWidth r))) 500)
          = 2 * max (max (real (naturalWidth l)) (real (naturalWidth r))) 500"
    by simp
qed

lemma canSave_scenarioA: "canSaveComposite scenarioA_state"
  by (simp add: canSaveComposite_def scenarioA_state_def initial_state_def string_falsy_def)

theorem export_dimensions_witness:
  "outcome_size (snd (saveCompositeImage \<lparr>container = Some (1600, 900), context2d = True\<rparr>
                        scenarioA_state)) = Some (Num 2400, Num 1350)"
  using export_dimensions
    [of scenarioA_state "\<lparr>container = Some (1600, 900), context2d = True\<rparr>"
        "\<lparr>naturalWidth = 800, naturalHeight = 600, img_src = ''blob:left''\<rparr>"
        "\<lparr>naturalWidth = 1200, naturalHeight = 900, img_src = ''blob:right''\<rparr>"]
    canSave_scenarioA
  by (simp add: scenarioA_state_def initial_state_def container_aspect_def
        fl_16_9 fl_2400_16_9)

lemma export_size_scenarioA:
  "outcome_size (snd (saveCompositeImage \<lparr>container = Some (cw, ch), context2d = True\<rparr>
                        scenarioA_state)) =
     Some (Num 2400,
           Num (of_int \<lceil>fl (2400
                  / container_aspect \<lparr>container = Some (cw, ch), context2d = True\<rparr>)\<rceil>))"
proof -
  obtain ops where "saveCompositeImage \<lparr>container = Some (cw, ch), context2d = True\<rparr>
                      scenarioA_state =
     (scenarioA_state\<lparr>isSaving := True, saveError := None\<rparr>,
      Rendered
       (fst (finalDimensions
               \<lparr>naturalWidth = 800, naturalHeight = 600, img_src = ''blob:left''\<rparr>
               \<lparr>naturalWidth = 1200, naturalHeight = 900, img_src = ''blob:right''\<rparr>
               \<lparr>container = Some (cw, ch), context2d = True\<rparr>))
       (snd (finalDimensions
               \<lparr>naturalWidth = 800, naturalHeight = 600, img_src = ''blob:left''\<rparr>
               \<lparr>naturalWidth = 1200, naturalHeight = 900, img_src = ''blob:right''\<rparr>
               \<lparr>container = Some (cw, ch), context2d = True\<rparr>))
       ops ''image/png'' (Num (fl (95/100))))"
    using saveCompositeImage_rendered
      [of scenarioA_state "\<lparr>container = Some (cw, ch), context2d = True\<rparr>"
        "\<lparr>naturalWidth = 800, naturalHeight = 600, img_src = ''blob:left''\<rparr>"
        "\<lparr>naturalWidth = 1200, naturalHeight = 900, img_src = ''blob:right''\<rparr>"]
      canSave_scenarioA
    by (auto simp: scenarioA_state_def initial_state_def)
  then show ?thesis by (simp add: finalDimensions_real)
qed

text \<open>
  The height is not the plain quotient: with a container of 700 by 300 the export of
  scenario A is 1029 high, while 2400 / (700 / 300) is not an integer.
\<close>

theorem export_height_counterexample:
  "outcome_size (snd (saveCompositeImage \<lparr>container = Some (700, 300), context2d = True\<rparr>
                        scenarioA_state)) = Some (Num 2400, Num 1029)
   \<and> js_div (Num 2400) (js_div (Num 700) (Num 300)) \<noteq> Num 1029"
  by (simp add: export_size_scenarioA container_aspect_def fl_7_3 fl_2400_7_3)

text \<open>
  Nor is the height the exact quotient rounded up: with a container of 1200 by 440 the
  exact quotient is 880, the double quotient is a little above it, and the export of
  scenario A is 881 high.
\<close>

lemma export_height_double_rounding:
  "outcome_size (snd (saveCompositeImage \<lparr>container = Some (1200, 440), context2d = True\<rparr>
                        scenarioA_state)) = Some (Num 2400, Num 881)
   \<and> \<lceil>2400 / (1200 / 440 :: real)\<rceil> = 880"
  by (simp add: export_size_scenarioA container_aspect_def fl_30_11 fl_2400_30_11)

lemma canSaveComposite_iff: "canSaveComposite s = (\<not> export_not_ready s)"
  by (auto simp: canSaveComposite_def export_not_ready_def Let_def split: option.splits)

section \<open>C4: the export precondition\<close>

text \<open>
  C4. When the left or the right slot does not hold a loaded image with positive
  dimensions (it is empty, still loading, or holds a video), or a provided logo source is
  not a loaded image yet, \<open>canSaveComposite\<close> is false, and \<open>saveCompositeImage\<close>
  returns with the not-ready error set and nothing else changed: no canvas is created and
  no drawing operation is made.
\<close>

theorem export_denied_when_not_ready:
  assumes "export_not_ready s"
  shows "\<not> canSaveComposite s
       \<and> saveCompositeImage pg s = (s\<lparr>saveError := Some NotReadyMessage\<rparr>, Blocked)
       \<and> outcome_ops (snd (saveCompositeImage pg s)) = []
       \<and> outcome_size (snd (saveCompositeImage pg s)) = None"
  using assms by (simp add: canSaveComposite_iff saveCompositeImage_def)

theorem export_denied_when_not_ready_witness:
  "\<not> canSaveComposite scenarioB_state
   \<and> saveCompositeImage \<lparr>container = Some (1600, 900), context2d = True\<rparr> scenarioB_state
       = (scenarioB_state\<lparr>saveError := Some NotReadyMessage\<rparr>, Blocked)
   \<and> outcome_ops (snd (saveCompositeImage \<lparr>container = Some (1600, 900), context2d = True\<rparr>
                         scenarioB_state)) = []
   \<and> outcome_size (snd (saveCompositeImage \<lparr>container = Some (1600, 900), context2d = True\<rparr>
                         scenarioB_state)) = None"
proof -
  have "export_not_ready scenarioB_state"
    by (simp add: export_not_ready_def scenarioB_state_def)
  then show ?thesis
    using export_denied_when_not_ready
      [of scenarioB_state "\<lparr>container = Some (1600, 900), context2d = True\<rparr>"]
    by simp
qed

section \<open>C8: the exported artifact\<close>

text \<open>
  C8 (amended). A successful export encodes the canvas with \<open>toBlob\<close> as
  \<open>image/png\<close> (quality 0.95, the double so written) and, when the blob arrives,
  triggers a download whose file name is \<open>imagem-combinada.png\<close>.
\<close>

theorem export_download:
  assumes "canSaveComposite s" and "context2d pg" and "isMounted s"
  shows "outcome_encoding (snd (saveCompositeImage pg s)) = Some (''image/png'', Num (fl (95/100)))
       \<and> snd (toBlob_callback True (fst (saveCompositeImage pg s))) = Some ''imagem-combinada.png''"
proof -
  obtain l r where "leftMediaElement s = Some (Image l)" "rightMediaElement s = Some (Image r)"
    using assms(1) by (rule canSaveComposite_images)
  then obtain ops where "saveCompositeImage pg s =
           (s\<lparr>isSaving := True, saveError := None\<rparr>,
            Rendered (fst (finalDimensions l r pg)) (snd (finalDimensions l r pg)) ops
              ''image/png'' (Num (fl (95/100))))"
    using saveCompositeImage_rendered [OF assms(1,2)] by blast
  then show ?thesis using assms(3) by (simp add: toBlob_callback_def)
qed

theorem export_download_witness:
  "outcome_encoding (snd (saveCompositeImage \<lparr>container = Some (1600, 900), context2d = True\<rparr>
                            scenarioA_state)) = Some (''image/png'', Num (fl (95/100)))
   \<and> snd (toBlob_callback True
            (fst (saveCompositeImage \<lparr>container = Some (1600, 900), context2d = True\<rparr>
                    scenarioA_state))) = Some ''imagem-combinada.png''"
  using export_download
    [of scenarioA_state "\<lparr>container = Some (1600, 900), context2d = True\<rparr>"]
    canSave_scenarioA
  by (simp add: scenarioA_state_def initial_state_def)

text \<open>The file name of the download of scenario A is not \<open>combined-image.png\<close>.\<close>

theorem export_filename_counterexample:
  "snd (toBlob_callback True
          (fst (saveCompositeImage \<lparr>container = Some (1600, 900), context2d = True\<rparr>
                  scenarioA_state))) = Some ''imagem-combinada.png''
   \<and> ''imagem-combinada.png'' \<noteq> ''combined-image.png''"
proof -
  obtain ops where "saveCompositeImage \<lparr>container = Some (1600, 900), context2d = True\<rparr>
        scenarioA_state =
           (scenarioA_state\<lparr>isSaving := True, saveError := None\<rparr>,
            Rendered (fst (finalDimensions
                 \<lparr>naturalWidth = 800, naturalHeight = 600, img_src = ''blob:left''\<rparr>
                 \<lparr>naturalWidth = 1200, naturalHeight = 900, img_src = ''blob:right''\<rparr>
                 \<lparr>container = Some (1600, 900), context2d = True\<rparr>))
              (snd (finalDimensions
                 \<lparr>naturalWidth = 800, naturalHeight = 600, img_src = ''blob:left''\<rparr>
                 \<lparr>naturalWidth = 1200, naturalHeight = 900, img_src = ''blob:right''\<rparr>
                 \<lparr>container = Some (1600, 900), context2d = True\<rparr>)) ops
              ''image/png'' (Num (fl (95/100))))"
    using saveCompositeImage_rendered
      [of scenarioA_state "\<lparr>container = Some (1600, 900), context2d = True\<rparr>"
        "\<lparr>naturalWidth = 800, naturalHeight = 600, img_src = ''blob:left''\<rparr>"
        "\<lparr>naturalWidth = 1200, naturalHeight = 900, img_src = ''blob:right''\<rparr>"]
      canSave_scenarioA
    by (auto simp: scenarioA_state_def initial_state_def)
  then show ?thesis
    by (simp add: toBlob_callback_def scenarioA_state_def initial_state_def)
qed

section \<open>The distance of two touches\<close>

lemma calculateDistance_Num:
  "calculateDistance t0 t1 =
     Num (fl (sqrt (fl (fl (fl (clientX t0 - clientX t1) * fl (clientX t0 - clientX t1))
                        + fl (fl (clientY t0 - clientY t1) * fl (clientY t0 - clientY t1))))))"
proof -
  have "0 \<le> fl (fl (clientX t0 - clientX t1) * fl (clientX t0 - clientX t1))
           + fl (fl (clientY t0 - clientY t1) * fl (clientY t0 - clientY t1))"
    by (rule add_nonneg_nonneg) simp_all
  then show ?thesis
    by (simp add: calculateDistance_def Let_def js_sub_Num not_less del: fl_ge_0_iff)
qed

lemma calculateDistance_pos:
  assumes "(clientX t0, clientY t0) \<noteq> (clientX t1, clientY t1)"
  shows "\<exists>d. calculateDistance t0 t1 = Num d \<and> 0 < d"
proof -
  define a where "a = fl (fl (clientX t0 - clientX t1) * fl (clientX t0 - clientX t1))"
  define b where "b = fl (fl (clientY t0 - clientY t1) * fl (clientY t0 - clientY t1))"
  have nonneg: "0 \<le> a" "0 \<le> b" by (simp_all add: a_def b_def)
  have "clientX t0 - clientX t1 \<noteq> 0 \<or> clientY t0 - clientY t1 \<noteq> 0"
    using assms by auto
  then have "0 < a \<or> 0 < b"
    by (auto simp: a_def b_def zero_less_mult_iff)
  then have "0 < a + b" using nonneg by linarith
  then have "0 < fl (sqrt (fl (a + b)))" by simp
  then show ?thesis
    unfolding calculateDistance_Num a_def [symmetric] b_def [symmetric] by simp
qed

lemma dragging_left_eq:
  "dragging_left = initial_gesture\<lparr>activeDrag := Some Left, dragStart := (100, 100),
                                   isTouching := True\<rparr>"
  by (simp add: dragging_left_def handleTouchStart_def handleInteractionStart_def
        scenarioC_state_def initial_state_def initial_gesture_def Let_def)

section \<open>C5: a second touch turns a drag into a pinch\<close>

text \<open>
  C5 (amended). While a one-finger drag is under way, a touch start with two touches on
  the left or right area, whose slot holds a media element, cancels the drag and starts
  a pinch on that slot: the baseline is the distance of the two touches and the zoom
  snapshot is the slot's zoom. If the two touches are at different points, every later
  pinch move with two touches sets the slot's zoom to the snapshot times the ratio of the
  current distance to the baseline, clamped to [10, 500].
\<close>

theorem pinch_preempts_drag:
  assumes side: "type = Left \<or> type = Right"
    and target: "target_area e = Some type"
    and two: "touches e = [t0, t1]"
    and media: "mediaExists type s"
    and drag: "activeDrag g = Some d" "isTouching g"
  shows "(let g' = handleTouchStart e type s g
          in activeDrag g' = None \<and> isPinching g' \<and> \<not> isTouching g'
             \<and> pinchSide g' = Some type
             \<and> initialPinchDistance g' = calculateDistance t0 t1
             \<and> zoomAtPinchStart g' = zoomOf type s
             \<and> ((clientX t0, clientY t0) \<noteq> (clientX t1, clientY t1) \<longrightarrow>
                  (\<forall>s1 m rect u0 u1. touches m = [u0, u1] \<longrightarrow>
                     zoomOf type (handleTouchMove m rect g' s1) =
                       clamp (js_mul (zoomOf type s)
                                (js_div (calculateDistance u0 u1) (calculateDistance t0 t1)))
                         (Num 10) (Num 500))))"
proof -
  define g' where "g' = handleTouchStart e type s g"
  have notlogo: "type \<noteq> Logo" using side by auto
  have g'_eq: "g' = g\<lparr>activeDrag := None, isPinching := True, isTouching := False,
                       pinchSide := Some type,
                       initialPinchDistance := calculateDistance t0 t1,
                       zoomAtPinchStart := zoomOf type s\<rparr>"
    using side target two media drag
    by (auto simp: g'_def handleTouchStart_def handleDragEnd_def Let_def)
  have start: "activeDrag g' = None" "isPinching g'" "\<not> isTouching g'"
    "pinchSide g' = Some type" "initialPinchDistance g' = calculateDistance t0 t1"
    "zoomAtPinchStart g' = zoomOf type s"
    by (simp_all add: g'_eq)
  have move: "zoomOf type (handleTouchMove m rect g' s1) =
        clamp (js_mul (zoomOf type s)
                 (js_div (calculateDistance u0 u1) (calculateDistance t0 t1)))
          (Num 10) (Num 500)"
    if distinct: "(clientX t0, clientY t0) \<noteq> (clientX t1, clientY t1)"
      and m: "touches m = [u0, u1]" for s1 m rect u0 u1
  proof -
    obtain d0 where d0: "calculateDistance t0 t1 = Num d0" "0 < d0"
      using calculateDistance_pos [OF distinct] by blast
    show ?thesis
      using side d0(2)
      by (auto simp: handleTouchMove_def start m d0(1) Let_def MIN_ZOOM_def MAX_ZOOM_def
            js_eq_def)
  qed
  show ?thesis
    unfolding Let_def g'_def [symmetric] using start move by blast
qed

theorem pinch_preempts_drag_witness:
  "(let g' = handleTouchStart
               \<lparr>touches = [\<lparr>clientX = 100, clientY = 100\<rparr>, \<lparr>clientX = 101, clientY = 100\<rparr>],
                target_area = Some Left, target_in_logo = False\<rparr>
               Left scenarioC_state dragging_left
    in activeDrag g' = None \<and> isPinching g' \<and> pinchSide g' = Some Left
       \<and> initialPinchDistance g' = Num 1 \<and> zoomAtPinchStart g' = Num 100
       \<and> leftZoom (handleTouchMove
            \<lparr>touches = [\<lparr>clientX = 100, clientY = 100\<rparr>, \<lparr>clientX = 102, clientY = 100\<rparr>],
             target_area = Some Left, target_in_logo = False\<rparr>
            (Some (800, 450)) g' scenarioC_state) = Num 200)"
proof -
  have media: "mediaExists Left scenarioC_state"
    by (simp add: scenarioC_state_def)
  have drag: "activeDrag dragging_left = Some Left" "isTouching dragging_left"
    by (simp_all add: dragging_left_eq)
  have z: "zoomOf Left scenarioC_state = Num 100"
    by (simp add: scenarioC_state_def initial_state_def)
  have d1: "calculateDistance \<lparr>clientX = 100, clientY = 100\<rparr> \<lparr>clientX = 101, clientY = 100\<rparr> = Num 1"
    by (simp add: calculateDistance_Num)
  have d2: "calculateDistance \<lparr>clientX = 100, clientY = 100\<rparr> \<lparr>clientX = 102, clientY = 100\<rparr> = Num 2"
    by (simp add: calculateDistance_Num)
  show ?thesis
    using pinch_preempts_drag
      [of Left "\<lparr>touches = [\<lparr>clientX = 100, clientY = 100\<rparr>, \<lparr>clientX = 101, clientY = 100\<rparr>],
                target_area = Some Left, target_in_logo = False\<rparr>"
          "\<lparr>clientX = 100, clientY = 100\<rparr>" "\<lparr>clientX = 101, clientY = 100\<rparr>"
          scenarioC_state dragging_left Left, OF _ _ _ media drag]
    unfolding Let_def z d1
    by (simp add: d2 clamp_Num)
qed

text \<open>
  Without the two conditions the claim fails. In scenario C a second touch on the empty
  right slot leaves the drag of the left slot active and starts no pinch. And when the
  two touches of a pinch start coincide, the baseline is 0 and a pinch move leaves the
  zoom at 100, where the ratio formula gives 500.
\<close>

theorem pinch_preempts_drag_counterexample:
  "activeDrag (handleTouchStart
      \<lparr>touches = [\<lparr>clientX = 100, clientY = 100\<rparr>, \<lparr>clientX = 500, clientY = 100\<rparr>],
       target_area = Some Right, target_in_logo = False\<rparr>
      Right scenarioC_state dragging_left) = Some Left
   \<and> \<not> isPinching (handleTouchStart
      \<lparr>touches = [\<lparr>clientX = 100, clientY = 100\<rparr>, \<lparr>clientX = 500, clientY = 100\<rparr>],
       target_area = Some Right, target_in_logo = False\<rparr>
      Right scenarioC_state dragging_left)
   \<and> leftZoom (handleTouchMove
        \<lparr>touches = [\<lparr>clientX = 100, clientY = 100\<rparr>, \<lparr>clientX = 102, clientY = 100\<rparr>],
         target_area = Some Left, target_in_logo = False\<rparr>
        (Some (800, 450))
        (handleTouchStart
           \<lparr>touches = [\<lparr>clientX = 100, clientY = 100\<rparr>, \<lparr>clientX = 100, clientY = 100\<rparr>],
            target_area = Some Left, target_in_logo = False\<rparr>
           Left scenarioC_state dragging_left)
        scenarioC_state) = Num 100
   \<and> clamp (js_mul (Num 100)
        (js_div (calculateDistance \<lparr>clientX = 100, clientY = 100\<rparr> \<lparr>clientX = 102, clientY = 100\<rparr>)
                (calculateDistance \<lparr>clientX = 100, clientY = 100\<rparr> \<lparr>clientX = 100, clientY = 100\<rparr>)))
        (Num 10) (Num 500) = Num 500"
  by (simp add: handleTouchStart_def handleTouchMove_def handleDragEnd_def dragging_left_eq
        scenarioC_state_def initial_state_def initial_gesture_def calculateDistance_Num
        Let_def clamp_def Math_max_def Math_min_def signed_inf_def)

section \<open>Stored focus and position values stay in their domains\<close>

lemma in_rangeE:
  assumes "in_range lo hi v"
  obtains r where "v = Num r" "lo \<le> r" "r \<le> hi"
  using assms by (cases v) simp_all

lemma in_range_clamp: "lo \<le> hi \<Longrightarrow> in_range lo hi (clamp (Num a) (Num lo) (Num hi))"
  by (simp add: clamp_Num)

lemma js_or_element_pos:
  "\<exists>r. js_or (elementWidth el) (Num 1) = Num r \<and> 0 < r"
  "\<exists>r. js_or (elementHeight el) (Num 1) = Num r \<and> 0 < r"
  by (cases el; simp)+

lemma panMedia_in_domain:
  assumes pan: "panMedia (Num dx) (Num dy) phw ch ad s el zoom f0 = Some f"
    and dom: "focus_in_domain f0"
  shows "focus_in_domain f"
proof -
  obtain sw where sw: "js_or (elementWidth el) (Num 1) = Num sw" "0 < sw"
    using js_or_element_pos(1) by blast
  obtain sh where sh: "js_or (elementHeight el) (Num 1) = Num sh" "0 < sh"
    using js_or_element_pos(2) by blast
  obtain a where a: "xc f0 = Num a"
    using dom unfolding focus_in_domain_def by (auto elim: in_rangeE)
  obtain b where b: "yc f0 = Num b"
    using dom unfolding focus_in_domain_def by (auto elim: in_rangeE)
  define F where "F = js_mul (if js_gt (js_div (Num sw) (Num sh)) (js_div phw ch)
                              then js_div ch (Num sh) else js_div phw (Num sw))
                             (js_div zoom (Num 100))"
  have ok: "\<not> (js_le F (Num 0) \<or> \<not> Number_isFinite F)"
    using pan unfolding panMedia_def Let_def sw sh F_def [symmetric]
    by (auto split: if_splits)
  then obtain fs where fs: "F = Num fs" "0 < fs" by (rule final_scale_positive)
  have f_eq: "f = \<lparr>xc = clamp (js_sub (Num a) (js_div (Num dx) (js_mul (Num sw) (Num fs))))
                          (Num 0) (Num 1),
                   yc = clamp (js_sub (Num b) (js_div (Num dy) (js_mul (Num sh) (Num fs))))
                          (Num 0) (Num 1)\<rparr>"
    using pan unfolding panMedia_def Let_def sw sh F_def [symmetric] fs a b
    by (auto split: if_splits)
  show ?thesis
    unfolding f_eq focus_in_domain_def using sw(2) sh(2) fs(2)
    by (simp add: clamp_Num)
qed

lemma handleDragMove_left:
  assumes "focus_in_domain (leftRelativeFocus s)" "focus_in_domain (initialDragFocus g)"
  shows "focus_in_domain (leftRelativeFocus (handleDragMove cx cy rect g s))"
  using assms
  by (auto simp: handleDragMove_def Let_def split: option.splits
           dest: panMedia_in_domain)

lemma handleDragMove_right:
  assumes "focus_in_domain (rightRelativeFocus s)" "focus_in_domain (initialDragFocus g)"
  shows "focus_in_domain (rightRelativeFocus (handleDragMove cx cy rect g s))"
  using assms
  by (auto simp: handleDragMove_def Let_def split: option.splits
           dest: panMedia_in_domain)

lemma clamp_add_in_range:
  assumes "in_range 0 100 p"
  shows "in_range 0 100 (clamp (js_add p (Num q)) (Num 0) (Num 100))"
  using assms by (auto elim!: in_rangeE simp: clamp_Num)

lemma percent_delta_Num:
  assumes "0 < w"
  shows "\<exists>q. js_mul (js_div (js_sub (Num a) (Num b)) (Num w)) (Num 100) = Num q"
  using assms by simp

lemma handleDragMove_logo:
  assumes "position_in_domain (logoPosition s)" "position_in_domain (initialLogoPos g)"
  shows "position_in_domain (logoPosition (handleDragMove cx cy rect g s))"
proof (cases rect)
  case None
  then show ?thesis using assms by (simp add: handleDragMove_def Let_def)
next
  case (Some wh)
  obtain w h where wh: "wh = (w, h)" by (cases wh)
  show ?thesis
  proof (cases "0 < w \<and> 0 < h")
    case False
    then show ?thesis using assms by (auto simp: handleDragMove_def Let_def Some wh)
  next
    case True
    obtain qx where qx: "js_mul (js_div (js_sub (Num cx) (Num (fst (dragStart g)))) (Num w))
                           (Num 100) = Num qx"
      using percent_delta_Num [of w] True by blast
    obtain qy where qy: "js_mul (js_div (js_sub (Num cy) (Num (snd (dragStart g)))) (Num h))
                           (Num 100) = Num qy"
      using percent_delta_Num [of h] True by blast
    have lx: "in_range 0 100 (clamp (js_add (xc (initialLogoPos g)) (Num qx)) (Num 0) (Num 100))"
      and ly: "in_range 0 100 (clamp (js_add (yc (initialLogoPos g)) (Num qy)) (Num 0) (Num 100))"
      using assms(2) unfolding position_in_domain_def
      by (auto intro: clamp_add_in_range)
    show ?thesis
      unfolding handleDragMove_def Let_def Some wh option.case prod.case qx qy
      using assms(1) lx ly
      by (auto simp: position_in_domain_def split: option.splits)
  qed
qed

lemma handleDragMove_stored:
  assumes "stored_in_domain (s, g)"
  shows "stored_in_domain (handleDragMove cx cy rect g s, g)"
  using assms handleDragMove_left [of s g cx cy rect] handleDragMove_right [of s g cx cy rect]
    handleDragMove_logo [of s g cx cy rect]
  by (simp add: stored_in_domain_def)

lemma handleInteractionStart_stored:
  assumes "stored_in_domain (s, g)"
  shows "stored_in_domain (s, fst (handleInteractionStart cx cy type isTouch s g))"
  using assms
  by (cases type) (simp_all add: handleInteractionStart_def stored_in_domain_def Let_def)

lemma handleDragEnd_snapshots [simp]:
  "initialDragFocus (handleDragEnd g) = initialDragFocus g"
  "initialLogoPos (handleDragEnd g) = initialLogoPos g"
  by (simp_all add: handleDragEnd_def)

lemma handleMouseDown_stored:
  assumes "stored_in_domain (s, g)"
  shows "stored_in_domain (s, handleMouseDown e type s g)"
  using assms handleInteractionStart_stored [OF assms]
  by (simp add: handleMouseDown_def Let_def)

lemma handleTouchStart_stored:
  assumes "stored_in_domain (s, g)"
  shows "stored_in_domain (s, handleTouchStart e type s g)"
proof -
  have pinch: "stored_in_domain (s, g1\<lparr>isPinching := a, isTouching := b, pinchSide := c,
                      initialPinchDistance := d, zoomAtPinchStart := z\<rparr>)"
    if "g1 = g \<or> g1 = handleDragEnd g" for g1 a b c d z
    using that assms by (auto simp: stored_in_domain_def)
  show ?thesis
    unfolding handleTouchStart_def Let_def
    using assms handleInteractionStart_stored [OF assms] pinch
    by simp
qed

lemma handleMouseUp_stored:
  assumes "stored_in_domain (s, g)"
  shows "stored_in_domain (s, handleMouseUp b g)"
  using assms by (simp add: handleMouseUp_def stored_in_domain_def Let_def)

lemma handleTouchEnd_stored:
  assumes "stored_in_domain (s, g)"
  shows "stored_in_domain (s, handleTouchEnd n g)"
  using assms by (simp add: handleTouchEnd_def stored_in_domain_def Let_def)

lemma handleMouseMove_stored:
  assumes "stored_in_domain (s, g)"
  shows "stored_in_domain (handleMouseMove cx cy rect g s, g)"
  using assms handleDragMove_stored [OF assms]
  by (simp add: handleMouseMove_def)

lemma handleTouchMove_stored:
  assumes "stored_in_domain (s, g)"
  shows "stored_in_domain (handleTouchMove e rect g s, g)"
  using assms handleDragMove_stored [OF assms]
  by (simp add: handleTouchMove_def stored_in_domain_def Let_def)

lemma handleWheelZoom_stored:
  assumes "stored_in_domain (s, g)"
  shows "stored_in_domain (handleWheelZoom deltaY side s, g)"
  using assms by (simp add: handleWheelZoom_def stored_in_domain_def Let_def)

lemma zoomSlider_stored:
  assumes "stored_in_domain (s, g)"
  shows "stored_in_domain (zoomSlider side v s, g)"
  using assms by (cases side) (simp_all add: stored_in_domain_def)

lemma logoPositionInput_stored:
  assumes "stored_in_domain (s, g)"
  shows "stored_in_domain (logoPositionXInput v s, g)"
    and "stored_in_domain (logoPositionYInput v s, g)"
  using assms
  by (simp_all add: logoPositionXInput_def logoPositionYInput_def stored_in_domain_def
        position_in_domain_def clamp_Num)

lemma loadMediaEffect_begin_focus:
  "leftRelativeFocus (fst (loadMediaEffect_begin side u t s)) =
     (if side = Left then \<lparr>xc = Num (1/2), yc = Num (1/2)\<rparr> else leftRelativeFocus s)"
  "rightRelativeFocus (fst (loadMediaEffect_begin side u t s)) =
     (if side = Right then \<lparr>xc = Num (1/2), yc = Num (1/2)\<rparr> else rightRelativeFocus s)"
  "logoPosition (fst (loadMediaEffect_begin side u t s)) =
     (if side = Logo then \<lparr>xc = Num 50, yc = Num 90\<rparr> else logoPosition s)"
  by (cases side; simp add: loadMediaEffect_begin_def Let_def)+

lemma loadLogoEffect_begin_focus:
  "leftRelativeFocus (fst (loadLogoEffect_begin u s)) = leftRelativeFocus s"
  "rightRelativeFocus (fst (loadLogoEffect_begin u s)) = rightRelativeFocus s"
  "logoPosition (fst (loadLogoEffect_begin u s)) = \<lparr>xc = Num 50, yc = Num 90\<rparr>"
  by (simp_all add: loadLogoEffect_begin_def Let_def)

lemma default_in_domain [simp]:
  "focus_in_domain \<lparr>xc = Num (1/2), yc = Num (1/2)\<rparr>"
  "position_in_domain \<lparr>xc = Num 50, yc = Num 90\<rparr>"
  by (simp_all add: focus_in_domain_def position_in_domain_def)

lemma onFileSelect_stored:
  assumes "stored_in_domain (s, g)"
  shows "stored_in_domain (fst (onFileSelectLeft result t s), g)"
    and "stored_in_domain (fst (onFileSelectRight result t s), g)"
    and "stored_in_domain (fst (onFileSelectLogo result s), g)"
  using assms
  by (simp_all add: onFileSelectLeft_def onFileSelectRight_def onFileSelectLogo_def
        stored_in_domain_def Let_def loadMediaEffect_begin_focus loadLogoEffect_begin_focus)

lemma loadEffect_settle_focus:
  "leftRelativeFocus (loadEffect_settle side result obj s) = leftRelativeFocus s"
  "rightRelativeFocus (loadEffect_settle side result obj s) = rightRelativeFocus s"
  "logoPosition (loadEffect_settle side result obj s) = logoPosition s"
  by (cases side; cases result; simp add: loadEffect_settle_def Let_def)+

lemma loadEffect_settle_stored:
  assumes "stored_in_domain (s, g)"
  shows "stored_in_domain (loadEffect_settle side result obj s, g)"
  using assms by (simp add: stored_in_domain_def loadEffect_settle_focus)

lemma ui_step_stored:
  assumes "stored_in_domain st"
  shows "stored_in_domain (ui_step e st)"
proof -
  obtain s g where st: "st = (s, g)" by (cases st)
  show ?thesis
    using assms unfolding st
    by (cases e)
       (simp_all add: handleMouseDown_stored handleMouseMove_stored handleMouseUp_stored
          handleTouchStart_stored handleTouchMove_stored handleTouchEnd_stored
          handleWheelZoom_stored logoPositionInput_stored zoomSlider_stored
          onFileSelect_stored loadEffect_settle_stored)
qed

lemma ui_run_stored:
  "stored_in_domain st \<Longrightarrow> stored_in_domain (ui_run evs st)"
  by (induction evs arbitrary: st) (simp_all add: ui_step_stored)

lemma initial_stored: "stored_in_domain (initial_state, initial_gesture)"
  by (simp add: stored_in_domain_def initial_state_def initial_gesture_def)

section \<open>C7: stored focus and position values are clamped\<close>

text \<open>
  C7. After any sequence of events from the initial state, both focus points lie in
  \<open>[0,1] \<times> [0,1]\<close> and the logo position in \<open>[0,100] \<times> [0,100]\<close> (as do the
  snapshots a drag keeps); in particular a drag move stores only such values. A numeric
  input of the control panel stores the typed value \<open>v\<close> clamped to \<open>[0,100]\<close>, that is
  \<open>min (max v 0) 100\<close>, as the coordinate it edits and changes nothing else, so the stored
  coordinate lies in \<open>[0,100]\<close>; entering 150 and -10 stores the position (100, 0).
\<close>

theorem stored_focus_and_position_in_domain:
  "stored_in_domain (ui_run evs (initial_state, initial_gesture))
   \<and> (stored_in_domain (s, g) \<longrightarrow> stored_in_domain (handleDragMove cx cy rect g s, g))
   \<and> logoPositionXInput v s
       = s\<lparr>logoPosition := (logoPosition s)\<lparr>xc := Num (min (max v 0) 100)\<rparr>\<rparr>
   \<and> logoPositionYInput v s
       = s\<lparr>logoPosition := (logoPosition s)\<lparr>yc := Num (min (max v 0) 100)\<rparr>\<rparr>
   \<and> in_range 0 100 (xc (logoPosition (logoPositionXInput v s)))
   \<and> in_range 0 100 (yc (logoPosition (logoPositionYInput v s)))
   \<and> logoPosition (logoPositionYInput (- 10) (logoPositionXInput 150 s))
       = \<lparr>xc = Num 100, yc = Num 0\<rparr>"
proof (intro conjI impI)
  show "logoPositionXInput v s
       = s\<lparr>logoPosition := (logoPosition s)\<lparr>xc := Num (min (max v 0) 100)\<rparr>\<rparr>"
    by (simp add: logoPositionXInput_def clamp_Num)
next
  show "logoPositionYInput v s
       = s\<lparr>logoPosition := (logoPosition s)\<lparr>yc := Num (min (max v 0) 100)\<rparr>\<rparr>"
    by (simp add: logoPositionYInput_def clamp_Num)
next
  show "stored_in_domain (ui_run evs (initial_state, initial_gesture))"
    by (rule ui_run_stored [OF initial_stored])
next
  assume "stored_in_domain (s, g)"
  then show "stored_in_domain (handleDragMove cx cy rect g s, g)"
    by (rule handleDragMove_stored)
next
  show "in_range 0 100 (xc (logoPosition (logoPositionXInput v s)))"
    by (simp add: logoPositionXInput_def clamp_Num)
next
  show "in_range 0 100 (yc (logoPosition (logoPositionYInput v s)))"
    by (simp add: logoPositionYInput_def clamp_Num)
next
  show "logoPosition (logoPositionYInput (- 10) (logoPositionXInput 150 s))
       = \<lparr>xc = Num 100, yc = Num 0\<rparr>"
    by (simp add: logoPositionXInput_def logoPositionYInput_def clamp_Num)
qed

lemma drag_run_example:
  "leftRelativeFocus (fst (ui_run
      [FileSelectLeft ''data:image/png;base64,AAAA'' image,
       LoadSettled Left
         (Resolved (Some (Image \<lparr>naturalWidth = 800, naturalHeight = 600,
                                  img_src = ''blob:left''\<rparr>)))
         (Some ''blob:left''),
       MouseDown \<lparr>button = 0, mouseX = 100, mouseY = 100,
                  mouse_target_area = Some Left, mouse_target_in_logo = False\<rparr> Left,
       MouseMove 500 100 (Some (800, 450))]
      (initial_state, initial_gesture))) = \<lparr>xc = Num 0, yc = Num (1/2)\<rparr>"
  by (simp add: onFileSelectLeft_def loadMediaEffect_begin_def loadEffect_settle_def
        handleMouseDown_def handleInteractionStart_def handleMouseMove_def handleDragMove_def
        panMedia_def initial_state_def initial_gesture_def Let_def string_falsy_def
        cleanupObjectURL_def clamp_Num fl_4_3 fl_8_9 fl_3_4 fl_2_3 fl_one_half)

theorem stored_focus_and_position_in_domain_witness:
  "stored_in_domain (ui_run
      [FileSelectLeft ''data:image/png;base64,AAAA'' image,
       LoadSettled Left
         (Resolved (Some (Image \<lparr>naturalWidth = 800, naturalHeight = 600,
                                  img_src = ''blob:left''\<rparr>)))
         (Some ''blob:left''),
       MouseDown \<lparr>button = 0, mouseX = 100, mouseY = 100,
                  mouse_target_area = Some Left, mouse_target_in_logo = False\<rparr> Left,
       MouseMove 500 100 (Some (800, 450))]
      (initial_state, initial_gesture))
   \<and> leftRelativeFocus (fst (ui_run
      [FileSelectLeft ''data:image/png;base64,AAAA'' image,
       LoadSettled Left
         (Resolved (Some (Image \<lparr>naturalWidth = 800, naturalHeight = 600,
                                  img_src = ''blob:left''\<rparr>)))
         (Some ''blob:left''),
       MouseDown \<lparr>button = 0, mouseX = 100, mouseY = 100,
                  mouse_target_area = Some Left, mouse_target_in_logo = False\<rparr> Left,
       MouseMove 500 100 (Some (800, 450))]
      (initial_state, initial_gesture))) = \<lparr>xc = Num 0, yc = Num (1/2)\<rparr>
   \<and> logoPosition (logoPositionXInput 30 initial_state) = \<lparr>xc = Num 30, yc = Num 90\<rparr>
   \<and> logoPosition (logoPositionYInput 30 initial_state) = \<lparr>xc = Num 50, yc = Num 30\<rparr>
   \<and> logoPosition (logoPositionYInput (- 10) (logoPositionXInput 150 initial_state))
       = \<lparr>xc = Num 100, yc = Num 0\<rparr>"
  using stored_focus_and_position_in_domain
    [of "[FileSelectLeft ''data:image/png;base64,AAAA'' image,
       LoadSettled Left
         (Resolved (Some (Image \<lparr>naturalWidth = 800, naturalHeight = 600,
                                  img_src = ''blob:left''\<rparr>)))
         (Some ''blob:left''),
       MouseDown \<lparr>button = 0, mouseX = 100, mouseY = 100,
                  mouse_target_area = Some Left, mouse_target_in_logo = False\<rparr> Left,
       MouseMove 500 100 (Some (800, 450))]" initial_state initial_gesture 0 0 None 30]
    drag_run_example
  by (simp add: initial_state_def)

section \<open>The loader's timeout\<close>

lemma settle_settled [simp]: "settled (settle r p) \<noteq> None"
  by (simp add: settle_def)

lemma cleanupAndReject_settled [simp]: "settled (cleanupAndReject err p) \<noteq> None"
  by (simp add: cleanupAndReject_def)

lemma timeout_callback_settled [simp]: "settled (timeout_callback p) \<noteq> None"
  by (simp add: timeout_callback_def Let_def)

lemma load_step_stays_settled:
  "settled p \<noteq> None \<Longrightarrow> settled (load_step e p) \<noteq> None"
  by (cases e) (simp_all add: Let_def cleanupTimeout_def split: option.splits del: not_None_eq)

lemma run_load_stays_settled:
  "settled p \<noteq> None \<Longrightarrow> settled (run_load evs p) \<noteq> None"
  by (induction evs arbitrary: p) (simp_all add: load_step_stays_settled del: not_None_eq)

text \<open>A step leaves a call pending only by letting less time pass than the timer has left,
  or by an event of an element of the other kind, which the call does not hear.\<close>

lemma load_step_pending:
  assumes "settled (load_step e p) = None" and "timeoutId p = Some d" and "0 < d"
  shows "timeoutId (load_step e p) = Some (d - elapsed [e]) \<and> elapsed [e] < d
         \<and> load_side (load_step e p) = load_side p
         \<and> load_type (load_step e p) = load_type p
         \<and> element_src (load_step e p) = element_src p"
proof (cases e)
  case (Elapse ms)
  have "ms < d"
  proof (rule ccontr)
    assume "\<not> ms < d"
    then have "load_step e p = timeout_callback p" using assms(2) Elapse by simp
    then show False using assms(1) timeout_callback_settled [of p] by simp
  qed
  then show ?thesis using assms(2) Elapse by simp
next
  case (ImgOnload w h)
  then show ?thesis
    using assms settle_settled cleanupAndReject_settled
    by (auto simp: Let_def split: if_splits)
next
  case ImgOnerror
  then show ?thesis
    using assms cleanupAndReject_settled by (auto split: if_splits)
next
  case (VideoReady w h rs)
  then show ?thesis
    using assms settle_settled cleanupAndReject_settled
    by (auto simp: Let_def split: if_splits)
next
  case VideoOnerror
  then show ?thesis
    using assms cleanupAndReject_settled by (auto split: if_splits)
qed

lemma elapsed_Cons: "elapsed (e # es) = elapsed [e] + elapsed es"
  by (cases e) simp_all

lemma run_load_pending:
  assumes "settled (run_load evs p) = None" and "timeoutId p = Some d" and "0 < d"
  shows "timeoutId (run_load evs p) = Some (d - elapsed evs) \<and> elapsed evs < d
         \<and> load_side (run_load evs p) = load_side p
         \<and> load_type (run_load evs p) = load_type p
         \<and> element_src (run_load evs p) = element_src p"
  using assms
proof (induction evs arbitrary: p d)
  case Nil
  then show ?case by simp
next
  case (Cons e es)
  have pend: "settled (load_step e p) = None"
  proof (rule ccontr)
    assume "settled (load_step e p) \<noteq> None"
    then have "settled (run_load es (load_step e p)) \<noteq> None"
      by (rule run_load_stays_settled)
    then show False using Cons.prems(1) by simp
  qed
  note st = load_step_pending [OF pend Cons.prems(2,3)]
  have "timeoutId (run_load es (load_step e p)) = Some (d - elapsed [e] - elapsed es)
        \<and> elapsed es < d - elapsed [e]
        \<and> load_side (run_load es (load_step e p)) = load_side (load_step e p)
        \<and> load_type (run_load es (load_step e p)) = load_type (load_step e p)
        \<and> element_src (run_load es (load_step e p)) = element_src (load_step e p)"
    using Cons.IH [of "load_step e p" "d - elapsed [e]"] Cons.prems(1) st by simp
  moreover from this st have "elapsed [e] + elapsed es < d" by linarith
  ultimately show ?case
    using st by (simp add: elapsed_Cons [of e es])
qed

lemma timeout_callback_halts:
  assumes "settled p = None"
  shows "element_src (timeout_callback p) = []"
    and "settled (timeout_callback p) = Some (Rejected (TimeoutLoadingMedia (load_side p)))"
    and "timeoutId (timeout_callback p) = None"
    and "video_load_calls (timeout_callback p) =
           (if load_type p = Some video then video_load_calls p + 1 else video_load_calls p)"
  using assms
  by (simp_all add: timeout_callback_def cleanupAndReject_def cleanupTimeout_def settle_def Let_def)

lemma loadEffect_settle_rejected:
  assumes "isMounted s"
  shows "\<not> isLoadingOf side (loadEffect_settle side (Rejected err) obj s)"
    and "mediaElementOf side (loadEffect_settle side (Rejected err) obj s) = None"
    and "loadErrorOf side (loadEffect_settle side (Rejected err) obj s)
           = Some (load_error_text side)"
  using assms by (cases side; simp add: loadEffect_settle_def Let_def)+

section \<open>C6: the load timeout\<close>

text \<open>
  C6. A load attempt (a call of \<open>loadMediaElement\<close> with a URL and a type) arms a timer
  of 20000 ms and is settled, whatever happens, once 20000 ms have passed. When the timer
  fires on a pending attempt, the \<open>src\<close> of the element being loaded is cleared, which
  stops the load, and the promise is rejected with the timeout error of the slot. In the
  mounted component the effect then clears the slot's loading flag, leaves the slot's
  element null and sets the slot's load error.
\<close>

theorem load_bounded_by_timeout:
  assumes url: "dataUrl \<noteq> []" and mounted: "isMounted s"
  shows "(let p0 = loadMediaElement dataUrl (Some t) side
          in timeoutId p0 = Some 20000 \<and> settled p0 = None
             \<and> (20000 \<le> elapsed evs \<longrightarrow> settled (run_load evs p0) \<noteq> None)
             \<and> (settled (run_load evs p0) = None \<and> 20000 \<le> elapsed evs + ms \<longrightarrow>
                  (let p = load_step (Elapse ms) (run_load evs p0)
                   in element_src p = []
                      \<and> settled p = Some (Rejected (TimeoutLoadingMedia side))
                      \<and> timeoutId p = None)))
       \<and> (let s' = loadEffect_settle side (Rejected (TimeoutLoadingMedia side)) obj s
          in \<not> isLoadingOf side s' \<and> mediaElementOf side s' = None
             \<and> loadErrorOf side s' = Some (load_error_text side))"
proof -
  define p0 where "p0 = loadMediaElement dataUrl (Some t) side"
  have p0: "timeoutId p0 = Some 20000" "settled p0 = None" "load_side p0 = side"
    using url by (simp_all add: p0_def loadMediaElement_def)
  have bounded: "settled (run_load evs p0) \<noteq> None" if "20000 \<le> elapsed evs"
    using run_load_pending [of evs p0 20000] p0(1) that by auto
  have fires: "element_src (load_step (Elapse ms) (run_load evs p0)) = []
      \<and> settled (load_step (Elapse ms) (run_load evs p0))
          = Some (Rejected (TimeoutLoadingMedia side))
      \<and> timeoutId (load_step (Elapse ms) (run_load evs p0)) = None"
    if pend: "settled (run_load evs p0) = None" and late: "20000 \<le> elapsed evs + ms"
  proof -
    have r: "timeoutId (run_load evs p0) = Some (20000 - elapsed evs)"
      "load_side (run_load evs p0) = side"
      using run_load_pending [OF pend p0(1)] p0(3) by simp_all
    have "load_step (Elapse ms) (run_load evs p0) = timeout_callback (run_load evs p0)"
      using r late by simp
    then show ?thesis
      using timeout_callback_halts [OF pend] r by simp
  qed
  have loader: "timeoutId p0 = Some 20000 \<and> settled p0 = None
             \<and> (20000 \<le> elapsed evs \<longrightarrow> settled (run_load evs p0) \<noteq> None)
             \<and> (settled (run_load evs p0) = None \<and> 20000 \<le> elapsed evs + ms \<longrightarrow>
                   element_src (load_step (Elapse ms) (run_load evs p0)) = []
                      \<and> settled (load_step (Elapse ms) (run_load evs p0))
                           = Some (Rejected (TimeoutLoadingMedia side))
                      \<and> timeoutId (load_step (Elapse ms) (run_load evs p0)) = None)"
    using p0 bounded fires by blast
  have slot: "\<not> isLoadingOf side (loadEffect_settle side (Rejected (TimeoutLoadingMedia side)) obj s)
      \<and> mediaElementOf side (loadEffect_settle side (Rejected (TimeoutLoadingMedia side)) obj s)
          = None
      \<and> loadErrorOf side (loadEffect_settle side (Rejected (TimeoutLoadingMedia side)) obj s)
          = Some (load_error_text side)"
    using loadEffect_settle_rejected [OF mounted] by blast
  show ?thesis
    unfolding Let_def p0_def [symmetric] using loader slot by (rule conjI)
qed

theorem load_bounded_by_timeout_witness:
  "(let p = run_load [Elapse 12000, Elapse 8000]
              (loadMediaElement ''blob:right'' (Some video) Right)
    in element_src p = [] \<and> settled p = Some (Rejected (TimeoutLoadingMedia Right))
       \<and> timeoutId p = None)
   \<and> (let s' = loadEffect_settle Right (Rejected (TimeoutLoadingMedia Right))
                 (Some ''blob:right'') scenarioB_state
       in isLoadingRight s' = False \<and> rightMediaElement s' = None
          \<and> rightLoadError s' = Some ''Error loading media.'')"
proof -
  have m: "isMounted scenarioB_state"
    by (simp add: scenarioB_state_def scenarioA_state_def initial_state_def)
  have pend: "settled (run_load [Elapse 12000]
                 (loadMediaElement ''blob:right'' (Some video) Right)) = None"
    by (simp add: loadMediaElement_def)
  have step: "run_load [Elapse 12000, Elapse 8000]
                (loadMediaElement ''blob:right'' (Some video) Right)
              = load_step (Elapse 8000) (run_load [Elapse 12000]
                  (loadMediaElement ''blob:right'' (Some video) Right))"
    by simp
  show ?thesis
    unfolding step
    using load_bounded_by_timeout
      [of "''blob:right''" scenarioB_state video Right "[Elapse 12000]" 8000
          "Some ''blob:right''", OF _ m] pend
    by (simp add: Let_def load_error_text_def del: run_load.simps load_step.simps)
qed

section \<open>A new source resets the view\<close>

lemma loadMediaEffect_begin_resets:
  "zoomOf side (fst (loadMediaEffect_begin side u t s)) = (if side = Logo then Num 10 else Num 100)"
  "mediaElementOf side (fst (loadMediaEffect_begin side u t s)) = None"
  by (cases side; simp add: loadMediaEffect_begin_def Let_def)+

lemma loadLogoEffect_begin_resets:
  "logoZoom (fst (loadLogoEffect_begin u s)) = Num 10"
  "logoElement (fst (loadLogoEffect_begin u s)) = None"
  by (simp_all add: loadLogoEffect_begin_def Let_def)

lemma loadEffect_settle_keeps_view:
  "leftZoom (loadEffect_settle side r u s) = leftZoom s
   \<and> rightZoom (loadEffect_settle side r u s) = rightZoom s
   \<and> logoZoom (loadEffect_settle side r u s) = logoZoom s
   \<and> leftRelativeFocus (loadEffect_settle side r u s) = leftRelativeFocus s
   \<and> rightRelativeFocus (loadEffect_settle side r u s) = rightRelativeFocus s
   \<and> logoPosition (loadEffect_settle side r u s) = logoPosition s"
  by (cases side; cases r; simp add: loadEffect_settle_def Let_def)

section \<open>C10: a new source resets the view parameters\<close>

text \<open>
  What is adjusted on the previous media can reach the replacement. The left slot holds
  an image at zoom 250 and a pinch is under way on it when a new source is selected: the
  load effect resets the zoom to 100, the next move of the pinch sets it to the zoom
  snapshot of the pinch times the distance ratio, 250 again, and the new element arrives
  at zoom 250.
\<close>

theorem new_source_resets_view_counterexample:
  "leftZoom (fst (ui_run
      [FileSelectLeft ''data:image/png;base64,AAAA'' image,
       LoadSettled Left
         (Resolved (Some (Image \<lparr>naturalWidth = 800, naturalHeight = 600,
                                  img_src = ''blob:left''\<rparr>)))
         (Some ''blob:left''),
       ZoomSlider Left 250,
       TouchStart
         \<lparr>touches = [\<lparr>clientX = 100, clientY = 100\<rparr>, \<lparr>clientX = 101, clientY = 100\<rparr>],
          target_area = Some Left, target_in_logo = False\<rparr> Left,
       FileSelectLeft ''data:image/png;base64,CCCC'' image]
      (initial_state, initial_gesture))) = Num 100
   \<and> leftZoom (fst (ui_run
      [FileSelectLeft ''data:image/png;base64,AAAA'' image,
       LoadSettled Left
         (Resolved (Some (Image \<lparr>naturalWidth = 800, naturalHeight = 600,
                                  img_src = ''blob:left''\<rparr>)))
         (Some ''blob:left''),
       ZoomSlider Left 250,
       TouchStart
         \<lparr>touches = [\<lparr>clientX = 100, clientY = 100\<rparr>, \<lparr>clientX = 101, clientY = 100\<rparr>],
          target_area = Some Left, target_in_logo = False\<rparr> Left,
       FileSelectLeft ''data:image/png;base64,CCCC'' image,
       TouchMove
         \<lparr>touches = [\<lparr>clientX = 100, clientY = 100\<rparr>, \<lparr>clientX = 101, clientY = 100\<rparr>],
          target_area = Some Left, target_in_logo = False\<rparr> (Some (800, 450)),
       LoadSettled Left
         (Resolved (Some (Image \<lparr>naturalWidth = 1200, naturalHeight = 900,
                                  img_src = ''blob:new''\<rparr>)))
         (Some ''blob:new'')]
      (initial_state, initial_gesture))) = Num 250
   \<and> leftMediaElement (fst (ui_run
      [FileSelectLeft ''data:image/png;base64,AAAA'' image,
       LoadSettled Left
         (Resolved (Some (Image \<lparr>naturalWidth = 800, naturalHeight = 600,
                                  img_src = ''blob:left''\<rparr>)))
         (Some ''blob:left''),
       ZoomSlider Left 250,
       TouchStart
         \<lparr>touches = [\<lparr>clientX = 100, clientY = 100\<rparr>, \<lparr>clientX = 101, clientY = 100\<rparr>],
          target_area = Some Left, target_in_logo = False\<rparr> Left,
       FileSelectLeft ''data:image/png;base64,CCCC'' image,
       TouchMove
         \<lparr>touches = [\<lparr>clientX = 100, clientY = 100\<rparr>, \<lparr>clientX = 101, clientY = 100\<rparr>],
          target_area = Some Left, target_in_logo = False\<rparr> (Some (800, 450)),
       LoadSettled Left
         (Resolved (Some (Image \<lparr>naturalWidth = 1200, naturalHeight = 900,
                                  img_src = ''blob:new''\<rparr>)))
         (Some ''blob:new'')]
      (initial_state, initial_gesture)))
     = Some (Image \<lparr>naturalWidth = 1200, naturalHeight = 900, img_src = ''blob:new''\<rparr>)"
proof -
  have d: "calculateDistance \<lparr>clientX = 100, clientY = 100\<rparr> \<lparr>clientX = 101, clientY = 100\<rparr>
           = Num 1"
    by (simp add: calculateDistance_Num)
  show ?thesis
    by (simp add: onFileSelectLeft_def loadMediaEffect_begin_def loadEffect_settle_def
        handleTouchStart_def handleTouchMove_def handleDragEnd_def d
        initial_state_def initial_gesture_def Let_def string_falsy_def
        cleanupObjectURL_def clamp_Num MIN_ZOOM_def MAX_ZOOM_def js_eq_def)
qed

text \<open>
  C10 (amended). Selecting a source that differs from the slot's current one runs the
  slot's load effect, whose first part, before anything is loaded, sets the zoom of a
  left or right slot to 100 and its focus to (0.5, 0.5), and the logo's position to
  (50, 90) and its width to 10; at that point the slot's element is null and, the source
  not being empty, the slot is marked as loading and the load follows. The end of the
  load, whatever its result, changes no zoom, focus or position. The reset is made once,
  when the effect starts: nothing keeps a gesture begun on the previous media from
  writing its values afterwards.
\<close>

theorem new_source_resets_view:
  "(leftMedia s \<noteq> Some result \<or> leftMediaType s \<noteq> Some t \<longrightarrow>
      (let s' = fst (onFileSelectLeft result t s)
       in leftZoom s' = Num 100 \<and> leftRelativeFocus s' = \<lparr>xc = Num (1/2), yc = Num (1/2)\<rparr>
          \<and> leftMediaElement s' = None \<and> isLoadingLeft s' = (result \<noteq> [])
          \<and> snd (onFileSelectLeft result t s) = (result \<noteq> [])))
   \<and> (rightMedia s \<noteq> Some result \<or> rightMediaType s \<noteq> Some t \<longrightarrow>
      (let s' = fst (onFileSelectRight result t s)
       in rightZoom s' = Num 100 \<and> rightRelativeFocus s' = \<lparr>xc = Num (1/2), yc = Num (1/2)\<rparr>
          \<and> rightMediaElement s' = None \<and> isLoadingRight s' = (result \<noteq> [])
          \<and> snd (onFileSelectRight result t s) = (result \<noteq> [])))
   \<and> (logo s \<noteq> Some result \<longrightarrow>
      (let s' = fst (onFileSelectLogo result s)
       in logoPosition s' = \<lparr>xc = Num 50, yc = Num 90\<rparr> \<and> logoZoom s' = Num 10
          \<and> logoElement s' = None \<and> isLoadingLogo s' = (result \<noteq> [])
          \<and> snd (onFileSelectLogo result s) = (result \<noteq> [])))
   \<and> (let s' = loadEffect_settle side r u s
       in leftZoom s' = leftZoom s \<and> rightZoom s' = rightZoom s \<and> logoZoom s' = logoZoom s
          \<and> leftRelativeFocus s' = leftRelativeFocus s
          \<and> rightRelativeFocus s' = rightRelativeFocus s
          \<and> logoPosition s' = logoPosition s)"
proof (intro conjI impI)
  assume "leftMedia s \<noteq> Some result \<or> leftMediaType s \<noteq> Some t"
  then show "let s' = fst (onFileSelectLeft result t s)
       in leftZoom s' = Num 100 \<and> leftRelativeFocus s' = \<lparr>xc = Num (1/2), yc = Num (1/2)\<rparr>
          \<and> leftMediaElement s' = None \<and> isLoadingLeft s' = (result \<noteq> [])
          \<and> snd (onFileSelectLeft result t s) = (result \<noteq> [])"
    by (auto simp: onFileSelectLeft_def loadMediaEffect_begin_def Let_def string_falsy_def)
next
  assume "rightMedia s \<noteq> Some result \<or> rightMediaType s \<noteq> Some t"
  then show "let s' = fst (onFileSelectRight result t s)
       in rightZoom s' = Num 100 \<and> rightRelativeFocus s' = \<lparr>xc = Num (1/2), yc = Num (1/2)\<rparr>
          \<and> rightMediaElement s' = None \<and> isLoadingRight s' = (result \<noteq> [])
          \<and> snd (onFileSelectRight result t s) = (result \<noteq> [])"
    by (auto simp: onFileSelectRight_def loadMediaEffect_begin_def Let_def string_falsy_def)
next
  assume "logo s \<noteq> Some result"
  then show "let s' = fst (onFileSelectLogo result s)
       in logoPosition s' = \<lparr>xc = Num 50, yc = Num 90\<rparr> \<and> logoZoom s' = Num 10
          \<and> logoElement s' = None \<and> isLoadingLogo s' = (result \<noteq> [])
          \<and> snd (onFileSelectLogo result s) = (result \<noteq> [])"
    by (auto simp: onFileSelectLogo_def loadLogoEffect_begin_def Let_def string_falsy_def)
next
  show "let s' = loadEffect_settle side r u s
       in leftZoom s' = leftZoom s \<and> rightZoom s' = rightZoom s \<and> logoZoom s' = logoZoom s
          \<and> leftRelativeFocus s' = leftRelativeFocus s
          \<and> rightRelativeFocus s' = rightRelativeFocus s
          \<and> logoPosition s' = logoPosition s"
    unfolding Let_def by (rule loadEffect_settle_keeps_view)
qed

theorem new_source_resets_view_witness:
  "(let s' = fst (onFileSelectLeft ''data:image/png;base64,CCCC'' image
                    (scenarioA_state\<lparr>leftZoom := Num 250,
                        leftRelativeFocus := \<lparr>xc = Num (1/4), yc = Num (3/4)\<rparr>\<rparr>))
    in leftZoom s' = Num 100 \<and> leftRelativeFocus s' = \<lparr>xc = Num (1/2), yc = Num (1/2)\<rparr>
       \<and> leftMediaElement s' = None \<and> isLoadingLeft s')
   \<and> (let s' = fst (onFileSelectLogo ''data:image/png;base64,DDDD''
                    (scenarioA_state\<lparr>logoZoom := Num 25,
                        logoPosition := \<lparr>xc = Num 10, yc = Num 10\<rparr>\<rparr>))
    in logoPosition s' = \<lparr>xc = Num 50, yc = Num 90\<rparr> \<and> logoZoom s' = Num 10
       \<and> logoElement s' = None \<and> isLoadingLogo s')
   \<and> (let s' = loadEffect_settle Left
                  (Resolved (Some (Image \<lparr>naturalWidth = 1200, naturalHeight = 900,
                                           img_src = ''blob:new''\<rparr>)))
                  (Some ''blob:new'')
                  (fst (onFileSelectLeft ''data:image/png;base64,CCCC'' image
                    (scenarioA_state\<lparr>leftZoom := Num 250,
                        leftRelativeFocus := \<lparr>xc = Num (1/4), yc = Num (3/4)\<rparr>\<rparr>)))
    in leftZoom s' = Num 100 \<and> leftRelativeFocus s' = \<lparr>xc = Num (1/2), yc = Num (1/2)\<rparr>
       \<and> leftMediaElement s'
           = Some (Image \<lparr>naturalWidth = 1200, naturalHeight = 900, img_src = ''blob:new''\<rparr>)
       \<and> \<not> isLoadingLeft s')"
  using new_source_resets_view
    [of "scenarioA_state\<lparr>leftZoom := Num 250,
            leftRelativeFocus := \<lparr>xc = Num (1/4), yc = Num (3/4)\<rparr>\<rparr>"
        "''data:image/png;base64,CCCC''" image]
    new_source_resets_view
    [of "scenarioA_state\<lparr>logoZoom := Num 25, logoPosition := \<lparr>xc = Num 10, yc = Num 10\<rparr>\<rparr>"
        "''data:image/png;base64,DDDD''" image]
  unfolding Let_def
  by (simp add: scenarioA_state_def initial_state_def loadEffect_settle_def
        onFileSelectLeft_def loadMediaEffect_begin_def string_falsy_def)

end
